theory Spec2Isabelle
  imports Complex_Main
begin

section \<open>JavaScript values\<close>

text \<open>
  A JavaScript \<open>number\<close> that carries an amount of money, a weight or a quota is
  modelled as a \<open>real\<close>. Sums, differences, quotients and comparisons of such numbers
  are exact here. A product that the code goes on to round to whole units
  (\<open>Math.round(dollars * 100)\<close>, \<open>Math.floor(dollars * 500000)\<close>) is the product
  of the machine, \<open>numberMultiply\<close> of the environment below: the rounding of a
  double product can move such a result by a whole unit, so the product is left open.
  Numbers that identify a user, count things or read the clock are \<open>int\<close>.
  The result of \<open>Number\<close> on a string is a \<open>jsnum\<close>: not a number, an infinity or a
  finite number. Strings are byte strings, the UTF-8 encoding of the JavaScript
  string: the non-ASCII literals of the source are written as their bytes.
\<close>

datatype jsnum = NaN | PosInfinity | NegInfinity | Finite real

definition Math_round :: "real \<Rightarrow> int" where
  "Math_round x = \<lfloor>x + 1 / 2\<rfloor>"

definition Math_floor :: "real \<Rightarrow> int" where
  "Math_floor x = \<lfloor>x\<rfloor>"

fun startsWith :: "string \<Rightarrow> string \<Rightarrow> bool" where
  "startsWith s [] = True"
| "startsWith [] (p # ps) = False"
| "startsWith (c # cs) (p # ps) = (c = p \<and> startsWith cs ps)"

text \<open>
  The characters \<open>String.prototype.trim\<close> removes, each as its UTF-8 bytes: the white
  space and the line terminators of ECMAScript, which are U+0009 to U+000D, U+0020,
  U+00A0, U+1680, U+2000 to U+200A, U+2028, U+2029, U+202F, U+205F, U+3000 and U+FEFF.
\<close>

definition whiteSpace :: "string list" where
  "whiteSpace =
     [[CHR 0x09], [CHR 0x0A], [CHR 0x0B], [CHR 0x0C], [CHR 0x0D], [CHR 0x20],
      [CHR 0xC2, CHR 0xA0],
      [CHR 0xE1, CHR 0x9A, CHR 0x80],
      [CHR 0xE2, CHR 0x80, CHR 0x80], [CHR 0xE2, CHR 0x80, CHR 0x81], [CHR 0xE2, CHR 0x80, CHR 0x82],
      [CHR 0xE2, CHR 0x80, CHR 0x83], [CHR 0xE2, CHR 0x80, CHR 0x84], [CHR 0xE2, CHR 0x80, CHR 0x85],
      [CHR 0xE2, CHR 0x80, CHR 0x86], [CHR 0xE2, CHR 0x80, CHR 0x87], [CHR 0xE2, CHR 0x80, CHR 0x88],
      [CHR 0xE2, CHR 0x80, CHR 0x89], [CHR 0xE2, CHR 0x80, CHR 0x8A],
      [CHR 0xE2, CHR 0x80, CHR 0xA8], [CHR 0xE2, CHR 0x80, CHR 0xA9], [CHR 0xE2, CHR 0x80, CHR 0xAF],
      [CHR 0xE2, CHR 0x81, CHR 0x9F],
      [CHR 0xE3, CHR 0x80, CHR 0x80],
      [CHR 0xEF, CHR 0xBB, CHR 0xBF]]"

text \<open>
  The number of bytes of the character of \<open>codes\<close> a string starts with, 0 when it
  starts with none of them; \<open>stripSpace\<close> removes such characters from the front as
  long as there is one.
\<close>

definition leadingSpace :: "string list \<Rightarrow> string \<Rightarrow> nat" where
  "leadingSpace codes s = (case find (startsWith s) codes of Some w \<Rightarrow> length w | None \<Rightarrow> 0)"

function stripSpace :: "string list \<Rightarrow> string \<Rightarrow> string" where
  "stripSpace codes s =
     (if leadingSpace codes s = 0 \<or> s = [] then s
      else stripSpace codes (drop (leadingSpace codes s) s))"
  by pat_completeness auto
termination
  by (relation "measure (\<lambda>(codes, s). length s)") auto

declare stripSpace.simps [simp del]

text \<open>
  \<open>String.prototype.trim\<close>: the white space is removed from the front, and from the
  end (where the bytes of a character are met in reverse).
\<close>

definition trim :: "string \<Rightarrow> string" where
  "trim s = rev (stripSpace (map rev whiteSpace) (rev (stripSpace whiteSpace s)))"

text \<open>
  \<open>String(n)\<close> and the template literal \<open>${n}\<close> of a whole number (of magnitude below
  \<open>10^21\<close>, where JavaScript prints all the digits).
\<close>

fun digits :: "nat \<Rightarrow> string" where
  "digits n =
     (if n < 10 then [''0123456789'' ! n]
      else digits (n div 10) @ [''0123456789'' ! (n mod 10)])"

declare digits.simps [simp del]

definition String_int :: "int \<Rightarrow> string" where
  "String_int i = (if i < 0 then CHR ''-'' # digits (nat (- i)) else digits (nat i))"

text \<open>
  \<open>Number(s)\<close> on a string is \<open>stringToNumber\<close> of the environment below: the grammar
  of the numeric literals of JavaScript (fractions, exponents, hexadecimal, octal and
  binary forms, \<open>Infinity\<close>) is not modelled. \<open>readDecimal\<close> is its value on the
  strings that hold a decimal whole number with an optional sign, white space trimmed,
  and on the empty string, which reads as 0; these are the strings \<open>String(n)\<close> writes.
  It serves as the reading of the sample environment, and gives \<open>NaN\<close> on every other
  string.
\<close>

definition digitValue :: "char \<Rightarrow> nat option" where
  "digitValue c = map_of (zip ''0123456789'' [0, 1, 2, 3, 4, 5, 6, 7, 8, 9]) c"

fun parseDigits :: "nat \<Rightarrow> string \<Rightarrow> nat option" where
  "parseDigits acc [] = Some acc"
| "parseDigits acc (c # cs) =
     (case digitValue c of None \<Rightarrow> None | Some d \<Rightarrow> parseDigits (10 * acc + d) cs)"

definition readDecimal :: "string \<Rightarrow> jsnum" where
  "readDecimal s =
     (case trim s of
        [] \<Rightarrow> Finite 0
      | c # cs \<Rightarrow>
          if c = CHR ''-''
          then (if cs = [] then NaN
                else (case parseDigits 0 cs of None \<Rightarrow> NaN | Some n \<Rightarrow> Finite (- of_nat n)))
          else if c = CHR ''+''
          then (if cs = [] then NaN
                else (case parseDigits 0 cs of None \<Rightarrow> NaN | Some n \<Rightarrow> Finite (of_nat n)))
          else (case parseDigits 0 (c # cs) of None \<Rightarrow> NaN | Some n \<Rightarrow> Finite (of_nat n)))"

section \<open>Configuration: tiers and the daily cap\<close>

record LotteryTier =
  tier_id :: string
  tier_name :: string
  tier_value :: real
  probability :: real
  color :: string

record LotteryConfig =
  cfg_enabled :: bool
  cfg_dailyDirectLimit :: real
  cfg_tiers :: "LotteryTier list"

text \<open>\<open>Partial<LotteryConfig>\<close>: what the store holds and what an update carries.\<close>

record PartialLotteryConfig =
  pc_enabled :: "bool option"
  pc_dailyDirectLimit :: "real option"
  pc_tiers :: "LotteryTier list option"

text \<open>The bytes of the tier names' common suffix (three CJK characters).\<close>

definition tierNameSuffix :: string where
  "tierNameSuffix = [CHR 0xE5, CHR 0x88, CHR 0x80, CHR 0xE7, CHR 0xA6, CHR 0x8F, CHR 0xE5, CHR 0x88, CHR 0xA9]"

definition DEFAULT_TIERS :: "LotteryTier list" where
  "DEFAULT_TIERS =
     [\<lparr>tier_id = ''tier_1'', tier_name = ''1'' @ tierNameSuffix, tier_value = 1, probability = 40, color = ''#22c55e''\<rparr>,
      \<lparr>tier_id = ''tier_3'', tier_name = ''3'' @ tierNameSuffix, tier_value = 3, probability = 30, color = ''#3b82f6''\<rparr>,
      \<lparr>tier_id = ''tier_5'', tier_name = ''5'' @ tierNameSuffix, tier_value = 5, probability = 18, color = ''#f59e0b''\<rparr>,
      \<lparr>tier_id = ''tier_10'', tier_name = ''10'' @ tierNameSuffix, tier_value = 10, probability = 8, color = ''#ec4899''\<rparr>,
      \<lparr>tier_id = ''tier_15'', tier_name = ''15'' @ tierNameSuffix, tier_value = 15, probability = 3, color = ''#8b5cf6''\<rparr>,
      \<lparr>tier_id = ''tier_20'', tier_name = ''20'' @ tierNameSuffix, tier_value = 20, probability = 1, color = ''#ef4444''\<rparr>]"

definition DEFAULT_CONFIG :: LotteryConfig where
  "DEFAULT_CONFIG = \<lparr>cfg_enabled = True, cfg_dailyDirectLimit = 2000, cfg_tiers = DEFAULT_TIERS\<rparr>"

definition DIRECT_AMOUNT_SCALE :: int where
  "DIRECT_AMOUNT_SCALE = 100"

definition LOTTERY_CONFIG_MAX_DAILY_LIMIT :: real where
  "LOTTERY_CONFIG_MAX_DAILY_LIMIT = 1000000"

definition LOTTERY_CONFIG_MAX_TIER_VALUE :: real where
  "LOTTERY_CONFIG_MAX_TIER_VALUE = 100000"

definition cloneDefaultLotteryConfig :: LotteryConfig where
  "cloneDefaultLotteryConfig = DEFAULT_CONFIG\<lparr>cfg_tiers := map (\<lambda>tier. tier) DEFAULT_TIERS\<rparr>"

text \<open>
  The body of the \<open>map\<close> callback of \<open>sanitizeLotteryConfig\<close>: \<open>base\<close> is the
  default tier at the same index, or the last default tier beyond the defaults.
\<close>

definition baseTier :: "LotteryTier list \<Rightarrow> nat \<Rightarrow> LotteryTier" where
  "baseTier fallbackTiers index =
     (if index < length fallbackTiers then fallbackTiers ! index else last fallbackTiers)"

definition sanitizeTier :: "LotteryTier \<Rightarrow> LotteryTier \<Rightarrow> LotteryTier" where
  "sanitizeTier base tier =
     \<lparr>tier_id = (if trim (tier_id tier) \<noteq> [] then tier_id tier else tier_id base),
      tier_name = (if trim (tier_name tier) \<noteq> [] then tier_name tier else tier_name base),
      tier_value = (if tier_value tier > 0 then min (tier_value tier) LOTTERY_CONFIG_MAX_TIER_VALUE
                    else tier_value base),
      probability = (if probability tier \<ge> 0 then probability tier else probability base),
      color = (if trim (color tier) \<noteq> [] then color tier else color base)\<rparr>"

definition sanitizeLotteryConfig :: "PartialLotteryConfig \<Rightarrow> LotteryConfig" where
  "sanitizeLotteryConfig config =
     (let fallback = cloneDefaultLotteryConfig;
          tiers' = (case pc_tiers config of
                      None \<Rightarrow> cfg_tiers fallback
                    | Some ts \<Rightarrow>
                        if length ts > 0
                        then map (\<lambda>(index, tier). sanitizeTier (baseTier (cfg_tiers fallback) index) tier)
                               (enumerate 0 ts)
                        else cfg_tiers fallback)
      in \<lparr>cfg_enabled = (case pc_enabled config of Some b \<Rightarrow> b | None \<Rightarrow> cfg_enabled fallback),
          cfg_dailyDirectLimit =
            (case pc_dailyDirectLimit config of
               Some l \<Rightarrow> if l \<ge> 0 then min l LOTTERY_CONFIG_MAX_DAILY_LIMIT else cfg_dailyDirectLimit fallback
             | None \<Rightarrow> cfg_dailyDirectLimit fallback),
          cfg_tiers = tiers'\<rparr>)"

definition toPartial :: "LotteryConfig \<Rightarrow> PartialLotteryConfig" where
  "toPartial c = \<lparr>pc_enabled = Some (cfg_enabled c), pc_dailyDirectLimit = Some (cfg_dailyDirectLimit c),
                  pc_tiers = Some (cfg_tiers c)\<rparr>"

text \<open>The object spread \<open>{ ...current, ...config }\<close> of \<open>updateLotteryConfig\<close>.\<close>

definition mergeConfig :: "LotteryConfig \<Rightarrow> PartialLotteryConfig \<Rightarrow> PartialLotteryConfig" where
  "mergeConfig current config =
     \<lparr>pc_enabled = Some (case pc_enabled config of Some b \<Rightarrow> b | None \<Rightarrow> cfg_enabled current),
      pc_dailyDirectLimit =
        Some (case pc_dailyDirectLimit config of Some l \<Rightarrow> l | None \<Rightarrow> cfg_dailyDirectLimit current),
      pc_tiers = Some (case pc_tiers config of Some ts \<Rightarrow> ts | None \<Rightarrow> cfg_tiers current)\<rparr>"

section \<open>Records, pending disbursements and the store\<close>

record LotteryRecord =
  r_id :: string
  r_linuxdoId :: string
  r_username :: string
  r_tierId :: string
  r_tierName :: string
  r_tierValue :: real
  r_directCredit :: bool
  r_creditedQuota :: "real option"
  r_createdAt :: real

text \<open>
  \<open>StoredLotteryRecord\<close>: \<open>Partial<LotteryRecord>\<close> with the legacy field \<open>oderId\<close>.
  Every field is absent (\<open>None\<close>) or has its declared type; the store holds JSON, so a
  stored number is finite.
\<close>

record StoredLotteryRecord =
  s_id :: "string option"
  s_linuxdoId :: "string option"
  s_oderId :: "string option"
  s_username :: "string option"
  s_tierId :: "string option"
  s_tierName :: "string option"
  s_tierValue :: "real option"
  s_directCredit :: "bool option"
  s_creditedQuota :: "real option"
  s_createdAt :: "real option"

text \<open>What \<open>kv.lpush(key, record)\<close> writes for a \<open>LotteryRecord\<close>: its JSON.\<close>

definition toStored :: "LotteryRecord \<Rightarrow> StoredLotteryRecord" where
  "toStored r =
     \<lparr>s_id = Some (r_id r), s_linuxdoId = Some (r_linuxdoId r), s_oderId = None,
      s_username = Some (r_username r), s_tierId = Some (r_tierId r), s_tierName = Some (r_tierName r),
      s_tierValue = Some (r_tierValue r), s_directCredit = Some (r_directCredit r),
      s_creditedQuota = r_creditedQuota r, s_createdAt = Some (r_createdAt r)\<rparr>"

record PendingLotteryRecord =
  p_record :: LotteryRecord
  p_newApiUserId :: int
  p_expectedQuota :: real
  p_reservationDay :: string
  p_storedAt :: int

text \<open>
  An element of the pending list as the reconciler reads it: the element may be null
  (\<open>None\<close> in the list), its \<open>record\<close> may be missing and its \<open>newApiUserId\<close> may
  not be a number; the reconciler tests for exactly these.
\<close>

record StoredPending =
  sp_record :: "LotteryRecord option"
  sp_newApiUserId :: "int option"
  sp_expectedQuota :: real
  sp_reservationDay :: string
  sp_storedAt :: int

definition pendingToStored :: "PendingLotteryRecord \<Rightarrow> StoredPending" where
  "pendingToStored p =
     \<lparr>sp_record = Some (p_record p), sp_newApiUserId = Some (p_newApiUserId p),
      sp_expectedQuota = p_expectedQuota p, sp_reservationDay = p_reservationDay p,
      sp_storedAt = p_storedAt p\<rparr>"

text \<open>
  Modelled from the spec: the key-value store adapter (\<open>./redis\<close>), which is not part
  of the sources. It offers get, set with NX and TTL, delete, increment and decrement,
  list push, trim, range and length, and atomic scripts. One field stands for each
  family of keys the program uses; a key that is absent reads as \<open>None\<close>, an absent list
  as the empty list. The store holds unexpired keys only: a key whose TTL has run out
  is gone. Store commands are taken to succeed, so the \<open>catch\<close> blocks that only guard
  a store command have no branch here. \<open>proc_totalRecordsInit\<close> is not a key: it is the
  module variable \<open>totalRecordsInitPromise\<close> of the process.

  The daily claim keys are \<open>lottery:daily:${linuxdoId}:${day}\<close>: they are indexed by
  the number interpolated and the day. The budget accumulator
  \<open>lottery:daily_direct:${day}\<close> holds an integer of cents and its TTL in seconds
  (\<open>None\<close>: no TTL set). The lists of records are \<open>lottery:records:recent\<close>,
  \<open>lottery:records:day:${day}\<close>, \<open>lottery:user:records:${linuxdoId}\<close> and the
  legacy list \<open>lottery:records\<close>; the TTL of a day's list (400 days) is not modelled.
  \<open>kv_legacyChecked\<close> is \<open>lottery:records:legacy-fallback-checked:${day}\<close>.
\<close>

record store =
  kv_config :: "PartialLotteryConfig option"
  kv_configLock :: "string option"
  kv_quotaLock :: "int \<Rightarrow> string option"
  kv_daily :: "jsnum \<times> string \<Rightarrow> string option"
  kv_dailyDirect :: "string \<Rightarrow> (int \<times> nat option) option"
  kv_recordsRecent :: "StoredLotteryRecord list"
  kv_recordsDay :: "string \<Rightarrow> StoredLotteryRecord list"
  kv_userRecords :: "int \<Rightarrow> StoredLotteryRecord list"
  kv_recordsTotal :: "int option"
  kv_recordsLegacy :: "StoredLotteryRecord list"
  kv_legacyChecked :: "string \<Rightarrow> string option"
  kv_pending :: "StoredPending option list"
  proc_totalRecordsInit :: bool

text \<open>
  What one call reads from the clock, the random generator and the process
  environment (\<open>./time\<close> is not part of the sources): the day string of
  \<open>getTodayDateString\<close>, the seconds of \<open>getSecondsUntilMidnight\<close>, the time stamp
  of \<open>getChinaDayStartTimestamp\<close>, \<open>Date.now()\<close>, the draw of \<open>Math.random()\<close> for
  the tier, the random suffix of ids and tokens, and whether \<open>NEW_API_URL\<close> is set.
  Two fields stand for the other callers that share the store: \<open>lockAfterSleep k\<close>
  is what the other holders of a quota lock do to it during the k-th sleep of an
  acquisition, and \<open>othersBeforeReserve\<close> is what the other callers do to the store
  between the read of the day's total by an attempt and its reservation. The last two
  fields are the operations of the JavaScript machine that the model leaves open: the
  product of two doubles and \<open>Number\<close> on a string.
\<close>

record env =
  todayDateString :: string
  secondsUntilMidnight :: nat
  chinaDayStartTimestamp :: real
  nowMs :: int
  randomDraw :: real
  randomSuffix :: string
  newApiUrlSet :: bool
  lockAfterSleep :: "nat \<Rightarrow> string option \<Rightarrow> string option"
  othersBeforeReserve :: "store \<Rightarrow> store"
  numberMultiply :: "real \<Rightarrow> real \<Rightarrow> real"
  stringToNumber :: "string \<Rightarrow> jsnum"

text \<open>Redis list commands: \<open>LRANGE\<close> with its negative indices, \<open>LTRIM 0 n\<close>, \<open>LPUSH\<close>.\<close>

definition lrange :: "'a list \<Rightarrow> int \<Rightarrow> int \<Rightarrow> 'a list" where
  "lrange xs start stop =
     (let n = int (length xs);
          start' = (if start < 0 then max (n + start) 0 else start);
          stop' = (if stop < 0 then n + stop else min stop (n - 1))
      in if start' > stop' \<or> start' \<ge> n then []
         else take (nat (stop' - start' + 1)) (drop (nat start') xs))"

definition ltrim0 :: "'a list \<Rightarrow> int \<Rightarrow> 'a list" where
  "ltrim0 xs stop = lrange xs 0 stop"

section \<open>Configuration access and the configuration lock\<close>

definition getLotteryConfig :: "store \<Rightarrow> LotteryConfig \<times> store" where
  "getLotteryConfig s =
     (let fallback = cloneDefaultLotteryConfig
      in case kv_config s of
           None \<Rightarrow> (fallback, s\<lparr>kv_config := Some (toPartial fallback)\<rparr>)
         | Some config \<Rightarrow> (sanitizeLotteryConfig config, s))"

text \<open>
  The release script of both locks: \<open>GET\<close>, compare with the holder's token, \<open>DEL\<close>
  only when equal. It acts on the one key it is given.
\<close>

definition releaseLua :: "string \<Rightarrow> string option \<Rightarrow> string option" where
  "releaseLua token current = (if current = Some token then None else current)"

datatype update_error = ConfigUpdateConflict

definition releaseConfigLock :: "string \<Rightarrow> store \<Rightarrow> store" where
  "releaseConfigLock lockToken s = s\<lparr>kv_configLock := releaseLua lockToken (kv_configLock s)\<rparr>"

text \<open>
  \<open>updateLotteryConfig\<close>: \<open>lockToken\<close> is the token the call draws
  (\<open>${Date.now()}_${random}\<close>); \<open>Inl\<close> is the thrown conflict error.
\<close>

definition updateLotteryConfig :: "string \<Rightarrow> PartialLotteryConfig \<Rightarrow> store \<Rightarrow> update_error + store" where
  "updateLotteryConfig lockToken config s =
     (case kv_configLock s of
        Some _ \<Rightarrow> Inl ConfigUpdateConflict
      | None \<Rightarrow>
          let s1 = s\<lparr>kv_configLock := Some lockToken\<rparr>;
              (current, s2) = getLotteryConfig s1;
              s3 = s2\<lparr>kv_config := Some (mergeConfig current config)\<rparr>
          in Inr (releaseConfigLock lockToken s3))"

section \<open>The daily attempt ledger\<close>

definition tryClaimDailyFree :: "env \<Rightarrow> jsnum \<Rightarrow> string option \<Rightarrow> store \<Rightarrow> bool \<times> store" where
  "tryClaimDailyFree e userNum today s =
     (let day = (case today of Some d \<Rightarrow> d | None \<Rightarrow> todayDateString e)
      in case kv_daily s (userNum, day) of
           None \<Rightarrow> (True, s\<lparr>kv_daily := (kv_daily s)((userNum, day) \<mapsto> ''1'')\<rparr>)
         | Some _ \<Rightarrow> (False, s))"

definition releaseDailyFree :: "env \<Rightarrow> jsnum \<Rightarrow> string option \<Rightarrow> store \<Rightarrow> store" where
  "releaseDailyFree e userNum today s =
     (let day = (case today of Some d \<Rightarrow> d | None \<Rightarrow> todayDateString e)
      in s\<lparr>kv_daily := (kv_daily s)((userNum, day) := None)\<rparr>)"

definition checkDailyLimit :: "env \<Rightarrow> jsnum \<Rightarrow> store \<Rightarrow> bool" where
  "checkDailyLimit e userNum s = (kv_daily s (userNum, todayDateString e) \<noteq> None)"

section \<open>The daily budget ledger\<close>

text \<open>The value of a day's accumulator in cents; an absent key reads as 0.\<close>

definition directCents :: "store \<Rightarrow> string \<Rightarrow> int" where
  "directCents s day = (case kv_dailyDirect s day of None \<Rightarrow> 0 | Some (c, _) \<Rightarrow> c)"

definition getTodayDirectTotal :: "env \<Rightarrow> store \<Rightarrow> real" where
  "getTodayDirectTotal e s = of_int (directCents s (todayDateString e)) / of_int DIRECT_AMOUNT_SCALE"

text \<open>
  The script of \<open>reserveDailyDirectQuota\<close>, one atomic store command: \<open>INCRBY\<close>,
  \<open>EXPIRE\<close> when the key has no TTL, then \<open>DECRBY\<close> and \<open>{0, newTotal - cents}\<close> when
  the new total is over the limit, \<open>{1, newTotal}\<close> otherwise.
\<close>

definition reserveLua :: "string \<Rightarrow> int \<Rightarrow> int \<Rightarrow> nat \<Rightarrow> store \<Rightarrow> (int \<times> int) \<times> store" where
  "reserveLua key cents limit ttl s =
     (let (old, oldTtl) = (case kv_dailyDirect s key of None \<Rightarrow> (0, None) | Some c \<Rightarrow> c);
          newTotal = old + cents;
          ttl' = (case oldTtl of None \<Rightarrow> Some ttl | Some t \<Rightarrow> Some t)
      in if newTotal > limit
         then ((0, newTotal - cents), s\<lparr>kv_dailyDirect := (kv_dailyDirect s)(key \<mapsto> (newTotal - cents, ttl'))\<rparr>)
         else ((1, newTotal), s\<lparr>kv_dailyDirect := (kv_dailyDirect s)(key \<mapsto> (newTotal, ttl'))\<rparr>))"

record reserve_result =
  rr_success :: bool
  rr_newTotal :: real

definition reserveDailyDirectQuota :: "env \<Rightarrow> real \<Rightarrow> string option \<Rightarrow> store \<Rightarrow> reserve_result \<times> store" where
  "reserveDailyDirectQuota e dollars today s =
     (let (config, s1) = getLotteryConfig s;
          day = (case today of Some d \<Rightarrow> d | None \<Rightarrow> todayDateString e);
          ttl = secondsUntilMidnight e + 3600;
          cents = Math_round (numberMultiply e dollars (of_int DIRECT_AMOUNT_SCALE));
          limitCents = Math_round (numberMultiply e (cfg_dailyDirectLimit config) (of_int DIRECT_AMOUNT_SCALE))
      in if cents \<le> 0 then (\<lparr>rr_success = False, rr_newTotal = getTodayDirectTotal e s1\<rparr>, s1)
         else
           let ((success, newTotalCents), s2) = reserveLua day cents limitCents ttl s1
           in (\<lparr>rr_success = (success = 1),
                rr_newTotal = of_int newTotalCents / of_int DIRECT_AMOUNT_SCALE\<rparr>, s2))"

definition rollbackDailyDirectQuota :: "env \<Rightarrow> real \<Rightarrow> string option \<Rightarrow> store \<Rightarrow> store" where
  "rollbackDailyDirectQuota e dollars today s =
     (let day = (case today of Some d \<Rightarrow> d | None \<Rightarrow> todayDateString e);
          cents = Math_round (numberMultiply e dollars (of_int DIRECT_AMOUNT_SCALE))
      in if cents \<le> 0 then s
         else
           let (old, oldTtl) = (case kv_dailyDirect s day of None \<Rightarrow> (0, None) | Some c \<Rightarrow> c)
           in s\<lparr>kv_dailyDirect := (kv_dailyDirect s)(day \<mapsto> (old - cents, oldTtl))\<rparr>)"

section \<open>The external commit client\<close>

definition USER_QUOTA_LOCK_RETRY_MS :: nat where
  "USER_QUOTA_LOCK_RETRY_MS = 120"

definition USER_QUOTA_LOCK_MAX_RETRIES :: nat where
  "USER_QUOTA_LOCK_MAX_RETRIES = 25"

text \<open>The lock's key is \<open>newapi:quota:credit:lock:${userId}\<close>: it is indexed by the user id.\<close>

record UserQuotaLock =
  lock_key :: int
  lock_token :: string

text \<open>
  The loop of \<open>acquireUserQuotaLock\<close>: one \<open>SET key token NX EX 15\<close> per attempt, and a
  sleep after each refused attempt, during which the other holders act on the key. The
  third component counts the \<open>SET\<close> commands sent.
\<close>

function acquireLoop :: "env \<Rightarrow> int \<Rightarrow> string \<Rightarrow> nat \<Rightarrow> store \<Rightarrow> UserQuotaLock option \<times> store \<times> nat" where
  "acquireLoop e userId token attempt s =
     (if attempt < USER_QUOTA_LOCK_MAX_RETRIES then
        (case kv_quotaLock s userId of
           None \<Rightarrow>
             (Some \<lparr>lock_key = userId, lock_token = token\<rparr>,
              s\<lparr>kv_quotaLock := (kv_quotaLock s)(userId \<mapsto> token)\<rparr>, attempt + 1)
         | Some holder \<Rightarrow>
             acquireLoop e userId token (attempt + 1)
               (s\<lparr>kv_quotaLock := (kv_quotaLock s)(userId := lockAfterSleep e attempt (Some holder))\<rparr>))
      else (None, s, attempt))"
  by pat_completeness auto
termination
  by (relation "measure (\<lambda>(e, userId, token, attempt, s). USER_QUOTA_LOCK_MAX_RETRIES - attempt)") auto

declare acquireLoop.simps [simp del]

definition lockToken :: "env \<Rightarrow> string" where
  "lockToken e = String_int (nowMs e) @ ''_'' @ randomSuffix e"

definition acquireUserQuotaLock :: "env \<Rightarrow> int \<Rightarrow> store \<Rightarrow> UserQuotaLock option \<times> store \<times> nat" where
  "acquireUserQuotaLock e userId s = acquireLoop e userId (lockToken e) 0 s"

definition releaseUserQuotaLock :: "UserQuotaLock \<Rightarrow> store \<Rightarrow> store" where
  "releaseUserQuotaLock lock s =
     s\<lparr>kv_quotaLock :=
         (kv_quotaLock s)(lock_key lock := releaseLua (lock_token lock) (kv_quotaLock s (lock_key lock)))\<rparr>"

text \<open>
  The store drops a key when its TTL runs out: an event of the store, not a function
  of the program.
\<close>

definition expireQuotaLock :: "int \<Rightarrow> store \<Rightarrow> store" where
  "expireQuotaLock userId s = s\<lparr>kv_quotaLock := (kv_quotaLock s)(userId := None)\<rparr>"

subsection \<open>The external account service\<close>

record NewApiUser =
  user_quota :: real

text \<open>
  \<open>NewApiResponse\<close>: \<open>resp_success\<close> is the truth of the \<open>success\<close> field,
  \<open>resp_message\<close> the \<open>message\<close> when it is a string and the empty string otherwise.
  An \<open>HttpResponse\<close> carries the status and the parsed body (\<open>None\<close>: the body is not
  JSON, \<open>parseJsonSafe\<close> gives null).
\<close>

record NewApiResponse =
  resp_success :: bool
  resp_message :: string
  resp_data :: "NewApiUser option"

record HttpResponse =
  http_status :: nat
  http_body :: "NewApiResponse option"

record AdminSessionWithUser =
  sess_cookies :: string
  sess_adminUserId :: int

datatype request = GetSession bool | GetUser int | PutUser int real

text \<open>
  The external service and the session cache, as the client meets them: the answers
  of \<open>getAdminSessionWithUser\<close> in the order of the calls, the answers of \<open>fetch\<close> in the
  order of the calls (\<open>None\<close>: the call throws, a network error or a timeout), and
  the requests sent so far. A call beyond the answers listed finds no session, and
  throws, respectively.
\<close>

record ext =
  sessionReplies :: "AdminSessionWithUser option list"
  fetchReplies :: "HttpResponse option list"
  requests :: "request list"

definition getAdminSessionWithUser :: "bool \<Rightarrow> ext \<Rightarrow> AdminSessionWithUser option \<times> ext" where
  "getAdminSessionWithUser forceRefresh x =
     (case sessionReplies x of
        [] \<Rightarrow> (None, x\<lparr>requests := requests x @ [GetSession forceRefresh]\<rparr>)
      | r # rs \<Rightarrow> (r, x\<lparr>sessionReplies := rs, requests := requests x @ [GetSession forceRefresh]\<rparr>))"

definition fetch :: "request \<Rightarrow> ext \<Rightarrow> HttpResponse option \<times> ext" where
  "fetch req x =
     (case fetchReplies x of
        [] \<Rightarrow> (None, x\<lparr>requests := requests x @ [req]\<rparr>)
      | r # rs \<Rightarrow> (r, x\<lparr>fetchReplies := rs, requests := requests x @ [req]\<rparr>))"

definition responseOk :: "HttpResponse \<Rightarrow> bool" where
  "responseOk r = (200 \<le> http_status r \<and> http_status r \<le> 299)"

fun containsStr :: "string \<Rightarrow> string \<Rightarrow> bool" where
  "containsStr [] p = (p = [])"
| "containsStr (c # cs) p = (startsWith (c # cs) p \<or> containsStr cs p)"

definition toLowerAscii :: "char \<Rightarrow> char" where
  "toLowerAscii c =
     (case map_of (zip ''ABCDEFGHIJKLMNOPQRSTUVWXYZ'' ''abcdefghijklmnopqrstuvwxyz'') c of
        Some l \<Rightarrow> l | None \<Rightarrow> c)"

text \<open>The alternatives of the pattern of \<open>isAuthFailureResponse\<close>, the CJK ones as bytes.\<close>

definition authFailureWords :: "string list" where
  "authFailureWords =
     [[CHR 0xE6, CHR 0x9C, CHR 0xAA, CHR 0xE7, CHR 0x99, CHR 0xBB, CHR 0xE5, CHR 0xBD, CHR 0x95],
      [CHR 0xE7, CHR 0x99, CHR 0xBB, CHR 0xE5, CHR 0xBD, CHR 0x95],
      [CHR 0xE8, CHR 0xAE, CHR 0xA4, CHR 0xE8, CHR 0xAF, CHR 0x81],
      [CHR 0xE6, CHR 0x8E, CHR 0x88, CHR 0xE6, CHR 0x9D, CHR 0x83],
      [CHR 0xE4, CHR 0xBC, CHR 0x9A, CHR 0xE8, CHR 0xAF, CHR 0x9D],
      ''token'', ''session'', ''forbidden'', ''unauthorized'', ''invalid'']"

definition getResponseMessage :: "NewApiResponse option \<Rightarrow> string" where
  "getResponseMessage data = (case data of None \<Rightarrow> [] | Some d \<Rightarrow> resp_message d)"

definition isAuthFailureResponse :: "nat \<Rightarrow> NewApiResponse option \<Rightarrow> bool" where
  "isAuthFailureResponse st data =
     (if st = 401 \<or> st = 403 then True
      else let message = getResponseMessage data
           in if message = [] then False
              else list_ex (containsStr (map toLowerAscii message)) authFailureWords)"

text \<open>
  The user of a response, when \<open>response.ok && data?.success && data.data\<close> holds.
\<close>

definition userOf :: "HttpResponse \<Rightarrow> NewApiUser option" where
  "userOf r =
     (case http_body r of
        None \<Rightarrow> None
      | Some d \<Rightarrow> if responseOk r \<and> resp_success d then resp_data d else None)"

text \<open>
  The messages of the results. Each literal of the source is a constructor;
  \<open>MsgServer\<close> carries a message taken from a response of the external service.
\<close>

datatype message =
    MsgNoAttemptsLeft
  | MsgSystemBusy
  | MsgNotOpen
  | MsgBudgetExhausted
  | MsgConfigError
  | MsgUncertainCheckBalance
  | MsgCreditFailed
  | MsgCongratulations string
  | MsgSystemError
  | MsgLockBusy
  | MsgAdminSessionFailed
  | MsgGetUserFailed
  | MsgCredited real
  | MsgUpdateFailed
  | MsgConnectionUncertain
  | MsgVerifiedOk
  | MsgCannotConfirm
  | MsgVerifyFailed
  | MsgVerifyUserFailed
  | MsgVerifyError
  | MsgServer string

text \<open>\<open>data?.message || fallback\<close>.\<close>

definition messageOr :: "NewApiResponse option \<Rightarrow> message \<Rightarrow> message" where
  "messageOr data fallback =
     (case data of
        None \<Rightarrow> fallback
      | Some d \<Rightarrow> if resp_message d = [] then fallback else MsgServer (resp_message d))"

record credit_result =
  cr_success :: bool
  cr_message :: message
  cr_newQuota :: "real option"
  cr_uncertain :: bool

definition verifyQuotaUpdate :: "int \<Rightarrow> real option \<Rightarrow> ext \<Rightarrow> credit_result \<times> ext" where
  "verifyQuotaUpdate userId expected x =
     (let (verifyResponse, x1) = fetch (GetUser userId) x
      in case verifyResponse of
           None \<Rightarrow>
             (\<lparr>cr_success = False, cr_message = MsgVerifyError, cr_newQuota = None, cr_uncertain = True\<rparr>, x1)
         | Some r \<Rightarrow>
             (case userOf r of
                Some user \<Rightarrow>
                  let currentQuota = user_quota user
                  in (case expected of
                        Some ex \<Rightarrow>
                          if currentQuota \<ge> ex
                          then (\<lparr>cr_success = True, cr_message = MsgVerifiedOk,
                                 cr_newQuota = Some currentQuota, cr_uncertain = False\<rparr>, x1)
                          else (\<lparr>cr_success = False, cr_message = MsgVerifyFailed,
                                 cr_newQuota = None, cr_uncertain = False\<rparr>, x1)
                      | None \<Rightarrow>
                          (\<lparr>cr_success = False, cr_message = MsgCannotConfirm,
                            cr_newQuota = Some currentQuota, cr_uncertain = True\<rparr>, x1))
              | None \<Rightarrow>
                  (\<lparr>cr_success = False, cr_message = messageOr (http_body r) MsgVerifyUserFailed,
                    cr_newQuota = None, cr_uncertain = True\<rparr>, x1)))"

text \<open>The \<open>catch\<close> block of \<open>creditQuotaToUser\<close>, entered when a \<open>fetch\<close> throws.\<close>

definition creditCatch :: "int \<Rightarrow> real option \<Rightarrow> ext \<Rightarrow> credit_result \<times> ext" where
  "creditCatch userId expectedQuota x =
     (let (nextLoginResult, x1) = getAdminSessionWithUser True x
      in case nextLoginResult of
           Some session \<Rightarrow>
             let (verifyResult, x2) = verifyQuotaUpdate userId expectedQuota x1
             in if cr_uncertain verifyResult
                then (\<lparr>cr_success = False, cr_message = MsgUncertainCheckBalance,
                       cr_newQuota = None, cr_uncertain = True\<rparr>, x2)
                else (verifyResult, x2)
         | None \<Rightarrow>
             (\<lparr>cr_success = False, cr_message = MsgConnectionUncertain,
               cr_newQuota = None, cr_uncertain = True\<rparr>, x1))"

definition creditFailure :: "message \<Rightarrow> credit_result" where
  "creditFailure m = \<lparr>cr_success = False, cr_message = m, cr_newQuota = None, cr_uncertain = False\<rparr>"

text \<open>
  One turn of the loop \<open>for (attempt = 0; attempt < 2; attempt += 1)\<close> of
  \<open>creditQuotaToUser\<close> either ends the call with a result (\<open>Return\<close>) or goes
  to the next turn (\<open>Continue\<close>, the \<open>continue\<close> statement), with the value of the
  variable \<open>expectedQuota\<close> declared before the loop. The turn is written in three
  parts: up to the answer about the user, from there to the answer to the update, and
  the rest.
\<close>

datatype attempt_step = Continue "real option" ext | Return credit_result ext

definition returnOf :: "credit_result \<times> ext \<Rightarrow> attempt_step" where
  "returnOf rx = Return (fst rx) (snd rx)"

definition creditAfterUpdate :: "int \<Rightarrow> real \<Rightarrow> real \<Rightarrow> HttpResponse \<Rightarrow> ext \<Rightarrow> attempt_step" where
  "creditAfterUpdate userId dollars newQuota updateResponse x3 =
     (if isAuthFailureResponse (http_status updateResponse) (http_body updateResponse)
      then Continue (Some newQuota) x3
      else if (case http_body updateResponse of None \<Rightarrow> False | Some d \<Rightarrow> resp_success d)
      then Return \<lparr>cr_success = True, cr_message = MsgCredited dollars,
                   cr_newQuota = Some newQuota, cr_uncertain = False\<rparr> x3
      else
        (case verifyQuotaUpdate userId (Some newQuota) x3 of
           (verifyResult, x4) \<Rightarrow>
             if cr_success verifyResult \<or> cr_uncertain verifyResult
             then Return verifyResult x4
             else Return (creditFailure (messageOr (http_body updateResponse) MsgUpdateFailed)) x4))"

definition creditAfterUser :: "env \<Rightarrow> int \<Rightarrow> real \<Rightarrow> real option \<Rightarrow> HttpResponse \<Rightarrow> ext \<Rightarrow> attempt_step" where
  "creditAfterUser e userId dollars expectedQuota userResponse x2 =
     (if isAuthFailureResponse (http_status userResponse) (http_body userResponse)
      then Continue expectedQuota x2
      else
        (case userOf userResponse of
           None \<Rightarrow> Return (creditFailure (messageOr (http_body userResponse) MsgGetUserFailed)) x2
         | Some user \<Rightarrow>
             let currentQuota = user_quota user;
                 quotaToAdd = Math_floor (numberMultiply e dollars 500000);
                 newQuota = currentQuota + of_int quotaToAdd
             in (case fetch (PutUser userId newQuota) x2 of
                   (None, x3) \<Rightarrow> returnOf (creditCatch userId (Some newQuota) x3)
                 | (Some updateResponse, x3) \<Rightarrow>
                     creditAfterUpdate userId dollars newQuota updateResponse x3)))"

definition creditAttempt :: "env \<Rightarrow> int \<Rightarrow> real \<Rightarrow> nat \<Rightarrow> real option \<Rightarrow> ext \<Rightarrow> attempt_step" where
  "creditAttempt e userId dollars attempt expectedQuota x =
     (case getAdminSessionWithUser (attempt > 0) x of
        (None, x1) \<Rightarrow>
          if attempt = 0 then Continue expectedQuota x1
          else Return (creditFailure MsgAdminSessionFailed) x1
      | (Some loginResult, x1) \<Rightarrow>
          (case fetch (GetUser userId) x1 of
             (None, x2) \<Rightarrow> returnOf (creditCatch userId expectedQuota x2)
           | (Some userResponse, x2) \<Rightarrow> creditAfterUser e userId dollars expectedQuota userResponse x2))"

function creditAttempts :: "env \<Rightarrow> int \<Rightarrow> real \<Rightarrow> nat \<Rightarrow> real option \<Rightarrow> ext \<Rightarrow> credit_result \<times> ext" where
  "creditAttempts e userId dollars attempt expectedQuota x =
     (if attempt < 2 then
        (case creditAttempt e userId dollars attempt expectedQuota x of
           Continue expectedQuota' x' \<Rightarrow> creditAttempts e userId dollars (attempt + 1) expectedQuota' x'
         | Return result x' \<Rightarrow> (result, x'))
      else (creditFailure MsgAdminSessionFailed, x))"
  by pat_completeness auto
termination
  by (relation "measure (\<lambda>(e, userId, dollars, attempt, expectedQuota, x). 2 - attempt)") auto

declare creditAttempts.simps [simp del]

datatype exception = NewApiUrlNotSet

text \<open>
  \<open>creditQuotaToUser\<close>: \<open>getNewApiUrl()\<close> throws when \<open>NEW_API_URL\<close> is not set (\<open>Inl\<close>),
  before the lock is asked for; the \<open>finally\<close> block releases the lock.
\<close>

definition creditQuotaToUser :: "env \<Rightarrow> int \<Rightarrow> real \<Rightarrow> store \<Rightarrow> ext \<Rightarrow> (exception + credit_result) \<times> store \<times> ext" where
  "creditQuotaToUser e userId dollars s x =
     (if \<not> newApiUrlSet e then (Inl NewApiUrlNotSet, s, x)
      else
        (case acquireUserQuotaLock e userId s of
           (None, s1, n) \<Rightarrow> (Inr (creditFailure MsgLockBusy), s1, x)
         | (Some lock, s1, n) \<Rightarrow>
             let (result, x1) = creditAttempts e userId dollars 0 None x
             in (Inr result, releaseUserQuotaLock lock s1, x1)))"

record quota_result =
  qr_success :: bool
  qr_quota :: "real option"

definition checkUserQuota :: "env \<Rightarrow> int \<Rightarrow> ext \<Rightarrow> quota_result \<times> ext" where
  "checkUserQuota e userId x =
     (let (session, x1) = getAdminSessionWithUser False x
      in case session of
           None \<Rightarrow> (\<lparr>qr_success = False, qr_quota = None\<rparr>, x1)
         | Some sess \<Rightarrow>
             if \<not> newApiUrlSet e then (\<lparr>qr_success = False, qr_quota = None\<rparr>, x1)
             else
               let (response, x2) = fetch (GetUser userId) x1
               in (case response of
                     None \<Rightarrow> (\<lparr>qr_success = False, qr_quota = None\<rparr>, x2)
                   | Some r \<Rightarrow>
                       (case userOf r of
                          Some user \<Rightarrow> (\<lparr>qr_success = True, qr_quota = Some (user_quota user)\<rparr>, x2)
                        | None \<Rightarrow> (\<lparr>qr_success = False, qr_quota = None\<rparr>, x2))))"

section \<open>The record store\<close>

definition RECORDS_RECENT_MAX_LENGTH :: int where
  "RECORDS_RECENT_MAX_LENGTH = 5000"

definition USER_RECORDS_MAX_LENGTH :: int where
  "USER_RECORDS_MAX_LENGTH = 200"

definition fallbackTierId :: "real \<Rightarrow> string" where
  "fallbackTierId tierValue =
     (case find (\<lambda>tier. tier_value tier = tierValue) DEFAULT_TIERS of
        Some matched \<Rightarrow> tier_id matched
      | None \<Rightarrow> ''tier_'' @ String_int (max 1 (Math_floor tierValue)))"

text \<open>
  \<open>normalizeLotteryRecord\<close>: \<open>None\<close> is the null of the source. \<open>Number\<close> of an absent
  field is \<open>NaN\<close>, which is not finite; \<open>Number\<close> of a stored number is the number.
\<close>

definition normalizeLotteryRecord :: "StoredLotteryRecord \<Rightarrow> LotteryRecord option" where
  "normalizeLotteryRecord rawRecord =
     (let id = (case s_id rawRecord of Some i \<Rightarrow> trim i | None \<Rightarrow> []);
          linuxdoIdRaw = (case s_linuxdoId rawRecord of
                            Some l \<Rightarrow> l
                          | None \<Rightarrow> (case s_oderId rawRecord of Some l \<Rightarrow> l | None \<Rightarrow> []));
          linuxdoId = trim linuxdoIdRaw;
          username = (case s_username rawRecord of Some u \<Rightarrow> u | None \<Rightarrow> []);
          tierName = (case s_tierName rawRecord of Some n \<Rightarrow> n | None \<Rightarrow> [])
      in if id = [] \<or> linuxdoId = [] \<or> tierName = [] then None
         else
           (case (s_tierValue rawRecord, s_createdAt rawRecord) of
              (Some tierValue, Some createdAt) \<Rightarrow>
                Some \<lparr>r_id = id,
                      r_linuxdoId = linuxdoId,
                      r_username = username,
                      r_tierId = (case s_tierId rawRecord of
                                    Some t \<Rightarrow> if trim t \<noteq> [] then t else fallbackTierId tierValue
                                  | None \<Rightarrow> fallbackTierId tierValue),
                      r_tierName = tierName,
                      r_tierValue = tierValue,
                      r_directCredit = (case s_directCredit rawRecord of Some b \<Rightarrow> b | None \<Rightarrow> False),
                      r_creditedQuota = s_creditedQuota rawRecord,
                      r_createdAt = createdAt\<rparr>
            | _ \<Rightarrow> None))"

fun normalizeLotteryRecords :: "StoredLotteryRecord list \<Rightarrow> LotteryRecord list" where
  "normalizeLotteryRecords [] = []"
| "normalizeLotteryRecords (record # records) =
     (case normalizeLotteryRecord record of
        Some parsed \<Rightarrow> parsed # normalizeLotteryRecords records
      | None \<Rightarrow> normalizeLotteryRecords records)"

text \<open>
  \<open>toSafePositiveNumber\<close> on what \<open>kv.get\<close> returns for the counter: \<open>Number(null)\<close> is
  0, so the absent counter reads as the safe number 0.
\<close>

definition toSafePositiveNumber :: "int option \<Rightarrow> int option" where
  "toSafePositiveNumber v =
     (let numeric = (case v of None \<Rightarrow> 0 | Some n \<Rightarrow> n)
      in if numeric < 0 then None else Some numeric)"

definition ensureTotalRecordsCounterInitialized :: "store \<Rightarrow> store" where
  "ensureTotalRecordsCounterInitialized s =
     (if \<not> proc_totalRecordsInit s then
        (let current = kv_recordsTotal s
         in if toSafePositiveNumber current \<noteq> None then s\<lparr>proc_totalRecordsInit := True\<rparr>
            else
              let legacyTotal = int (length (kv_recordsLegacy s))
              in s\<lparr>kv_recordsTotal := (case current of None \<Rightarrow> Some legacyTotal | Some c \<Rightarrow> Some c),
                   proc_totalRecordsInit := True\<rparr>)
      else s)"

definition incrementTotalRecordsCounter :: "store \<Rightarrow> store" where
  "incrementTotalRecordsCounter s =
     (let s1 = ensureTotalRecordsCounterInitialized s
      in s1\<lparr>kv_recordsTotal := Some ((case kv_recordsTotal s1 of None \<Rightarrow> 0 | Some c \<Rightarrow> c) + 1)\<rparr>)"

definition appendLotteryRecord :: "env \<Rightarrow> LotteryRecord \<Rightarrow> int \<Rightarrow> store \<Rightarrow> store" where
  "appendLotteryRecord e record linuxdoId s =
     (let dayKey = todayDateString e;
          s1 = s\<lparr>kv_recordsRecent :=
                   ltrim0 (toStored record # kv_recordsRecent s) (RECORDS_RECENT_MAX_LENGTH - 1)\<rparr>;
          s2 = s1\<lparr>kv_recordsDay := (kv_recordsDay s1)(dayKey := toStored record # kv_recordsDay s1 dayKey)\<rparr>;
          s3 = s2\<lparr>kv_userRecords :=
                    (kv_userRecords s2)
                      (linuxdoId := ltrim0 (toStored record # kv_userRecords s2 linuxdoId)
                                      (USER_RECORDS_MAX_LENGTH - 1))\<rparr>
      in incrementTotalRecordsCounter s3)"

definition getUserLotteryRecords :: "int \<Rightarrow> int \<Rightarrow> store \<Rightarrow> LotteryRecord list" where
  "getUserLotteryRecords linuxdoId limit s =
     normalizeLotteryRecords (lrange (kv_userRecords s linuxdoId) 0 (limit - 1))"

definition TODAY_RECORDS_SCAN_BATCH :: int where
  "TODAY_RECORDS_SCAN_BATCH = 200"

definition TODAY_RECORDS_MAX_SCAN :: int where
  "TODAY_RECORDS_MAX_SCAN = 20000"

definition RECORDS_MIGRATION_CHUNK_SIZE :: nat where
  "RECORDS_MIGRATION_CHUNK_SIZE = 500"

text \<open>
  The inner loop of \<open>getLegacyTodayLotteryRecords\<close> over one batch: the records
  pushed so far, and whether a record older than the start of the day has ended the
  scan (the \<open>return\<close> inside the loop).
\<close>

fun pushToday :: "real \<Rightarrow> LotteryRecord list \<Rightarrow> LotteryRecord list \<Rightarrow> LotteryRecord list \<times> bool" where
  "pushToday todayStart todayRecords [] = (todayRecords, False)"
| "pushToday todayStart todayRecords (record # rest) =
     (if r_createdAt record < todayStart then (todayRecords, True)
      else pushToday todayStart (todayRecords @ [record]) rest)"

text \<open>The loop \<open>while (offset < maxScan)\<close> of \<open>getLegacyTodayLotteryRecords\<close>.\<close>

function legacyScan :: "env \<Rightarrow> store \<Rightarrow> int \<Rightarrow> int \<Rightarrow> LotteryRecord list \<Rightarrow> LotteryRecord list" where
  "legacyScan e s maxScan offset todayRecords =
     (if offset < maxScan then
        (let batchRaw = lrange (kv_recordsLegacy s) offset (offset + TODAY_RECORDS_SCAN_BATCH - 1)
         in if length batchRaw = 0 then todayRecords
            else
              (case pushToday (chinaDayStartTimestamp e) todayRecords (normalizeLotteryRecords batchRaw) of
                 (todayRecords', True) \<Rightarrow> todayRecords'
               | (todayRecords', False) \<Rightarrow>
                   if int (length batchRaw) < TODAY_RECORDS_SCAN_BATCH then todayRecords'
                   else legacyScan e s maxScan (offset + int (length batchRaw)) todayRecords'))
      else todayRecords)"
  by pat_completeness auto
termination
  by (relation "measure (\<lambda>(e, s, maxScan, offset, todayRecords). nat (maxScan - offset))") auto

declare legacyScan.simps [simp del]

definition getLegacyTodayLotteryRecords :: "env \<Rightarrow> int \<Rightarrow> store \<Rightarrow> LotteryRecord list" where
  "getLegacyTodayLotteryRecords e maxScan s = legacyScan e s maxScan 0 []"

text \<open>
  The loop of \<open>migrateLegacyTodayRecords\<close> over the reversed records, in chunks:
  \<open>kv.lpush(dayKey, ...chunk)\<close> puts the elements of the chunk in front of the list
  one after the other, so the last element of the chunk comes first.
\<close>

function migrateLoop :: "string \<Rightarrow> StoredLotteryRecord list \<Rightarrow> nat \<Rightarrow> store \<Rightarrow> store" where
  "migrateLoop dayKey reversed index s =
     (if index < length reversed then
        (let chunk = take RECORDS_MIGRATION_CHUNK_SIZE (drop index reversed)
         in migrateLoop dayKey reversed (index + RECORDS_MIGRATION_CHUNK_SIZE)
              (s\<lparr>kv_recordsDay := (kv_recordsDay s)(dayKey := rev chunk @ kv_recordsDay s dayKey)\<rparr>))
      else s)"
  by pat_completeness auto
termination
  by (relation "measure (\<lambda>(dayKey, reversed, index, s). length reversed - index)")
    (auto simp: RECORDS_MIGRATION_CHUNK_SIZE_def)

declare migrateLoop.simps [simp del]

definition migrateLegacyTodayRecords :: "string \<Rightarrow> LotteryRecord list \<Rightarrow> store \<Rightarrow> store" where
  "migrateLegacyTodayRecords dayKey records s =
     (if length records = 0 then s
      else migrateLoop dayKey (rev (map toStored records)) 0 s)"

text \<open>The bytes of the marker of an unconfirmed record, as the filter below tests it.\<close>

definition pendingMarker :: string where
  "pendingMarker =
     [CHR 0x5B, CHR 0xE5, CHR 0xBE, CHR 0x85, CHR 0xE7, CHR 0xA1, CHR 0xAE, CHR 0xE8, CHR 0xAE, CHR 0xA4,
      CHR 0x5D]"

text \<open>
  \<open>getTodayLotteryRecords\<close>: the two options may be left out (\<open>None\<close>); the value
  stored under the checked key is tested for truth.
\<close>

definition getTodayLotteryRecords ::
  "env \<Rightarrow> bool option \<Rightarrow> int option \<Rightarrow> store \<Rightarrow> LotteryRecord list \<times> store" where
  "getTodayLotteryRecords e includePendingOption maxScanOption s =
     (let includePending = (case includePendingOption of Some b \<Rightarrow> b | None \<Rightarrow> True);
          maxScan = max TODAY_RECORDS_SCAN_BATCH
                      (case maxScanOption of Some m \<Rightarrow> m | None \<Rightarrow> TODAY_RECORDS_MAX_SCAN);
          dayKey = todayDateString e;
          todayRaw = lrange (kv_recordsDay s dayKey) 0 (maxScan - 1);
          todayRecords = normalizeLotteryRecords todayRaw;
          (todayRecords', s') =
            (if length todayRecords = 0 then
               (let today = todayDateString e;
                    checked = kv_legacyChecked s today
                in if checked = None \<or> checked = Some [] then
                     (let legacy = getLegacyTodayLotteryRecords e maxScan s;
                          s1 = (if length legacy > 0 then migrateLegacyTodayRecords dayKey legacy s else s)
                      in (legacy, s1\<lparr>kv_legacyChecked := (kv_legacyChecked s1)(today \<mapsto> ''1'')\<rparr>))
                   else (todayRecords, s))
             else (todayRecords, s))
      in (if \<not> includePending
          then filter (\<lambda>record. \<not> startsWith (r_tierName record) pendingMarker) todayRecords'
          else todayRecords', s'))"

section \<open>The prize selector\<close>

text \<open>The \<open>for\<close> loop of \<open>weightedRandomSelect\<close>; \<open>None\<close> when the loop runs to its end.\<close>

fun selectLoop :: "real \<Rightarrow> LotteryTier list \<Rightarrow> LotteryTier option" where
  "selectLoop random [] = None"
| "selectLoop random (tier # rest) =
     (let random' = random - probability tier
      in if random' \<le> 0 then Some tier else selectLoop random' rest)"

text \<open>
  \<open>weightedRandomSelect\<close>: \<open>draw\<close> is the value of \<open>Math.random()\<close>; \<open>None\<close> is null,
  and also the undefined last element of an empty array.
\<close>

definition weightedRandomSelect :: "real \<Rightarrow> LotteryTier list \<Rightarrow> LotteryTier option" where
  "weightedRandomSelect draw tiers =
     (let totalWeight = foldl (\<lambda>sum tier. sum + probability tier) 0 tiers
      in if totalWeight \<le> 0 then None
         else
           (case selectLoop (draw * totalWeight) tiers of
              Some tier \<Rightarrow> Some tier
            | None \<Rightarrow> if tiers = [] then None else Some (last tiers)))"

section \<open>The attempt\<close>

record spin_result =
  sr_success :: bool
  sr_record :: "LotteryRecord option"
  sr_message :: message
  sr_uncertain :: bool

definition denied :: "message \<Rightarrow> spin_result" where
  "denied m = \<lparr>sr_success = False, sr_record = None, sr_message = m, sr_uncertain = False\<rparr>"

text \<open>The bytes of the marker put before the tier name of an unconfirmed record, with its space.\<close>

definition pendingPrefix :: string where
  "pendingPrefix =
     [CHR 0x5B, CHR 0xE5, CHR 0xBE, CHR 0x85, CHR 0xE7, CHR 0xA1, CHR 0xAE, CHR 0xE8, CHR 0xAE, CHR 0xA4,
      CHR 0x5D, CHR 0x20]"

definition storePendingRecord :: "PendingLotteryRecord \<Rightarrow> store \<Rightarrow> store" where
  "storePendingRecord pending s =
     s\<lparr>kv_pending := ltrim0 (Some (pendingToStored pending) # kv_pending s) 99\<rparr>"

text \<open>\<open>rollbackSpinCount\<close>, after the claim has been granted (\<open>usedDailyFree\<close> is true).\<close>

definition rollbackSpinCount :: "env \<Rightarrow> int \<Rightarrow> string \<Rightarrow> store \<Rightarrow> store" where
  "rollbackSpinCount e linuxdoId today s = releaseDailyFree e (Finite (of_int linuxdoId)) (Some today) s"

text \<open>The two records \<open>spinLotteryDirect\<close> builds: the unconfirmed one and the confirmed one.\<close>

definition makePendingRecord :: "env \<Rightarrow> int \<Rightarrow> string \<Rightarrow> LotteryTier \<Rightarrow> LotteryRecord" where
  "makePendingRecord e linuxdoId username selectedTier =
     \<lparr>r_id = ''lottery_pending_'' @ String_int (nowMs e) @ ''_'' @ randomSuffix e,
      r_linuxdoId = String_int linuxdoId,
      r_username = username,
      r_tierId = tier_id selectedTier,
      r_tierName = pendingPrefix @ tier_name selectedTier,
      r_tierValue = tier_value selectedTier,
      r_directCredit = True,
      r_creditedQuota = None,
      r_createdAt = of_int (nowMs e)\<rparr>"

definition makeRecord :: "env \<Rightarrow> int \<Rightarrow> string \<Rightarrow> LotteryTier \<Rightarrow> credit_result \<Rightarrow> LotteryRecord" where
  "makeRecord e linuxdoId username selectedTier creditResult =
     \<lparr>r_id = ''lottery_'' @ String_int (nowMs e) @ ''_'' @ randomSuffix e,
      r_linuxdoId = String_int linuxdoId,
      r_username = username,
      r_tierId = tier_id selectedTier,
      r_tierName = tier_name selectedTier,
      r_tierValue = tier_value selectedTier,
      r_directCredit = True,
      r_creditedQuota = cr_newQuota creditResult,
      r_createdAt = of_int (nowMs e)\<rparr>"

text \<open>
  \<open>spinLotteryDirect\<close> once \<open>creditQuotaToUser\<close> has returned or thrown: the three
  outcomes of the credit call, and the \<open>catch\<close> block (\<open>Inl\<close>) with
  \<open>reservedDollars\<close> set to the tier's value.
\<close>

definition spinAfterCredit ::
  "env \<Rightarrow> int \<Rightarrow> string \<Rightarrow> int \<Rightarrow> string \<Rightarrow> LotteryTier \<Rightarrow> exception + credit_result \<Rightarrow> store \<Rightarrow> spin_result \<times> store" where
  "spinAfterCredit e linuxdoId username newApiUserId today selectedTier outcome s2 =
     (let reservedDollars = tier_value selectedTier
      in case outcome of
           Inl error \<Rightarrow>
             (denied MsgSystemError,
              rollbackSpinCount e linuxdoId today
                (if reservedDollars > 0 then rollbackDailyDirectQuota e reservedDollars (Some today) s2
                 else s2))
         | Inr creditResult \<Rightarrow>
             if cr_uncertain creditResult then
               (let pendingRecord = makePendingRecord e linuxdoId username selectedTier;
                    s3 = appendLotteryRecord e pendingRecord linuxdoId s2;
                    s4 = storePendingRecord
                           \<lparr>p_record = pendingRecord,
                            p_newApiUserId = newApiUserId,
                            p_expectedQuota = (case cr_newQuota creditResult of Some q \<Rightarrow> q | None \<Rightarrow> 0),
                            p_reservationDay = today,
                            p_storedAt = nowMs e\<rparr> s3
                in (\<lparr>sr_success = False, sr_record = None, sr_message = MsgUncertainCheckBalance,
                     sr_uncertain = True\<rparr>, s4))
             else if \<not> cr_success creditResult then
               (denied MsgCreditFailed,
                rollbackSpinCount e linuxdoId today
                  (rollbackDailyDirectQuota e reservedDollars (Some today) s2))
             else
               (let record = makeRecord e linuxdoId username selectedTier creditResult;
                    s3 = appendLotteryRecord e record linuxdoId s2
                in (\<lparr>sr_success = True, sr_record = Some record,
                     sr_message = MsgCongratulations (tier_name selectedTier),
                     sr_uncertain = False\<rparr>, s3)))"

text \<open>\<open>spinLotteryDirect\<close> from the reservation on.\<close>

definition spinReserveAndCredit ::
  "env \<Rightarrow> int \<Rightarrow> string \<Rightarrow> int \<Rightarrow> string \<Rightarrow> LotteryTier \<Rightarrow> store \<Rightarrow> ext \<Rightarrow> spin_result \<times> store \<times> ext" where
  "spinReserveAndCredit e linuxdoId username newApiUserId today selectedTier s x =
     (let (reserveResult, s1) = reserveDailyDirectQuota e (tier_value selectedTier) (Some today) s
      in if \<not> rr_success reserveResult
         then (denied MsgBudgetExhausted, rollbackSpinCount e linuxdoId today s1, x)
         else
           (case creditQuotaToUser e newApiUserId (tier_value selectedTier) s1 x of
              (outcome, s2, x1) \<Rightarrow>
                (case spinAfterCredit e linuxdoId username newApiUserId today selectedTier outcome s2 of
                   (result, s') \<Rightarrow> (result, s', x1))))"

text \<open>
  \<open>spinLotteryDirect\<close> after the claim has been granted, up to the selection. The
  total read for the filter is advisory: the other callers act on the store before the
  reservation is sent.
\<close>

definition spinAfterClaim ::
  "env \<Rightarrow> int \<Rightarrow> string \<Rightarrow> int \<Rightarrow> string \<Rightarrow> store \<Rightarrow> ext \<Rightarrow> spin_result \<times> store \<times> ext" where
  "spinAfterClaim e linuxdoId username newApiUserId today s x =
     (let (config, s1) = getLotteryConfig s
      in if \<not> cfg_enabled config then (denied MsgNotOpen, rollbackSpinCount e linuxdoId today s1, x)
         else
           let todayTotal = getTodayDirectTotal e s1;
               remainingQuota = cfg_dailyDirectLimit config - todayTotal;
               affordableTiers =
                 filter (\<lambda>tier. probability tier > 0 \<and> tier_value tier \<le> remainingQuota) (cfg_tiers config)
           in if length affordableTiers = 0
              then (denied MsgBudgetExhausted, rollbackSpinCount e linuxdoId today s1, x)
              else
                (case weightedRandomSelect (randomDraw e) affordableTiers of
                   None \<Rightarrow> (denied MsgConfigError, rollbackSpinCount e linuxdoId today s1, x)
                 | Some selectedTier \<Rightarrow>
                     spinReserveAndCredit e linuxdoId username newApiUserId today selectedTier
                       (othersBeforeReserve e s1) x))"

definition spinLotteryDirect ::
  "env \<Rightarrow> int \<Rightarrow> string \<Rightarrow> int \<Rightarrow> store \<Rightarrow> ext \<Rightarrow> spin_result \<times> store \<times> ext" where
  "spinLotteryDirect e linuxdoId username newApiUserId s x =
     (let today = todayDateString e;
          (dailyResult, s1) = tryClaimDailyFree e (Finite (of_int linuxdoId)) (Some today) s
      in if \<not> dailyResult then (denied MsgNoAttemptsLeft, s1, x)
         else spinAfterClaim e linuxdoId username newApiUserId today s1 x)"

section \<open>The reconciler of pending disbursements\<close>

definition PENDING_RECORDS_MAX_AGE_MS :: int where
  "PENDING_RECORDS_MAX_AGE_MS = 24 * 60 * 60 * 1000"

record reconcile_state =
  rs_confirmed :: nat
  rs_failed :: nat
  rs_expired :: nat
  rs_remaining :: "StoredPending option list"
  rs_store :: store
  rs_ext :: ext

text \<open>
  The part of the loop body inside the \<open>try\<close> block, once the quota query has
  answered or thrown (\<open>Inl\<close>); \<open>record\<close> is the record of the entry.
\<close>

definition reconcileAnswer ::
  "env \<Rightarrow> StoredPending \<Rightarrow> LotteryRecord \<Rightarrow> exception + quota_result \<Rightarrow> reconcile_state \<Rightarrow> reconcile_state" where
  "reconcileAnswer e pending record answer st =
     (case answer of
        Inl error \<Rightarrow> st\<lparr>rs_remaining := rs_remaining st @ [Some pending]\<rparr>
      | Inr quotaResult \<Rightarrow>
          if \<not> qr_success quotaResult then st\<lparr>rs_remaining := rs_remaining st @ [Some pending]\<rparr>
          else if (case qr_quota quotaResult of Some q \<Rightarrow> q \<ge> sp_expectedQuota pending | None \<Rightarrow> False)
          then st\<lparr>rs_confirmed := rs_confirmed st + 1\<rparr>
          else
            st\<lparr>rs_failed := rs_failed st + 1,
               rs_store :=
                 releaseDailyFree e (stringToNumber e (r_linuxdoId record)) (Some (sp_reservationDay pending))
                   (rollbackDailyDirectQuota e (r_tierValue record) (Some (sp_reservationDay pending))
                      (rs_store st))\<rparr>)"

text \<open>One turn of the loop \<open>for (const pending of allPending)\<close>.\<close>

definition reconcileEntry :: "env \<Rightarrow> StoredPending option \<Rightarrow> reconcile_state \<Rightarrow> reconcile_state" where
  "reconcileEntry e entry st =
     (case entry of
        None \<Rightarrow> st\<lparr>rs_expired := rs_expired st + 1\<rparr>
      | Some pending \<Rightarrow>
          (case (sp_record pending, sp_newApiUserId pending) of
             (Some record, Some userId) \<Rightarrow>
               if nowMs e - sp_storedAt pending > PENDING_RECORDS_MAX_AGE_MS
               then st\<lparr>rs_expired := rs_expired st + 1\<rparr>
               else
                 let (quotaResult, x1) = checkUserQuota e userId (rs_ext st)
                 in reconcileAnswer e pending record (Inr quotaResult) (st\<lparr>rs_ext := x1\<rparr>)
           | _ \<Rightarrow> st\<lparr>rs_expired := rs_expired st + 1\<rparr>))"

fun reconcileLoop :: "env \<Rightarrow> StoredPending option list \<Rightarrow> reconcile_state \<Rightarrow> reconcile_state" where
  "reconcileLoop e [] st = st"
| "reconcileLoop e (entry # rest) st = reconcileLoop e rest (reconcileEntry e entry st)"

definition reconcileStart :: "store \<Rightarrow> ext \<Rightarrow> reconcile_state" where
  "reconcileStart s x =
     \<lparr>rs_confirmed = 0, rs_failed = 0, rs_expired = 0, rs_remaining = [], rs_store = s, rs_ext = x\<rparr>"

record reconcile_result =
  processed :: nat
  confirmed :: nat
  failed :: nat
  expired :: nat
  stillPending :: nat

text \<open>
  \<open>reconcilePendingRecords\<close>: the list is read whole, the loop runs, then the key is
  deleted and the unresolved entries are pushed back one by one with \<open>LPUSH\<close>.
\<close>

definition reconcilePendingRecords :: "env \<Rightarrow> store \<Rightarrow> ext \<Rightarrow> reconcile_result \<times> store \<times> ext" where
  "reconcilePendingRecords e s x =
     (let allPending = lrange (kv_pending s) 0 (- 1)
      in if length allPending = 0
         then (\<lparr>processed = 0, confirmed = 0, failed = 0, expired = 0, stillPending = 0\<rparr>, s, x)
         else
           let st = reconcileLoop e allPending (reconcileStart s x);
               s1 = (rs_store st)\<lparr>kv_pending := foldl (\<lambda>list item. item # list) [] (rs_remaining st)\<rparr>
           in (\<lparr>processed = length allPending, confirmed = rs_confirmed st, failed = rs_failed st,
                 expired = rs_expired st, stillPending = length (rs_remaining st)\<rparr>, s1, rs_ext st))"

section \<open>Sample inputs\<close>

text \<open>
  The store with no key, and one reading of the clock and the random generator. In the
  sample environment no other caller acts on the store, the product is the exact
  one (on the amounts of the samples the whole units it rounds to are those of
  the product of the machine), and \<open>Number\<close> reads decimal whole numbers.
\<close>

definition emptyStore :: store where
  "emptyStore =
     \<lparr>kv_config = None, kv_configLock = None, kv_quotaLock = (\<lambda>userId. None),
      kv_daily = (\<lambda>key. None), kv_dailyDirect = (\<lambda>day. None), kv_recordsRecent = [],
      kv_recordsDay = (\<lambda>day. []), kv_userRecords = (\<lambda>userId. []), kv_recordsTotal = None,
      kv_recordsLegacy = [], kv_legacyChecked = (\<lambda>day. None), kv_pending = [],
      proc_totalRecordsInit = False\<rparr>"

definition sampleEnv :: env where
  "sampleEnv =
     \<lparr>todayDateString = ''2025-01-01'', secondsUntilMidnight = 3600,
      chinaDayStartTimestamp = 1735660800000, nowMs = 1735700000000,
      randomDraw = 1 / 2, randomSuffix = ''k3x9qa'', newApiUrlSet = True,
      lockAfterSleep = (\<lambda>k holder. holder), othersBeforeReserve = (\<lambda>s. s),
      numberMultiply = (\<lambda>a b. a * b), stringToNumber = readDecimal\<rparr>"

section \<open>Predicates and sample inputs of the properties\<close>

text \<open>A record is well formed when \<open>normalizeLotteryRecord\<close> has nothing to repair in it: its id and its user id are not empty and carry no white space at either end, its tier name is not empty and its tier id is not blank.\<close>

definition wellFormedRecord :: "LotteryRecord \<Rightarrow> bool" where
  "wellFormedRecord r =
     (r_id r \<noteq> [] \<and> trim (r_id r) = r_id r \<and> r_linuxdoId r \<noteq> [] \<and> trim (r_linuxdoId r) = r_linuxdoId r \<and>
      r_tierName r \<noteq> [] \<and> trim (r_tierId r) \<noteq> [])"

text \<open>The records of a store: its four families of record lists, the counter of records and the flag of the counter's initialisation.\<close>

definition recordsOf ::
  "store \<Rightarrow> StoredLotteryRecord list \<times> (string \<Rightarrow> StoredLotteryRecord list) \<times> (int \<Rightarrow> StoredLotteryRecord list) \<times>
     StoredLotteryRecord list \<times> int option \<times> bool" where
  "recordsOf s =
     (kv_recordsRecent s, kv_recordsDay s, kv_userRecords s, kv_recordsLegacy s, kv_recordsTotal s,
      proc_totalRecordsInit s)"

text \<open>A day, a session, an answer of the external service that carries the quota of the user, and the tier the draw 1/2 selects among the default tiers.\<close>

definition day1 :: string where "day1 = ''2025-01-01''"

definition sampleSession :: AdminSessionWithUser where
  "sampleSession = \<lparr>sess_cookies = ''session=abc'', sess_adminUserId = 1\<rparr>"

definition userResponse :: "real \<Rightarrow> HttpResponse" where
  "userResponse q =
     \<lparr>http_status = 200,
      http_body = Some \<lparr>resp_success = True, resp_message = [], resp_data = Some \<lparr>user_quota = q\<rparr>\<rparr>\<rparr>"

text \<open>The external service during an attempt whose update request times out after it was sent: the user is read (quota 1000), the \<open>PUT\<close> throws, the session is renewed, and the read that should verify the update throws too.\<close>

definition timeoutAfterDispatch :: ext where
  "timeoutAfterDispatch =
     \<lparr>sessionReplies = [Some sampleSession, Some sampleSession],
      fetchReplies = [Some (userResponse 1000), None, None],
      requests = []\<rparr>"

text \<open>Stores: user 42 has claimed the day; the day's accumulator stands 1 dollar under the default cap of 2000; no answers at all from the external service; a confirmed record of user 42.\<close>

definition claimedStore :: store where
  "claimedStore = emptyStore\<lparr>kv_daily := (kv_daily emptyStore)((Finite 42, day1) \<mapsto> ''1'')\<rparr>"

definition nearCapStore :: store where
  "nearCapStore = claimedStore\<lparr>kv_dailyDirect := (kv_dailyDirect claimedStore)(day1 \<mapsto> (199900, Some 90000))\<rparr>"

definition noReplies :: ext where
  "noReplies = \<lparr>sessionReplies = [], fetchReplies = [], requests = []\<rparr>"

definition sampleRecord :: LotteryRecord where
  "sampleRecord =
     \<lparr>r_id = ''lottery_1735700000000_k3x9qa'', r_linuxdoId = ''42'', r_username = ''alice'',
      r_tierId = ''tier_3'', r_tierName = ''3'' @ tierNameSuffix, r_tierValue = 3,
      r_directCredit = True, r_creditedQuota = Some 1501000, r_createdAt = 1735700000000\<rparr>"

text \<open>A store whose configured cap is 10.006 dollars. The store after user 42 has claimed the day and the default configuration was written, the same with the day's accumulator at 1999 dollars, and an environment in which the other callers bring the accumulator there between the read of the total and the reservation.\<close>

definition roundedCapStore :: store where
  "roundedCapStore =
     emptyStore\<lparr>kv_config := Some \<lparr>pc_enabled = Some True, pc_dailyDirectLimit = Some (10006 / 1000),
                                     pc_tiers = None\<rparr>\<rparr>"




text \<open>The quota lock of account 7 is held by another caller; a later caller with a different token.\<close>

definition heldStore :: store where
  "heldStore = emptyStore\<lparr>kv_quotaLock := (kv_quotaLock emptyStore)(7 \<mapsto> ''1735699999000_zzzzzzzz'')\<rparr>"

definition laterEnv :: env where
  "laterEnv = sampleEnv\<lparr>randomSuffix := ''p0o9i8''\<rparr>"

definition sampleTier :: LotteryTier where
  "sampleTier = \<lparr>tier_id = ''tier_3'', tier_name = ''3'' @ tierNameSuffix, tier_value = 3, probability = 30,
                  color = ''#3b82f6''\<rparr>"

text \<open>The result of the credit call of that attempt, the requests it leaves behind, and the store after the reservation of 3 dollars by user 42.\<close>

definition uncertainResult :: credit_result where
  "uncertainResult =
     \<lparr>cr_success = False, cr_message = MsgUncertainCheckBalance, cr_newQuota = None, cr_uncertain = True\<rparr>"

definition afterCreditExt :: ext where
  "afterCreditExt =
     \<lparr>sessionReplies = [], fetchReplies = [],
       requests = [GetSession False, GetUser 7, PutUser 7 1501000, GetSession True, GetUser 7]\<rparr>"

definition reservedStore :: store where
  "reservedStore =
     emptyStore\<lparr>kv_config := Some (toPartial cloneDefaultLotteryConfig),
                kv_daily := (kv_daily emptyStore)((Finite 42, day1) \<mapsto> ''1''),
                kv_dailyDirect := (kv_dailyDirect emptyStore)(day1 \<mapsto> (300, Some 7200))\<rparr>"

text \<open>The external service answering one quota query with quota \<open>q\<close>.\<close>

definition quotaReplies :: "real \<Rightarrow> ext" where
  "quotaReplies q =
     \<lparr>sessionReplies = [Some sampleSession], fetchReplies = [Some (userResponse q)], requests = []\<rparr>"

text \<open>An unconfirmed record of user 42, its pending entry with the floor 1501000, the same entry stored 25 hours earlier, and a store that holds the record and the entry.\<close>

definition samplePendingRecord :: LotteryRecord where
  "samplePendingRecord =
     \<lparr>r_id = ''lottery_pending_1735699990000_k3x9qa'', r_linuxdoId = ''42'', r_username = ''alice'',
      r_tierId = ''tier_3'', r_tierName = pendingPrefix @ ''3'' @ tierNameSuffix, r_tierValue = 3,
      r_directCredit = True, r_creditedQuota = None, r_createdAt = 1735699990000\<rparr>"

definition samplePending :: StoredPending where
  "samplePending =
     \<lparr>sp_record = Some samplePendingRecord, sp_newApiUserId = Some 7, sp_expectedQuota = 1501000,
      sp_reservationDay = day1, sp_storedAt = 1735699990000\<rparr>"

definition oldPending :: StoredPending where
  "oldPending = samplePending\<lparr>sp_storedAt := 1735610000000\<rparr>"

definition pendingStore :: store where
  "pendingStore =
     reservedStore\<lparr>kv_userRecords := (kv_userRecords reservedStore)(42 := [toStored samplePendingRecord]),
                   kv_pending := [Some samplePending]\<rparr>"

section \<open>Auxiliary facts\<close>

subsection \<open>Lists and strings\<close>

lemma lrange_all: "lrange xs 0 (- 1) = xs"
  by (cases xs) (auto simp: lrange_def Let_def)

lemma ltrim0_Cons: "0 \<le> n \<Longrightarrow> ltrim0 (x # xs) n = x # take (nat n) xs"
  by (auto simp: ltrim0_def lrange_def Let_def min_def nat_add_distrib take_Cons' split: if_splits)

lemma lrange_head: "lrange (x # xs) 0 0 = [x]"
  by (auto simp: lrange_def Let_def)

lemma startsWith_hd: "startsWith s w \<Longrightarrow> w \<noteq> [] \<Longrightarrow> s \<noteq> [] \<and> hd s = hd w"
  by (cases s; cases w) auto

lemma leadingSpace_hd:
  assumes "hd s \<notin> set (map hd codes)" and "[] \<notin> set codes"
  shows "leadingSpace codes s = 0"
proof -
  have "\<not> startsWith s w" if "w \<in> set codes" for w
  proof
    assume sw: "startsWith s w"
    from that assms(2) have "w \<noteq> []" by auto
    from startsWith_hd [OF sw this] have "hd s = hd w" by simp
    with that assms(1) show False by auto
  qed
  then have "find (startsWith s) codes = None" by (simp add: find_None_iff)
  then show ?thesis by (simp add: leadingSpace_def)
qed

lemma trim_unspaced:
  assumes "leadingSpace whiteSpace s = 0" and "leadingSpace (map rev whiteSpace) (rev s) = 0"
  shows "trim s = s"
  using assms
  by (simp add: trim_def stripSpace.simps [of whiteSpace s] stripSpace.simps [of "map rev whiteSpace" "rev s"])

lemma trim_plain:
  assumes "s \<noteq> []" and "hd s \<notin> set (map hd whiteSpace)" and "last s \<notin> set (map last whiteSpace)"
  shows "trim s = s"
proof -
  have a: "leadingSpace whiteSpace s = 0"
    using assms(2) by (rule leadingSpace_hd) (simp add: whiteSpace_def)
  have "set (map hd (map rev whiteSpace)) = set (map last whiteSpace)"
    by (simp add: whiteSpace_def)
  with assms(1,3) have "hd (rev s) \<notin> set (map hd (map rev whiteSpace))" by (simp add: hd_rev)
  then have "leadingSpace (map rev whiteSpace) (rev s) = 0"
    by (rule leadingSpace_hd) (simp add: whiteSpace_def)
  with a show ?thesis by (rule trim_unspaced)
qed

lemma digit_plain:
  assumes "c \<in> set ''0123456789''"
  shows "c \<notin> set (map hd whiteSpace) \<and> c \<notin> set (map last whiteSpace) \<and> c \<noteq> CHR ''-'' \<and> c \<noteq> CHR ''+''"
  using assms by (auto simp: whiteSpace_def)

lemma digit_cases: "d < 10 \<Longrightarrow> d \<in> {0, 1, 2, 3, 4, 5, 6, 7, 8, 9::nat}"
  by auto

lemma digitValue_digit: "d < 10 \<Longrightarrow> digitValue (''0123456789'' ! d) = Some d"
  using digit_cases [of d] by (auto simp: digitValue_def)

lemma digit_mem: "d < 10 \<Longrightarrow> ''0123456789'' ! d \<in> set ''0123456789''"
  using digit_cases [of d] by auto

lemma parseDigits_append:
  "parseDigits acc (xs @ ys) = (case parseDigits acc xs of None \<Rightarrow> None | Some a \<Rightarrow> parseDigits a ys)"
  by (induction xs arbitrary: acc) (auto split: option.splits)

lemma parseDigits_digits: "parseDigits 0 (digits n) = Some n"
proof (induction n rule: digits.induct)
  case (1 n)
  show ?case
  proof (cases "n < 10")
    case True
    then show ?thesis by (subst digits.simps) (simp add: digitValue_digit)
  next
    case False
    have m: "n mod 10 < 10" by simp
    from False 1 have "parseDigits 0 (digits (n div 10)) = Some (n div 10)" by simp
    with False show ?thesis
      by (subst digits.simps) (simp add: parseDigits_append digitValue_digit [OF m])
  qed
qed

lemma digits_plain: "digits n \<noteq> [] \<and> set (digits n) \<subseteq> set ''0123456789''"
proof (induction n rule: digits.induct)
  case (1 n)
  show ?case
  proof (cases "n < 10")
    case True
    then show ?thesis using digit_mem [of n] by (subst (1 2) digits.simps) simp
  next
    case False
    have m: "n mod 10 < 10" by simp
    from False 1 digit_mem [OF m] show ?thesis by (subst (1 2) digits.simps) simp
  qed
qed

lemma digits_ends:
  "digits n \<noteq> []" "hd (digits n) \<in> set ''0123456789''" "last (digits n) \<in> set ''0123456789''"
  using digits_plain [of n] hd_in_set [of "digits n"] last_in_set [of "digits n"] by blast+

lemma readDecimal_String_int: "readDecimal (String_int i) = Finite (of_int i)"
proof (cases "i < 0")
  case False
  let ?ds = "digits (nat i)"
  obtain c cs where d: "?ds = c # cs" using digits_ends(1) [of "nat i"] by (cases ?ds) auto
  have t: "trim ?ds = ?ds"
    using digits_ends [of "nat i"] digit_plain by (intro trim_plain) auto
  have p: "parseDigits 0 (c # cs) = Some (nat i)" using parseDigits_digits [of "nat i"] d by simp
  have "c \<noteq> CHR ''-''" "c \<noteq> CHR ''+''" using digits_ends(2) [of "nat i"] digit_plain [of c] d by auto
  then show ?thesis using False t d p
    by (simp add: readDecimal_def String_int_def del: parseDigits.simps)
next
  case True
  let ?ds = "digits (nat (- i))"
  have ne: "?ds \<noteq> []" by (rule digits_ends)
  have "last (CHR ''-'' # ?ds) \<notin> set (map last whiteSpace)"
    using digits_ends [of "nat (- i)"] digit_plain by simp
  moreover have "hd (CHR ''-'' # ?ds) \<notin> set (map hd whiteSpace)" by (simp add: whiteSpace_def)
  ultimately have t: "trim (CHR ''-'' # ?ds) = CHR ''-'' # ?ds" by (intro trim_plain) auto
  show ?thesis using True t ne parseDigits_digits [of "nat (- i)"]
    by (simp add: readDecimal_def String_int_def)
qed

lemma ex_number: "readDecimal ''42'' = Finite 42"
  using readDecimal_String_int [of 42] by (simp add: String_int_def digits.simps [of 42] digits.simps [of 4])

lemma fallbackTierId_shape:
  "fallbackTierId v \<noteq> [] \<and> hd (fallbackTierId v) = CHR ''t'' \<and> last (fallbackTierId v) \<in> set ''0123456789''"
proof (cases "find (\<lambda>tier. tier_value tier = v) DEFAULT_TIERS")
  case None
  have "\<not> max 1 (Math_floor v) < 0" by simp
  with None digits_ends [of "nat (max 1 (Math_floor v))"] show ?thesis
    by (simp add: fallbackTierId_def String_int_def)
next
  case (Some matched)
  then have "matched \<in> set DEFAULT_TIERS" by (auto simp: find_Some_iff)
  then have "tier_id matched \<in> {''tier_1'', ''tier_3'', ''tier_5'', ''tier_10'', ''tier_15'', ''tier_20''}"
    by (auto simp: DEFAULT_TIERS_def)
  with Some show ?thesis by (auto simp: fallbackTierId_def)
qed

lemma fallbackTierId_not_blank: "trim (fallbackTierId v) \<noteq> []"
proof -
  from fallbackTierId_shape [of v] digit_plain [of "last (fallbackTierId v)"]
  have "trim (fallbackTierId v) = fallbackTierId v"
    by (intro trim_plain) (auto simp: whiteSpace_def)
  with fallbackTierId_shape [of v] show ?thesis by simp
qed

text \<open>
  The white space of \<open>trim\<close> is not the ASCII one alone: the ideographic space U+3000
  before an id, and the no-break space U+00A0 and a space after it, are removed.
\<close>

lemma ex_trim_ideographic_space:
  "trim ([CHR 0xE3, CHR 0x80, CHR 0x80] @ ''lottery_1'' @ [CHR 0xC2, CHR 0xA0, CHR 0x20]) = ''lottery_1''"
  by (simp add: trim_def stripSpace.simps [of _ "_ # _"] stripSpace.simps [of _ "[]"] leadingSpace_def whiteSpace_def)

subsection \<open>Configuration\<close>

lemma getLotteryConfig_frame:
  "kv_dailyDirect (snd (getLotteryConfig s)) = kv_dailyDirect s"
  "kv_daily (snd (getLotteryConfig s)) = kv_daily s"
  "kv_recordsRecent (snd (getLotteryConfig s)) = kv_recordsRecent s"
  "kv_recordsDay (snd (getLotteryConfig s)) = kv_recordsDay s"
  "kv_userRecords (snd (getLotteryConfig s)) = kv_userRecords s"
  "kv_recordsTotal (snd (getLotteryConfig s)) = kv_recordsTotal s"
  "kv_pending (snd (getLotteryConfig s)) = kv_pending s"
  "kv_quotaLock (snd (getLotteryConfig s)) = kv_quotaLock s"
  by (simp_all add: getLotteryConfig_def Let_def split: option.splits)

lemma emptyStore_config: "getLotteryConfig emptyStore = (cloneDefaultLotteryConfig, emptyStore\<lparr>kv_config := Some (toPartial cloneDefaultLotteryConfig)\<rparr>)"
  by (simp add: getLotteryConfig_def emptyStore_def Let_def)

lemma default_limit: "cfg_dailyDirectLimit cloneDefaultLotteryConfig = 2000"
  by (simp add: cloneDefaultLotteryConfig_def DEFAULT_CONFIG_def)

lemma ex_sanitize: "sanitizeLotteryConfig (toPartial cloneDefaultLotteryConfig) = cloneDefaultLotteryConfig"
  by (simp add: sanitizeLotteryConfig_def toPartial_def cloneDefaultLotteryConfig_def DEFAULT_CONFIG_def
      DEFAULT_TIERS_def sanitizeTier_def baseTier_def trim_unspaced leadingSpace_def whiteSpace_def
      tierNameSuffix_def
      LOTTERY_CONFIG_MAX_TIER_VALUE_def LOTTERY_CONFIG_MAX_DAILY_LIMIT_def Let_def enumerate_eq_zip)

lemma ex_tiers: "cfg_tiers cloneDefaultLotteryConfig = DEFAULT_TIERS" "cfg_enabled cloneDefaultLotteryConfig"
  by (simp_all add: cloneDefaultLotteryConfig_def DEFAULT_CONFIG_def)

lemma ex_filter:
  "filter (\<lambda>tier. probability tier > 0 \<and> tier_value tier \<le> 2000) DEFAULT_TIERS = DEFAULT_TIERS"
  by (simp add: DEFAULT_TIERS_def)

lemma ex_nonempty: "DEFAULT_TIERS \<noteq> []" "length DEFAULT_TIERS = 6"
  by (simp_all add: DEFAULT_TIERS_def)

subsection \<open>The budget ledger and the attempt ledger\<close>

lemma directCents_getLotteryConfig: "directCents (snd (getLotteryConfig s)) day = directCents s day"
  by (simp add: directCents_def getLotteryConfig_frame)

lemma reserveLua_over:
  "directCents s key + cents > limit \<Longrightarrow>
   fst (reserveLua key cents limit ttl s) = (0, directCents s key) \<and>
   directCents (snd (reserveLua key cents limit ttl s)) key = directCents s key"
  by (auto simp: reserveLua_def directCents_def Let_def split: option.splits prod.splits)

lemma reserveLua_within:
  "directCents s key + cents \<le> limit \<Longrightarrow>
   fst (reserveLua key cents limit ttl s) = (1, directCents s key + cents) \<and>
   directCents (snd (reserveLua key cents limit ttl s)) key = directCents s key + cents"
  by (auto simp: reserveLua_def directCents_def Let_def split: option.splits prod.splits)

lemma reserve_unfold_pos:
  assumes "0 < Math_round (numberMultiply e dollars 100)"
  shows "reserveDailyDirectQuota e dollars today s =
     (let s1 = snd (getLotteryConfig s);
          day = (case today of Some d \<Rightarrow> d | None \<Rightarrow> todayDateString e);
          res = reserveLua day (Math_round (numberMultiply e dollars 100))
                  (Math_round (numberMultiply e (cfg_dailyDirectLimit (fst (getLotteryConfig s))) 100))
                  (secondsUntilMidnight e + 3600) s1
      in (\<lparr>rr_success = (fst (fst res) = 1), rr_newTotal = of_int (snd (fst res)) / 100\<rparr>, snd res))"
  using assms
  by (simp add: reserveDailyDirectQuota_def DIRECT_AMOUNT_SCALE_def Let_def split: prod.splits)

lemma reserve_unfold_nonpos:
  assumes "Math_round (numberMultiply e dollars 100) \<le> 0"
  shows "reserveDailyDirectQuota e dollars today s =
     (\<lparr>rr_success = False, rr_newTotal = getTodayDirectTotal e (snd (getLotteryConfig s))\<rparr>, snd (getLotteryConfig s))"
  using assms
  by (simp add: reserveDailyDirectQuota_def DIRECT_AMOUNT_SCALE_def Let_def split: prod.splits)




lemma rollback_cents:
  "directCents (rollbackDailyDirectQuota e dollars (Some day) s) day =
   directCents s day - max 0 (Math_round (numberMultiply e dollars 100))"
  by (auto simp: rollbackDailyDirectQuota_def directCents_def DIRECT_AMOUNT_SCALE_def Let_def
      split: option.splits prod.splits)

lemma rollback_frame:
  "kv_daily (rollbackDailyDirectQuota e dollars today s) = kv_daily s"
  "kv_recordsRecent (rollbackDailyDirectQuota e dollars today s) = kv_recordsRecent s"
  "kv_recordsDay (rollbackDailyDirectQuota e dollars today s) = kv_recordsDay s"
  "kv_userRecords (rollbackDailyDirectQuota e dollars today s) = kv_userRecords s"
  "kv_recordsLegacy (rollbackDailyDirectQuota e dollars today s) = kv_recordsLegacy s"
  "kv_recordsTotal (rollbackDailyDirectQuota e dollars today s) = kv_recordsTotal s"
  by (simp_all add: rollbackDailyDirectQuota_def Let_def split: prod.splits)

lemma release_frame:
  "kv_dailyDirect (releaseDailyFree e u today s) = kv_dailyDirect s"
  "kv_recordsRecent (releaseDailyFree e u today s) = kv_recordsRecent s"
  "kv_recordsDay (releaseDailyFree e u today s) = kv_recordsDay s"
  "kv_userRecords (releaseDailyFree e u today s) = kv_userRecords s"
  "kv_recordsLegacy (releaseDailyFree e u today s) = kv_recordsLegacy s"
  "kv_recordsTotal (releaseDailyFree e u today s) = kv_recordsTotal s"
  by (simp_all add: releaseDailyFree_def Let_def)

lemma reserveLua_store:
  "snd (reserveLua key cents limit ttl s) =
     s\<lparr>kv_dailyDirect := (kv_dailyDirect s)(key := kv_dailyDirect (snd (reserveLua key cents limit ttl s)) key)\<rparr>"
  by (simp add: reserveLua_def Let_def split: prod.splits option.splits)

lemma reserve_store:
  fixes e :: env and today :: "string option"
  defines "day \<equiv> (case today of Some d \<Rightarrow> d | None \<Rightarrow> todayDateString e)"
  shows "snd (reserveDailyDirectQuota e dollars today s) =
     (snd (getLotteryConfig s))
       \<lparr>kv_dailyDirect :=
          (kv_dailyDirect s)(day := kv_dailyDirect (snd (reserveDailyDirectQuota e dollars today s)) day)\<rparr>"
proof (cases "0 < Math_round (numberMultiply e dollars 100)")
  case True
  show ?thesis
    using reserveLua_store [of day "Math_round (numberMultiply e dollars 100)"
        "Math_round (numberMultiply e (cfg_dailyDirectLimit (fst (getLotteryConfig s))) 100)"
        "secondsUntilMidnight e + 3600" "snd (getLotteryConfig s)"]
    by (simp add: reserve_unfold_pos [OF True] Let_def getLotteryConfig_frame day_def)
next
  case False
  then have np: "Math_round (numberMultiply e dollars 100) \<le> 0" by simp
  have "kv_dailyDirect (snd (getLotteryConfig s)) = kv_dailyDirect s" by (rule getLotteryConfig_frame)
  then show ?thesis
    by (simp add: reserve_unfold_nonpos [OF np])
qed


lemma compensate_store:
  fixes e :: env and s :: store and dollars :: real and u :: jsnum and day :: string
  defines "s' \<equiv> releaseDailyFree e u (Some day) (rollbackDailyDirectQuota e dollars (Some day) s)"
  shows "s'\<lparr>kv_dailyDirect := kv_dailyDirect s, kv_daily := kv_daily s\<rparr> = s"
    and "kv_daily s' = (kv_daily s)((u, day) := None)"
    and "kv_dailyDirect s' = (kv_dailyDirect s)(day := kv_dailyDirect s' day)"
    and "directCents s' day = directCents s day - max 0 (Math_round (numberMultiply e dollars 100))"
proof -
  show "s'\<lparr>kv_dailyDirect := kv_dailyDirect s, kv_daily := kv_daily s\<rparr> = s"
    by (simp add: s'_def releaseDailyFree_def rollbackDailyDirectQuota_def Let_def split: prod.splits)
  show "kv_daily s' = (kv_daily s)((u, day) := None)"
    by (simp add: s'_def releaseDailyFree_def rollback_frame)
  show "kv_dailyDirect s' = (kv_dailyDirect s)(day := kv_dailyDirect s' day)"
    by (simp add: s'_def releaseDailyFree_def rollbackDailyDirectQuota_def Let_def split: prod.splits)
  have "directCents s' day = directCents (rollbackDailyDirectQuota e dollars (Some day) s) day"
    by (simp add: s'_def directCents_def release_frame)
  then show "directCents s' day = directCents s day - max 0 (Math_round (numberMultiply e dollars 100))"
    by (simp add: rollback_cents)
qed

lemma recordsOf_ledgers:
  "recordsOf (snd (getLotteryConfig s)) = recordsOf s"
  "recordsOf (snd (tryClaimDailyFree e u today s)) = recordsOf s"
  "recordsOf (releaseDailyFree e u today s) = recordsOf s"
  "recordsOf (snd (reserveLua key cents limit ttl s)) = recordsOf s"
  "recordsOf (rollbackDailyDirectQuota e dollars today s) = recordsOf s"
  "recordsOf (releaseConfigLock tok s) = recordsOf s"
  by (simp_all add: recordsOf_def getLotteryConfig_def tryClaimDailyFree_def releaseDailyFree_def
      reserveLua_def rollbackDailyDirectQuota_def releaseConfigLock_def Let_def
      split: option.splits prod.splits)

lemma recordsOf_reserve: "recordsOf (snd (reserveDailyDirectQuota e dollars today s)) = recordsOf s"
  by (cases "0 < Math_round (numberMultiply e dollars 100)";
      simp add: reserve_unfold_pos reserve_unfold_nonpos Let_def recordsOf_ledgers)

lemma recordsOf_update:
  "(case updateLotteryConfig tok config s of Inl err \<Rightarrow> recordsOf s | Inr s' \<Rightarrow> recordsOf s') = recordsOf s"
proof (cases "kv_configLock s")
  case None
  obtain current s2 where c: "getLotteryConfig (s\<lparr>kv_configLock := Some tok\<rparr>) = (current, s2)"
    by (cases "getLotteryConfig (s\<lparr>kv_configLock := Some tok\<rparr>)")
  have "recordsOf s2 = recordsOf (s\<lparr>kv_configLock := Some tok\<rparr>)"
    using recordsOf_ledgers(1) [of "s\<lparr>kv_configLock := Some tok\<rparr>"] c by simp
  then have "recordsOf (s2\<lparr>kv_config := Some (mergeConfig current config)\<rparr>) = recordsOf s"
    by (simp add: recordsOf_def)
  with None c show ?thesis by (simp add: updateLotteryConfig_def Let_def recordsOf_ledgers)
next
  case (Some holder)
  then show ?thesis by (simp add: updateLotteryConfig_def)
qed

subsection \<open>The record store\<close>

lemma normalize_toStored_iff: "normalizeLotteryRecord (toStored r) = Some r \<longleftrightarrow> wellFormedRecord r"
  using fallbackTierId_not_blank [of "r_tierValue r"]
  by (cases r) (auto simp: normalizeLotteryRecord_def toStored_def wellFormedRecord_def Let_def)

lemma kv_userRecords_increment:
  "kv_userRecords (incrementTotalRecordsCounter s) = kv_userRecords s"
  by (simp add: incrementTotalRecordsCounter_def ensureTotalRecordsCounterInitialized_def Let_def)

lemma append_frame:
  "kv_daily (appendLotteryRecord e r u s) = kv_daily s"
  "kv_dailyDirect (appendLotteryRecord e r u s) = kv_dailyDirect s"
  "kv_pending (appendLotteryRecord e r u s) = kv_pending s"
  "kv_quotaLock (appendLotteryRecord e r u s) = kv_quotaLock s"
  by (simp_all add: appendLotteryRecord_def incrementTotalRecordsCounter_def
      ensureTotalRecordsCounterInitialized_def Let_def)

lemma append_user_head:
  "kv_userRecords (appendLotteryRecord e r u s) u = toStored r # take 199 (kv_userRecords s u)"
  by (simp add: appendLotteryRecord_def Let_def kv_userRecords_increment ltrim0_Cons
      USER_RECORDS_MAX_LENGTH_def)

lemma append_recent_head:
  "kv_recordsRecent (appendLotteryRecord e r u s) = toStored r # take 4999 (kv_recordsRecent s)"
  by (simp add: appendLotteryRecord_def incrementTotalRecordsCounter_def
      ensureTotalRecordsCounterInitialized_def Let_def ltrim0_Cons RECORDS_RECENT_MAX_LENGTH_def)

lemma append_day:
  "kv_recordsDay (appendLotteryRecord e r u s) =
     (kv_recordsDay s)(todayDateString e := toStored r # kv_recordsDay s (todayDateString e))"
  by (simp add: appendLotteryRecord_def incrementTotalRecordsCounter_def
      ensureTotalRecordsCounterInitialized_def Let_def)

lemma append_user:
  "kv_userRecords (appendLotteryRecord e r u s) = (kv_userRecords s)(u := toStored r # take 199 (kv_userRecords s u))"
  by (simp add: appendLotteryRecord_def Let_def kv_userRecords_increment ltrim0_Cons
      USER_RECORDS_MAX_LENGTH_def)

lemma append_legacy: "kv_recordsLegacy (appendLotteryRecord e r u s) = kv_recordsLegacy s"
  by (simp add: appendLotteryRecord_def incrementTotalRecordsCounter_def
      ensureTotalRecordsCounterInitialized_def Let_def)

lemma recordsOf_append_cong:
  "recordsOf a = recordsOf b \<Longrightarrow> recordsOf (appendLotteryRecord e r u a) = recordsOf (appendLotteryRecord e r u b)"
  by (simp add: recordsOf_def appendLotteryRecord_def incrementTotalRecordsCounter_def
      ensureTotalRecordsCounterInitialized_def Let_def)

lemma recordsOf_storePending: "recordsOf (storePendingRecord p s) = recordsOf s"
  by (simp add: recordsOf_def storePendingRecord_def)

lemma migrateLoop_store:
  "migrateLoop dayKey reversed index s =
     s\<lparr>kv_recordsDay := (kv_recordsDay s)(dayKey := rev (drop index reversed) @ kv_recordsDay s dayKey)\<rparr>"
proof (induction dayKey reversed index s rule: migrateLoop.induct)
  case (1 dayKey reversed index s)
  show ?case
  proof (cases "index < length reversed")
    case False
    then show ?thesis by (subst migrateLoop.simps) simp
  next
    case True
    let ?chunk = "take RECORDS_MIGRATION_CHUNK_SIZE (drop index reversed)"
    let ?s = "s\<lparr>kv_recordsDay := (kv_recordsDay s)(dayKey := rev ?chunk @ kv_recordsDay s dayKey)\<rparr>"
    have split: "?chunk @ drop (index + RECORDS_MIGRATION_CHUNK_SIZE) reversed = drop index reversed"
      by (simp add: add.commute flip: drop_drop)
    have "rev (drop (index + RECORDS_MIGRATION_CHUNK_SIZE) reversed) @ rev ?chunk = rev (drop index reversed)"
      by (simp flip: rev_append add: split)
    then have eq: "rev (drop (index + RECORDS_MIGRATION_CHUNK_SIZE) reversed) @ rev ?chunk @ old =
        rev (drop index reversed) @ old" for old
      by (simp flip: append_assoc)
    have "migrateLoop dayKey reversed index s =
        migrateLoop dayKey reversed (index + RECORDS_MIGRATION_CHUNK_SIZE) ?s"
      using True by (subst migrateLoop.simps) (simp add: Let_def)
    also have "\<dots> = ?s\<lparr>kv_recordsDay := (kv_recordsDay ?s)
        (dayKey := rev (drop (index + RECORDS_MIGRATION_CHUNK_SIZE) reversed) @ kv_recordsDay ?s dayKey)\<rparr>"
      using 1 [OF True refl] .
    also have "\<dots> = s\<lparr>kv_recordsDay := (kv_recordsDay s)(dayKey := rev (drop index reversed) @ kv_recordsDay s dayKey)\<rparr>"
      by (simp add: eq)
    finally show ?thesis .
  qed
qed

lemma migrate_store:
  "migrateLegacyTodayRecords dayKey records s =
     s\<lparr>kv_recordsDay := (kv_recordsDay s)(dayKey := map toStored records @ kv_recordsDay s dayKey)\<rparr>"
  by (simp add: migrateLegacyTodayRecords_def migrateLoop_store rev_map)

lemma getTodayLotteryRecords_store:
  "snd (getTodayLotteryRecords e includePending maxScan s) = s \<or>
   (\<exists>migrated. snd (getTodayLotteryRecords e includePending maxScan s) =
      (migrateLegacyTodayRecords (todayDateString e) migrated s)
        \<lparr>kv_legacyChecked := (kv_legacyChecked s)(todayDateString e \<mapsto> ''1'')\<rparr>)"
proof -
  let ?m = "max TODAY_RECORDS_SCAN_BATCH (case maxScan of Some m \<Rightarrow> m | None \<Rightarrow> TODAY_RECORDS_MAX_SCAN)"
  let ?legacy = "getLegacyTodayLotteryRecords e ?m s"
  let ?today = "normalizeLotteryRecords (lrange (kv_recordsDay s (todayDateString e)) 0 (?m - 1))"
  let ?checked = "kv_legacyChecked s (todayDateString e)"
  show ?thesis
  proof (cases "length ?today = 0 \<and> (?checked = None \<or> ?checked = Some [])")
    case False
    then have "snd (getTodayLotteryRecords e includePending maxScan s) = s"
      by (auto simp: getTodayLotteryRecords_def Let_def)
    then show ?thesis by simp
  next
    case True
    have m: "migrateLegacyTodayRecords (todayDateString e) [] s = s"
      by (simp add: migrateLegacyTodayRecords_def)
    have k: "kv_legacyChecked (migrateLegacyTodayRecords (todayDateString e) ?legacy s) = kv_legacyChecked s"
      by (simp add: migrate_store)
    have "snd (getTodayLotteryRecords e includePending maxScan s) =
        (migrateLegacyTodayRecords (todayDateString e) (if length ?legacy > 0 then ?legacy else []) s)
          \<lparr>kv_legacyChecked := (kv_legacyChecked s)(todayDateString e \<mapsto> ''1'')\<rparr>"
      using True k by (auto simp: getTodayLotteryRecords_def Let_def m)
    then show ?thesis by blast
  qed
qed

lemma storePending_head:
  "kv_pending (storePendingRecord p s) = Some (pendingToStored p) # take 99 (kv_pending s)"
  by (simp add: storePendingRecord_def ltrim0_Cons)

lemma storePending_frame:
  "kv_daily (storePendingRecord p s) = kv_daily s"
  "kv_dailyDirect (storePendingRecord p s) = kv_dailyDirect s"
  "kv_userRecords (storePendingRecord p s) = kv_userRecords s"
  by (simp_all add: storePendingRecord_def)

subsection \<open>The prize selector\<close>

lemma selectLoop_mem: "selectLoop random tiers = Some t \<Longrightarrow> t \<in> set tiers"
  by (induction tiers arbitrary: random) (auto simp: Let_def split: if_splits)

lemma foldl_weights_mono:
  "(\<forall>tier \<in> set tiers. probability tier > 0) \<Longrightarrow> a \<le> foldl (\<lambda>sum tier. sum + probability tier) a tiers"
proof (induction tiers arbitrary: a)
  case Nil
  then show ?case by simp
next
  case (Cons t ts)
  have "a + probability t \<le> foldl (\<lambda>sum tier. sum + probability tier) (a + probability t) ts"
    using Cons by simp
  moreover have "0 < probability t" using Cons.prems by simp
  ultimately show ?case by simp
qed

lemma foldl_weights_pos:
  assumes "tiers \<noteq> []" and "\<forall>tier \<in> set tiers. probability tier > 0"
  shows "0 < foldl (\<lambda>sum tier. sum + probability tier) 0 tiers"
proof (cases tiers)
  case Nil
  with assms show ?thesis by simp
next
  case (Cons t ts)
  have "0 + probability t \<le> foldl (\<lambda>sum tier. sum + probability tier) (0 + probability t) ts"
    using assms(2) Cons by (intro foldl_weights_mono) simp
  moreover have "0 < probability t" using assms(2) Cons by simp
  ultimately show ?thesis using Cons by simp
qed

lemma weightedRandomSelect_mem:
  assumes "tiers \<noteq> []" and "\<forall>tier \<in> set tiers. probability tier > 0"
  shows "\<exists>tier \<in> set tiers. weightedRandomSelect draw tiers = Some tier"
proof -
  have pos: "\<not> foldl (\<lambda>sum tier. sum + probability tier) 0 tiers \<le> 0"
    using foldl_weights_pos [OF assms] by simp
  show ?thesis
  proof (cases "selectLoop (draw * foldl (\<lambda>sum tier. sum + probability tier) 0 tiers) tiers")
    case None
    then show ?thesis using pos assms(1) by (simp add: weightedRandomSelect_def Let_def)
  next
    case (Some t)
    then show ?thesis using pos selectLoop_mem [OF Some] by (simp add: weightedRandomSelect_def Let_def)
  qed
qed

lemma ex_select: "weightedRandomSelect (1 / 2) DEFAULT_TIERS = Some sampleTier"
  by (simp add: weightedRandomSelect_def DEFAULT_TIERS_def sampleTier_def Let_def)

subsection \<open>The locks\<close>

lemma release_user: "releaseUserQuotaLock lock s =
     (if kv_quotaLock s (lock_key lock) = Some (lock_token lock) then expireQuotaLock (lock_key lock) s else s)"
  by (simp add: releaseUserQuotaLock_def releaseLua_def expireQuotaLock_def)

lemma release_cfg: "releaseConfigLock tok s = (if kv_configLock s = Some tok then s\<lparr>kv_configLock := None\<rparr> else s)"
  by (simp add: releaseConfigLock_def releaseLua_def)

lemma acquire_free:
  "kv_quotaLock s u = None \<Longrightarrow>
   acquireUserQuotaLock e u s =
     (Some \<lparr>lock_key = u, lock_token = lockToken e\<rparr>, s\<lparr>kv_quotaLock := (kv_quotaLock s)(u \<mapsto> lockToken e)\<rparr>, 1)"
  by (simp add: acquireUserQuotaLock_def acquireLoop.simps [of e u "lockToken e" 0 s] USER_QUOTA_LOCK_MAX_RETRIES_def)

lemma acquireLoop_bound:
  "attempt \<le> USER_QUOTA_LOCK_MAX_RETRIES \<Longrightarrow> acquireLoop e u t attempt s = (lock, s', n) \<Longrightarrow>
   n \<le> USER_QUOTA_LOCK_MAX_RETRIES \<and> (lock = None \<longrightarrow> n = USER_QUOTA_LOCK_MAX_RETRIES)"
proof (induction e u t attempt s rule: acquireLoop.induct)
  case (1 e userId token attempt s)
  show ?case
  proof (cases "attempt < USER_QUOTA_LOCK_MAX_RETRIES")
    case False
    then have "acquireLoop e userId token attempt s = (None, s, attempt)"
      by (subst acquireLoop.simps) simp
    with 1(2,3) False show ?thesis by simp
  next
    case True
    show ?thesis
    proof (cases "kv_quotaLock s userId")
      case None
      with True have "acquireLoop e userId token attempt s =
          (Some \<lparr>lock_key = userId, lock_token = token\<rparr>,
           s\<lparr>kv_quotaLock := (kv_quotaLock s)(userId \<mapsto> token)\<rparr>, attempt + 1)"
        by (subst acquireLoop.simps) simp
      with 1(3) True show ?thesis by auto
    next
      case (Some holder)
      with True have "acquireLoop e userId token attempt s =
          acquireLoop e userId token (attempt + 1)
               (s\<lparr>kv_quotaLock := (kv_quotaLock s)(userId := lockAfterSleep e attempt (Some holder))\<rparr>)"
        by (subst acquireLoop.simps) simp
      with 1(3) have "acquireLoop e userId token (attempt + 1)
               (s\<lparr>kv_quotaLock := (kv_quotaLock s)(userId := lockAfterSleep e attempt (Some holder))\<rparr>) = (lock, s', n)"
        by simp
      with 1(1) [OF True Some] True show ?thesis by simp
    qed
  qed
qed

lemma acquireLoop_held:
  "(\<forall>k h. lockAfterSleep e k (Some h) \<noteq> None) \<Longrightarrow> kv_quotaLock s u \<noteq> None \<Longrightarrow>
   fst (acquireLoop e u t attempt s) = None"
proof (induction e u t attempt s rule: acquireLoop.induct)
  case (1 e userId token attempt s)
  from 1(3) obtain holder where h: "kv_quotaLock s userId = Some holder" by auto
  show ?case
  proof (cases "attempt < USER_QUOTA_LOCK_MAX_RETRIES")
    case False
    then show ?thesis by (subst acquireLoop.simps) simp
  next
    case True
    have "fst (acquireLoop e userId token (attempt + 1)
               (s\<lparr>kv_quotaLock := (kv_quotaLock s)(userId := lockAfterSleep e attempt (Some holder))\<rparr>)) = None"
      using 1(1) [OF True h] 1(2) by simp
    with True h show ?thesis by (subst acquireLoop.simps) simp
  qed
qed

lemma acquireLoop_store:
  "fst (snd (acquireLoop e u t attempt s)) =
     s\<lparr>kv_quotaLock := kv_quotaLock (fst (snd (acquireLoop e u t attempt s)))\<rparr>"
proof (induction e u t attempt s rule: acquireLoop.induct)
  case (1 e userId token attempt s)
  show ?case
  proof (cases "attempt < USER_QUOTA_LOCK_MAX_RETRIES")
    case False
    then show ?thesis by (subst (1 2) acquireLoop.simps) simp
  next
    case True
    show ?thesis
    proof (cases "kv_quotaLock s userId")
      case None
      with True show ?thesis by (subst (1 2) acquireLoop.simps) simp
    next
      case (Some holder)
      let ?s = "s\<lparr>kv_quotaLock := (kv_quotaLock s)(userId := lockAfterSleep e attempt (Some holder))\<rparr>"
      have step: "acquireLoop e userId token attempt s = acquireLoop e userId token (attempt + 1) ?s"
        using True Some by (subst acquireLoop.simps) simp
      have "fst (snd (acquireLoop e userId token (attempt + 1) ?s)) =
          ?s\<lparr>kv_quotaLock := kv_quotaLock (fst (snd (acquireLoop e userId token (attempt + 1) ?s)))\<rparr>"
        using 1 [OF True Some] .
      then show ?thesis unfolding step by simp
    qed
  qed
qed

lemma recordsOf_acquire: "recordsOf (fst (snd (acquireUserQuotaLock e u s))) = recordsOf s"
  by (subst acquireUserQuotaLock_def, subst acquireLoop_store) (simp add: recordsOf_def)

lemma recordsOf_releaseLock: "recordsOf (releaseUserQuotaLock lock s) = recordsOf s"
  by (simp add: recordsOf_def releaseUserQuotaLock_def)

lemma recordsOf_credit: "recordsOf (fst (snd (creditQuotaToUser e userId dollars s x))) = recordsOf s"
proof (cases "newApiUrlSet e")
  case False
  then show ?thesis by (simp add: creditQuotaToUser_def)
next
  case True
  obtain lock s1 n where a: "acquireUserQuotaLock e userId s = (lock, s1, n)"
    by (cases "acquireUserQuotaLock e userId s")
  obtain res y where c: "creditAttempts e userId dollars 0 None x = (res, y)"
    by (cases "creditAttempts e userId dollars 0 None x")
  have s1: "recordsOf s1 = recordsOf s" using recordsOf_acquire [of e userId s] a by simp
  show ?thesis
    by (cases lock) (simp_all add: creditQuotaToUser_def True a c s1 recordsOf_releaseLock)
qed

lemma credit_busy:
  assumes "newApiUrlSet e" and "fst (acquireUserQuotaLock e userId s) = None"
  shows "fst (creditQuotaToUser e userId dollars s x) = Inr (creditFailure MsgLockBusy) \<and>
         snd (snd (creditQuotaToUser e userId dollars s x)) = x"
  using assms by (cases "acquireUserQuotaLock e userId s") (auto simp: creditQuotaToUser_def)

subsection \<open>The credit call\<close>

lemma verify_uncertain:
  "verifyQuotaUpdate userId (Some ex) x = (r, x') \<Longrightarrow> cr_uncertain r \<Longrightarrow> cr_newQuota r = None"
  by (auto simp: verifyQuotaUpdate_def Let_def split: prod.splits option.splits if_splits)

lemma creditCatch_uncertain:
  "creditCatch userId expected x = (r, x') \<Longrightarrow> cr_uncertain r \<Longrightarrow> cr_newQuota r = None"
  by (auto simp: creditCatch_def Let_def split: prod.splits option.splits if_splits)

lemma creditAfterUpdate_uncertain:
  "creditAfterUpdate userId dollars newQuota up x = Return r x' \<Longrightarrow> cr_uncertain r \<Longrightarrow> cr_newQuota r = None"
  by (auto simp: creditAfterUpdate_def creditFailure_def split: prod.splits if_splits dest: verify_uncertain)

lemma creditAfterUser_uncertain:
  "creditAfterUser e userId dollars expected ur x = Return r x' \<Longrightarrow> cr_uncertain r \<Longrightarrow> cr_newQuota r = None"
  by (auto simp: creditAfterUser_def creditFailure_def returnOf_def Let_def
      split: prod.splits if_splits option.splits
      dest: creditAfterUpdate_uncertain creditCatch_uncertain [OF prod.collapse [symmetric]])

lemma creditAttempt_uncertain:
  "creditAttempt e userId dollars attempt expected x = Return r x' \<Longrightarrow> cr_uncertain r \<Longrightarrow> cr_newQuota r = None"
  by (auto simp: creditAttempt_def creditFailure_def returnOf_def
      split: prod.splits if_splits option.splits
      dest: creditAfterUser_uncertain creditCatch_uncertain [OF prod.collapse [symmetric]])

lemma creditAttempts_uncertain:
  "creditAttempts e userId dollars attempt expected x = (r, x') \<Longrightarrow> cr_uncertain r \<Longrightarrow> cr_newQuota r = None"
proof (induction e userId dollars attempt expected x rule: creditAttempts.induct)
  case (1 e userId dollars attempt expectedQuota x)
  show ?case
  proof (cases "attempt < 2")
    case False
    then have "creditAttempts e userId dollars attempt expectedQuota x = (creditFailure MsgAdminSessionFailed, x)"
      by (subst creditAttempts.simps) simp
    with 1(2,3) show ?thesis by (auto simp: creditFailure_def)
  next
    case True
    show ?thesis
    proof (cases "creditAttempt e userId dollars attempt expectedQuota x")
      case (Continue ex' y)
      with True have "creditAttempts e userId dollars attempt expectedQuota x =
                      creditAttempts e userId dollars (attempt + 1) ex' y"
        by (subst creditAttempts.simps) simp
      with 1(1) [OF True Continue] 1(2,3) show ?thesis by simp
    next
      case (Return res y)
      with True have "creditAttempts e userId dollars attempt expectedQuota x = (res, y)"
        by (subst creditAttempts.simps) simp
      with 1(2,3) creditAttempt_uncertain [OF Return] show ?thesis by simp
    qed
  qed
qed

lemma creditQuotaToUser_uncertain:
  assumes "creditQuotaToUser e userId dollars s x = (Inr r, s', x')" and "cr_uncertain r"
  shows "cr_newQuota r = None"
proof (cases "newApiUrlSet e")
  case False
  with assms show ?thesis by (simp add: creditQuotaToUser_def)
next
  case True
  obtain lock s1 n where a: "acquireUserQuotaLock e userId s = (lock, s1, n)"
    by (cases "acquireUserQuotaLock e userId s")
  obtain res y where c: "creditAttempts e userId dollars 0 None x = (res, y)"
    by (cases "creditAttempts e userId dollars 0 None x")
  show ?thesis
  proof (cases lock)
    case None
    with assms True a show ?thesis by (auto simp: creditQuotaToUser_def creditFailure_def)
  next
    case (Some l)
    with assms True a c have "r = res" by (simp add: creditQuotaToUser_def)
    with creditAttempts_uncertain [OF c] assms(2) show ?thesis by simp
  qed
qed

lemma ex_attempts:
  "creditAttempts sampleEnv 7 3 0 None timeoutAfterDispatch =
     (\<lparr>cr_success = False, cr_message = MsgUncertainCheckBalance, cr_newQuota = None, cr_uncertain = True\<rparr>,
      \<lparr>sessionReplies = [], fetchReplies = [],
       requests = [GetSession False, GetUser 7, PutUser 7 1501000, GetSession True, GetUser 7]\<rparr>)"
  by (simp add: creditAttempts.simps [of _ _ _ 0] creditAttempt_def creditAfterUser_def returnOf_def sampleEnv_def
      creditCatch_def verifyQuotaUpdate_def getAdminSessionWithUser_def fetch_def timeoutAfterDispatch_def
      userResponse_def isAuthFailureResponse_def getResponseMessage_def userOf_def responseOk_def
      Math_floor_def Let_def)

subsection \<open>The attempt\<close>

lemma spinAfterCredit_message:
  "sr_message (fst (spinAfterCredit e linuxdoId username newApiUserId today selectedTier outcome s2)) \<noteq> MsgConfigError"
  by (simp add: spinAfterCredit_def Let_def denied_def split: sum.splits)

lemma spinReserveAndCredit_message:
  "sr_message (fst (spinReserveAndCredit e linuxdoId username newApiUserId today selectedTier s x)) \<noteq> MsgConfigError"
proof -
  obtain rr s1 where r: "reserveDailyDirectQuota e (tier_value selectedTier) (Some today) s = (rr, s1)"
    by (cases "reserveDailyDirectQuota e (tier_value selectedTier) (Some today) s")
  obtain oc s2 x1 where c: "creditQuotaToUser e newApiUserId (tier_value selectedTier) s1 x = (oc, s2, x1)"
    by (cases "creditQuotaToUser e newApiUserId (tier_value selectedTier) s1 x")
  obtain res s3 where a: "spinAfterCredit e linuxdoId username newApiUserId today selectedTier oc s2 = (res, s3)"
    by (cases "spinAfterCredit e linuxdoId username newApiUserId today selectedTier oc s2")
  have "sr_message res \<noteq> MsgConfigError"
    using spinAfterCredit_message [of e linuxdoId username newApiUserId today selectedTier oc s2] a by simp
  then show ?thesis
    by (simp add: spinReserveAndCredit_def r c a denied_def)
qed

lemma spinAfterClaim_message:
  "sr_message (fst (spinAfterClaim e linuxdoId username newApiUserId today s x)) \<noteq> MsgConfigError"
proof -
  obtain config s1 where c: "getLotteryConfig s = (config, s1)" by (cases "getLotteryConfig s")
  let ?aff = "filter (\<lambda>tier. probability tier > 0 \<and>
                 tier_value tier \<le> cfg_dailyDirectLimit config - getTodayDirectTotal e s1) (cfg_tiers config)"
  show ?thesis
  proof (cases "?aff = []")
    case True
    then show ?thesis by (simp add: spinAfterClaim_def c Let_def denied_def)
  next
    case False
    have "\<forall>tier \<in> set ?aff. probability tier > 0" by simp
    from weightedRandomSelect_mem [OF False this, of "randomDraw e"]
    obtain t where "weightedRandomSelect (randomDraw e) ?aff = Some t" by blast
    then show ?thesis using False
      by (simp add: spinAfterClaim_def c Let_def denied_def spinReserveAndCredit_message)
  qed
qed

lemma spinLotteryDirect_message:
  "sr_message (fst (spinLotteryDirect e linuxdoId username newApiUserId s x)) \<noteq> MsgConfigError"
proof -
  obtain g s1 where c: "tryClaimDailyFree e (Finite (of_int linuxdoId)) (Some (todayDateString e)) s = (g, s1)"
    by (cases "tryClaimDailyFree e (Finite (of_int linuxdoId)) (Some (todayDateString e)) s")
  show ?thesis
    by (simp add: spinLotteryDirect_def Let_def c denied_def spinAfterClaim_message)
qed

lemma spinAfterCredit_records:
  "recordsOf (snd (spinAfterCredit e linuxdoId username newApiUserId today selectedTier outcome s2)) = recordsOf s2 \<or>
   (\<exists>rcd. recordsOf (snd (spinAfterCredit e linuxdoId username newApiUserId today selectedTier outcome s2)) =
      recordsOf (appendLotteryRecord e rcd linuxdoId s2))"
proof (cases outcome)
  case (Inl err)
  then show ?thesis by (simp add: spinAfterCredit_def Let_def rollbackSpinCount_def recordsOf_ledgers)
next
  case (Inr creditResult)
  show ?thesis
  proof (cases "cr_uncertain creditResult")
    case True
    with Inr have "recordsOf (snd (spinAfterCredit e linuxdoId username newApiUserId today selectedTier outcome s2)) =
        recordsOf (appendLotteryRecord e (makePendingRecord e linuxdoId username selectedTier) linuxdoId s2)"
      by (simp add: spinAfterCredit_def Let_def recordsOf_storePending)
    then show ?thesis by blast
  next
    case False
    show ?thesis
    proof (cases "cr_success creditResult")
      case True
      with False Inr have "recordsOf (snd (spinAfterCredit e linuxdoId username newApiUserId today selectedTier outcome s2)) =
          recordsOf (appendLotteryRecord e (makeRecord e linuxdoId username selectedTier creditResult) linuxdoId s2)"
        by (simp add: spinAfterCredit_def Let_def)
      then show ?thesis by blast
    next
      case nosuccess: False
      with False Inr show ?thesis
        by (simp add: spinAfterCredit_def Let_def rollbackSpinCount_def recordsOf_ledgers)
    qed
  qed
qed


lemma spinReserveAndCredit_records:
  "recordsOf (fst (snd (spinReserveAndCredit e linuxdoId username newApiUserId today selectedTier s x))) = recordsOf s \<or>
   (\<exists>rcd. recordsOf (fst (snd (spinReserveAndCredit e linuxdoId username newApiUserId today selectedTier s x))) =
      recordsOf (appendLotteryRecord e rcd linuxdoId s))"
proof -
  obtain rr s1 where r: "reserveDailyDirectQuota e (tier_value selectedTier) (Some today) s = (rr, s1)"
    by (cases "reserveDailyDirectQuota e (tier_value selectedTier) (Some today) s")
  obtain oc s2 x1 where c: "creditQuotaToUser e newApiUserId (tier_value selectedTier) s1 x = (oc, s2, x1)"
    by (cases "creditQuotaToUser e newApiUserId (tier_value selectedTier) s1 x")
  obtain res s3 where a: "spinAfterCredit e linuxdoId username newApiUserId today selectedTier oc s2 = (res, s3)"
    by (cases "spinAfterCredit e linuxdoId username newApiUserId today selectedTier oc s2")
  have s1: "recordsOf s1 = recordsOf s"
    using recordsOf_reserve [of e "tier_value selectedTier" "Some today" s] r by simp
  have s2: "recordsOf s2 = recordsOf s"
    using recordsOf_credit [of e newApiUserId "tier_value selectedTier" s1 x] c s1 by simp
  show ?thesis
  proof (cases "rr_success rr")
    case False
    then show ?thesis by (simp add: spinReserveAndCredit_def r rollbackSpinCount_def recordsOf_ledgers s1)
  next
    case True
    then have out: "fst (snd (spinReserveAndCredit e linuxdoId username newApiUserId today selectedTier s x)) = s3"
      by (simp add: spinReserveAndCredit_def r c a)
    from spinAfterCredit_records [of e linuxdoId username newApiUserId today selectedTier oc s2] a
    have "recordsOf s3 = recordsOf s2 \<or> (\<exists>rcd. recordsOf s3 = recordsOf (appendLotteryRecord e rcd linuxdoId s2))"
      by simp
    then show ?thesis
    proof
      assume "recordsOf s3 = recordsOf s2"
      with s2 out show ?thesis by simp
    next
      assume "\<exists>rcd. recordsOf s3 = recordsOf (appendLotteryRecord e rcd linuxdoId s2)"
      then obtain rcd where "recordsOf s3 = recordsOf (appendLotteryRecord e rcd linuxdoId s2)" by blast
      with recordsOf_append_cong [OF s2, of e rcd linuxdoId] out show ?thesis by auto
    qed
  qed
qed

lemma spinAfterClaim_records:
  fixes e :: env and s :: store
  defines "mid \<equiv> othersBeforeReserve e (snd (getLotteryConfig s))"
  shows "recordsOf (fst (snd (spinAfterClaim e linuxdoId username newApiUserId today s x))) = recordsOf s \<or>
   recordsOf (fst (snd (spinAfterClaim e linuxdoId username newApiUserId today s x))) = recordsOf mid \<or>
   (\<exists>rcd. recordsOf (fst (snd (spinAfterClaim e linuxdoId username newApiUserId today s x))) =
      recordsOf (appendLotteryRecord e rcd linuxdoId mid))"
proof -
  obtain config s1 where c: "getLotteryConfig s = (config, s1)" by (cases "getLotteryConfig s")
  have s1: "recordsOf s1 = recordsOf s" using recordsOf_ledgers(1) [of s] c by simp
  have m: "mid = othersBeforeReserve e s1" by (simp add: mid_def c)
  let ?aff = "filter (\<lambda>tier. probability tier > 0 \<and>
                 tier_value tier \<le> cfg_dailyDirectLimit config - getTodayDirectTotal e s1) (cfg_tiers config)"
  show ?thesis
  proof (cases "cfg_enabled config \<and> ?aff \<noteq> []")
    case False
    then have "recordsOf (fst (snd (spinAfterClaim e linuxdoId username newApiUserId today s x))) = recordsOf s"
      by (auto simp: spinAfterClaim_def c Let_def rollbackSpinCount_def recordsOf_ledgers s1)
    then show ?thesis by simp
  next
    case True
    show ?thesis
    proof (cases "weightedRandomSelect (randomDraw e) ?aff")
      case None
      with True have "recordsOf (fst (snd (spinAfterClaim e linuxdoId username newApiUserId today s x))) = recordsOf s"
        by (simp add: spinAfterClaim_def c Let_def rollbackSpinCount_def recordsOf_ledgers s1)
      then show ?thesis by simp
    next
      case (Some t)
      with True have "spinAfterClaim e linuxdoId username newApiUserId today s x =
          spinReserveAndCredit e linuxdoId username newApiUserId today t mid x"
        by (simp add: spinAfterClaim_def c Let_def m)
      with spinReserveAndCredit_records [of e linuxdoId username newApiUserId today t mid x]
      show ?thesis by simp
    qed
  qed
qed

lemma spinLotteryDirect_records:
  fixes e :: env and s :: store and linuxdoId :: int
  defines "mid \<equiv> othersBeforeReserve e (snd (getLotteryConfig
      (snd (tryClaimDailyFree e (Finite (of_int linuxdoId)) (Some (todayDateString e)) s))))"
  shows "recordsOf (fst (snd (spinLotteryDirect e linuxdoId username newApiUserId s x))) = recordsOf s \<or>
   recordsOf (fst (snd (spinLotteryDirect e linuxdoId username newApiUserId s x))) = recordsOf mid \<or>
   (\<exists>rcd. recordsOf (fst (snd (spinLotteryDirect e linuxdoId username newApiUserId s x))) =
      recordsOf (appendLotteryRecord e rcd linuxdoId mid))"
proof -
  obtain g s1 where c: "tryClaimDailyFree e (Finite (of_int linuxdoId)) (Some (todayDateString e)) s = (g, s1)"
    by (cases "tryClaimDailyFree e (Finite (of_int linuxdoId)) (Some (todayDateString e)) s")
  have s1: "recordsOf s1 = recordsOf s"
    using recordsOf_ledgers(2) [of e "Finite (of_int linuxdoId)" "Some (todayDateString e)" s] c by simp
  show ?thesis
  proof (cases g)
    case False
    then show ?thesis by (simp add: spinLotteryDirect_def Let_def c s1)
  next
    case True
    then have "spinLotteryDirect e linuxdoId username newApiUserId s x =
        spinAfterClaim e linuxdoId username newApiUserId (todayDateString e) s1 x"
      by (simp add: spinLotteryDirect_def Let_def c)
    with spinAfterClaim_records [of e linuxdoId username newApiUserId "todayDateString e" s1 x] s1
    show ?thesis by (simp add: mid_def c)
  qed
qed

lemma uncertain_credit_is_deferred:
  fixes e :: env and s2 :: store and linuxdoId newApiUserId :: int and username today :: string
    and selectedTier :: LotteryTier and creditResult :: credit_result
  defines "out \<equiv> spinAfterCredit e linuxdoId username newApiUserId today selectedTier (Inr creditResult) s2"
  assumes "cr_uncertain creditResult"
  shows "sr_uncertain (fst out) \<and> \<not> sr_success (fst out) \<and> sr_message (fst out) = MsgUncertainCheckBalance \<and>
         kv_dailyDirect (snd out) = kv_dailyDirect s2 \<and>
         kv_daily (snd out) = kv_daily s2 \<and>
         kv_userRecords (snd out) linuxdoId =
           toStored (makePendingRecord e linuxdoId username selectedTier) # take 199 (kv_userRecords s2 linuxdoId) \<and>
         kv_pending (snd out) =
           Some \<lparr>sp_record = Some (makePendingRecord e linuxdoId username selectedTier),
                 sp_newApiUserId = Some newApiUserId,
                 sp_expectedQuota = (case cr_newQuota creditResult of Some q \<Rightarrow> q | None \<Rightarrow> 0),
                 sp_reservationDay = today, sp_storedAt = nowMs e\<rparr> # take 99 (kv_pending s2)"
  using assms(2)
  by (simp add: out_def spinAfterCredit_def Let_def storePending_head storePending_frame append_frame
      append_user_head pendingToStored_def)

lemma uncertain_attempt_floor_zero:
  assumes run: "spinReserveAndCredit e linuxdoId username newApiUserId today selectedTier s x = (r, s', x')"
    and unc: "sr_uncertain r"
  shows "\<exists>p rest. kv_pending s' = Some p # rest \<and> sp_expectedQuota p = 0 \<and>
           sp_reservationDay p = today \<and> sp_newApiUserId p = Some newApiUserId"
proof -
  obtain rr s1 where res: "reserveDailyDirectQuota e (tier_value selectedTier) (Some today) s = (rr, s1)"
    by (cases "reserveDailyDirectQuota e (tier_value selectedTier) (Some today) s")
  obtain oc s2 x1 where cr: "creditQuotaToUser e newApiUserId (tier_value selectedTier) s1 x = (oc, s2, x1)"
    by (cases "creditQuotaToUser e newApiUserId (tier_value selectedTier) s1 x")
  have granted: "rr_success rr"
  proof (rule ccontr)
    assume "\<not> rr_success rr"
    with run res have "r = denied MsgBudgetExhausted" by (simp add: spinReserveAndCredit_def)
    with unc show False by (simp add: denied_def)
  qed
  from run res cr granted
  have out: "spinAfterCredit e linuxdoId username newApiUserId today selectedTier oc s2 = (r, s')"
    by (cases "spinAfterCredit e linuxdoId username newApiUserId today selectedTier oc s2")
      (simp add: spinReserveAndCredit_def)
  show ?thesis
  proof (cases oc)
    case (Inl err)
    with out unc show ?thesis by (auto simp: spinAfterCredit_def denied_def Let_def)
  next
    case (Inr creditResult)
    show ?thesis
    proof (cases "cr_uncertain creditResult")
      case False
      with out unc Inr show ?thesis
        by (auto simp: spinAfterCredit_def denied_def Let_def split: if_splits)
    next
      case True
      from creditQuotaToUser_uncertain [OF cr [unfolded Inr] True]
      have none: "cr_newQuota creditResult = None" .
      from uncertain_credit_is_deferred [OF True, of e linuxdoId username newApiUserId today selectedTier s2]
        out Inr none
      show ?thesis by simp
    qed
  qed
qed

lemma pending_record_user:
  "readDecimal (r_linuxdoId (makePendingRecord e linuxdoId username selectedTier)) = Finite (of_int linuxdoId)"
  by (simp add: makePendingRecord_def readDecimal_String_int)

lemma ex_spin:
  "spinLotteryDirect sampleEnv 42 ''alice'' 7 emptyStore timeoutAfterDispatch =
     (fst (spinAfterCredit sampleEnv 42 ''alice'' 7 day1 sampleTier (Inr uncertainResult) reservedStore),
      snd (spinAfterCredit sampleEnv 42 ''alice'' 7 day1 sampleTier (Inr uncertainResult) reservedStore),
      afterCreditExt)"
proof -
  have today: "todayDateString sampleEnv = day1" by (simp add: sampleEnv_def day1_def)
  have others: "othersBeforeReserve sampleEnv = (\<lambda>s. s)" by (simp add: sampleEnv_def)
  have claim: "tryClaimDailyFree sampleEnv (Finite 42) (Some day1) emptyStore =
      (True, emptyStore\<lparr>kv_daily := (kv_daily emptyStore)((Finite 42, day1) \<mapsto> ''1'')\<rparr>)"
    by (simp add: tryClaimDailyFree_def emptyStore_def)
  let ?s1 = "emptyStore\<lparr>kv_daily := (kv_daily emptyStore)((Finite 42, day1) \<mapsto> ''1'')\<rparr>"
  let ?s2 = "emptyStore\<lparr>kv_config := Some (toPartial cloneDefaultLotteryConfig),
                kv_daily := (kv_daily emptyStore)((Finite 42, day1) \<mapsto> ''1'')\<rparr>"
  have cfg1: "getLotteryConfig ?s1 = (cloneDefaultLotteryConfig, ?s2)"
    by (simp add: getLotteryConfig_def emptyStore_def Let_def)
  have cfg2: "getLotteryConfig ?s2 = (cloneDefaultLotteryConfig, ?s2)"
    by (simp add: getLotteryConfig_def emptyStore_def Let_def ex_sanitize)
  have total: "getTodayDirectTotal sampleEnv ?s2 = 0"
    by (simp add: getTodayDirectTotal_def directCents_def emptyStore_def)
  have sel: "weightedRandomSelect (randomDraw sampleEnv) DEFAULT_TIERS = Some sampleTier"
    using ex_select by (simp add: sampleEnv_def)
  have v: "tier_value sampleTier = 3" by (simp add: sampleTier_def)
  have res: "reserveDailyDirectQuota sampleEnv 3 (Some day1) ?s2 =
      (\<lparr>rr_success = True, rr_newTotal = 3\<rparr>, reservedStore)"
    by (simp add: reserveDailyDirectQuota_def cfg2 default_limit Math_round_def DIRECT_AMOUNT_SCALE_def
        reserveLua_def Let_def reservedStore_def sampleEnv_def) (simp add: emptyStore_def)
  have free: "kv_quotaLock reservedStore 7 = None" by (simp add: reservedStore_def emptyStore_def)
  have rel: "releaseUserQuotaLock \<lparr>lock_key = 7, lock_token = lockToken sampleEnv\<rparr>
      (reservedStore\<lparr>kv_quotaLock := (kv_quotaLock reservedStore)(7 \<mapsto> lockToken sampleEnv)\<rparr>) = reservedStore"
    by (simp add: releaseUserQuotaLock_def releaseLua_def reservedStore_def emptyStore_def)
  have url: "newApiUrlSet sampleEnv" by (simp add: sampleEnv_def)
  have credit: "creditQuotaToUser sampleEnv 7 3 reservedStore timeoutAfterDispatch =
      (Inr uncertainResult, reservedStore, afterCreditExt)"
    by (simp add: creditQuotaToUser_def url acquire_free [OF free] ex_attempts rel uncertainResult_def
        afterCreditExt_def)
  show ?thesis
    by (simp add: spinLotteryDirect_def today claim spinAfterClaim_def cfg1 ex_tiers default_limit total
        ex_filter ex_nonempty sel others spinReserveAndCredit_def v res credit Let_def case_prod_beta)
qed

subsection \<open>The reconciler\<close>

lemma checkUserQuota_success:
  "qr_success (fst (checkUserQuota e userId x)) \<Longrightarrow> qr_quota (fst (checkUserQuota e userId x)) \<noteq> None"
  by (auto simp: checkUserQuota_def Let_def split: prod.splits option.splits if_splits)

lemma reconcileEntry_wellformed:
  assumes "sp_record p = Some record" and "sp_newApiUserId p = Some userId"
  shows "reconcileEntry e (Some p) st =
     (if nowMs e - sp_storedAt p > PENDING_RECORDS_MAX_AGE_MS then st\<lparr>rs_expired := rs_expired st + 1\<rparr>
      else reconcileAnswer e p record (Inr (fst (checkUserQuota e userId (rs_ext st))))
             (st\<lparr>rs_ext := snd (checkUserQuota e userId (rs_ext st))\<rparr>))"
  using assms by (simp add: reconcileEntry_def Let_def split: prod.splits)

lemma reconcileAnswer_counts:
  "rs_confirmed (reconcileAnswer e p r a st) + rs_failed (reconcileAnswer e p r a st) +
   rs_expired (reconcileAnswer e p r a st) + length (rs_remaining (reconcileAnswer e p r a st)) =
   rs_confirmed st + rs_failed st + rs_expired st + length (rs_remaining st) + 1"
  by (simp add: reconcileAnswer_def split: sum.splits)

lemma reconcileEntry_counts:
  "rs_confirmed (reconcileEntry e entry st) + rs_failed (reconcileEntry e entry st) +
   rs_expired (reconcileEntry e entry st) + length (rs_remaining (reconcileEntry e entry st)) =
   rs_confirmed st + rs_failed st + rs_expired st + length (rs_remaining st) + 1"
  by (simp add: reconcileEntry_def reconcileAnswer_counts Let_def split: option.splits prod.splits)

lemma reconcileLoop_counts:
  "rs_confirmed (reconcileLoop e entries st) + rs_failed (reconcileLoop e entries st) +
   rs_expired (reconcileLoop e entries st) + length (rs_remaining (reconcileLoop e entries st)) =
   rs_confirmed st + rs_failed st + rs_expired st + length (rs_remaining st) + length entries"
proof (induction entries arbitrary: st)
  case Nil
  show ?case by simp
next
  case (Cons entry rest)
  show ?case
    using Cons.IH [of "reconcileEntry e entry st"] reconcileEntry_counts [of e entry st] by simp
qed

lemma reconcileAnswer_records: "recordsOf (rs_store (reconcileAnswer e p r a st)) = recordsOf (rs_store st)"
  by (simp add: reconcileAnswer_def recordsOf_ledgers split: sum.splits)

lemma reconcileEntry_records: "recordsOf (rs_store (reconcileEntry e entry st)) = recordsOf (rs_store st)"
proof -
  have "recordsOf (rs_store (reconcileAnswer e p r a (st\<lparr>rs_ext := y\<rparr>))) = recordsOf (rs_store st)" for p r a y
    using reconcileAnswer_records [of e p r a "st\<lparr>rs_ext := y\<rparr>"] by simp
  then show ?thesis
    by (simp add: reconcileEntry_def Let_def split: option.splits prod.splits)
qed

lemma reconcileLoop_records: "recordsOf (rs_store (reconcileLoop e entries st)) = recordsOf (rs_store st)"
proof (induction entries arbitrary: st)
  case Nil
  show ?case by simp
next
  case (Cons entry rest)
  show ?case
    using Cons.IH [of "reconcileEntry e entry st"] reconcileEntry_records [of e entry st] by simp
qed

lemma reconcileLoop_append:
  "reconcileLoop e (before @ after) st = reconcileLoop e after (reconcileLoop e before st)"
  by (induction before arbitrary: st) simp_all

lemma reconcile_run:
  fixes e :: env and s :: store and x :: ext
  defines "loop \<equiv> reconcileLoop e (kv_pending s) (reconcileStart s x)"
  shows "reconcilePendingRecords e s x =
     (\<lparr>processed = length (kv_pending s), confirmed = rs_confirmed loop, failed = rs_failed loop,
       expired = rs_expired loop, stillPending = length (rs_remaining loop)\<rparr>,
      (rs_store loop)\<lparr>kv_pending := rev (rs_remaining loop)\<rparr>, rs_ext loop)"
proof (cases "kv_pending s")
  case Nil
  then have "s\<lparr>kv_pending := []\<rparr> = s" by (cases s) simp
  with Nil show ?thesis
    by (simp add: reconcilePendingRecords_def lrange_all loop_def reconcileStart_def)
next
  case (Cons entry rest)
  then show ?thesis
    by (simp add: reconcilePendingRecords_def lrange_all Let_def loop_def foldl_conv_fold
        flip: rev_conv_fold)
qed

lemma ex_check:
  "checkUserQuota sampleEnv 7 (quotaReplies q) =
     (\<lparr>qr_success = True, qr_quota = Some q\<rparr>,
      \<lparr>sessionReplies = [], fetchReplies = [], requests = [GetSession False, GetUser 7]\<rparr>)"
  by (simp add: checkUserQuota_def quotaReplies_def getAdminSessionWithUser_def fetch_def userOf_def
      userResponse_def responseOk_def sampleEnv_def Let_def)

lemma ex_check_none:
  "checkUserQuota sampleEnv 7 noReplies =
     (\<lparr>qr_success = False, qr_quota = None\<rparr>,
      \<lparr>sessionReplies = [], fetchReplies = [], requests = [GetSession False]\<rparr>)"
  by (simp add: checkUserQuota_def noReplies_def getAdminSessionWithUser_def Let_def)

section \<open>The claims\<close>

subsection \<open>C1: the atomic reservation\<close>

text \<open>
  Claim C1 as stated fails at two inputs. At the amount 0 (and at every amount whose
  cents are zero or less), on a day with no reservation and the default cap of 2000
  dollars: the atomic operation, the script, increments by 0 cents, finds the total
  0 within the cap, answers granted and leaves the key set with its TTL;
  \<open>reserveDailyDirectQuota\<close> returns before the script, reports not-granted and leaves
  the key absent. The guard \<open>cents <= 0\<close> of the function is the reason. And with the
  configured cap of 10.006 dollars and the amount 10.01: the reservation is granted
  and leaves the accumulator at 1001 cents, which is 10.01 dollars, above the
  configured cap. The cap is checked in cents, \<open>Math.round(cap * 100)\<close>, here 1001.
\<close>

theorem reserve_zero_amount_counterexample:
  "\<not> rr_success (fst (reserveDailyDirectQuota sampleEnv 0 (Some day1) emptyStore)) \<and>
   kv_dailyDirect (snd (reserveDailyDirectQuota sampleEnv 0 (Some day1) emptyStore)) day1 = None \<and>
   fst (reserveLua day1 (Math_round (0 * 100)) (Math_round (2000 * 100)) 7200 emptyStore) = (1, 0) \<and>
   kv_dailyDirect (snd (reserveLua day1 (Math_round (0 * 100)) (Math_round (2000 * 100)) 7200 emptyStore)) day1 =
     Some (0, Some 7200) \<and>
   cfg_dailyDirectLimit (fst (getLotteryConfig roundedCapStore)) = 10006 / 1000 \<and>
   rr_success (fst (reserveDailyDirectQuota sampleEnv (1001 / 100) (Some day1) roundedCapStore)) \<and>
   directCents (snd (reserveDailyDirectQuota sampleEnv (1001 / 100) (Some day1) roundedCapStore)) day1 = 1001 \<and>
   1001 / of_int DIRECT_AMOUNT_SCALE > cfg_dailyDirectLimit (fst (getLotteryConfig roundedCapStore))"
proof -
  have zero: "\<not> rr_success (fst (reserveDailyDirectQuota sampleEnv 0 (Some day1) emptyStore)) \<and>
      kv_dailyDirect (snd (reserveDailyDirectQuota sampleEnv 0 (Some day1) emptyStore)) day1 = None"
    by (simp add: reserveDailyDirectQuota_def emptyStore_config Math_round_def DIRECT_AMOUNT_SCALE_def
        Let_def sampleEnv_def) (simp add: emptyStore_def)
  have script: "fst (reserveLua day1 (Math_round (0 * 100)) (Math_round (2000 * 100)) 7200 emptyStore) = (1, 0) \<and>
      kv_dailyDirect (snd (reserveLua day1 (Math_round (0 * 100)) (Math_round (2000 * 100)) 7200 emptyStore)) day1 =
        Some (0, Some 7200)"
    by (simp add: reserveLua_def Math_round_def Let_def emptyStore_def)
  have cfg: "getLotteryConfig roundedCapStore =
      (cloneDefaultLotteryConfig\<lparr>cfg_dailyDirectLimit := 10006 / 1000\<rparr>, roundedCapStore)"
    by (simp add: getLotteryConfig_def roundedCapStore_def sanitizeLotteryConfig_def
        cloneDefaultLotteryConfig_def DEFAULT_CONFIG_def LOTTERY_CONFIG_MAX_DAILY_LIMIT_def Let_def)
  have r: "Math_round (1001 / 100 * 100) = 1001" "Math_round (10006 / 1000 * 100) = 1001"
    by (simp_all add: Math_round_def)
  have cap: "rr_success (fst (reserveDailyDirectQuota sampleEnv (1001 / 100) (Some day1) roundedCapStore)) \<and>
      directCents (snd (reserveDailyDirectQuota sampleEnv (1001 / 100) (Some day1) roundedCapStore)) day1 = 1001"
    using r
    by (simp add: reserveDailyDirectQuota_def cfg DIRECT_AMOUNT_SCALE_def reserveLua_def directCents_def
        Let_def sampleEnv_def) (simp add: roundedCapStore_def emptyStore_def)
  have over: "1001 / of_int DIRECT_AMOUNT_SCALE > cfg_dailyDirectLimit (fst (getLotteryConfig roundedCapStore))"
    by (simp add: cfg DIRECT_AMOUNT_SCALE_def)
  from zero script cap over show ?thesis by (simp add: cfg)
qed

text \<open>
  Claim C1, amended. With \<open>cents\<close> the cents of the amount, \<open>Math.round(amount * 100)\<close>,
  and \<open>limit\<close> the cents of the configured cap, \<open>Math.round(cap * 100)\<close>: for every
  day, every cap and every amount of positive cents, the effect of
  \<open>reserveDailyDirectQuota\<close> on the store is the effect of one run of the script, the
  atomic increment-and-check; when the incremented total is over \<open>limit\<close> the function
  reports not-granted, returns the total as it was before, in dollars, and leaves the
  value of the accumulator unchanged; otherwise it reports granted, returns the
  incremented total and leaves the accumulator at the incremented total. For an amount
  of zero cents or less the script is not run: the function reports not-granted,
  returns the total of the clock's day and leaves the store as the read of the
  configuration left it. Whenever it reports granted, the accumulator after the call
  is at most \<open>limit\<close>. In every case the store after the call is the store after the
  read of the configuration (which writes the default configuration when none is
  stored) but for the accumulator of the day. The day is the argument \<open>today\<close>, or
  the clock's day when the argument is left out.
\<close>

theorem reserve_guarded_increment_and_check:
  fixes e :: env and s :: store and dollars :: real and today :: "string option"
  defines "day \<equiv> (case today of Some d \<Rightarrow> d | None \<Rightarrow> todayDateString e)"
  defines "cents \<equiv> Math_round (numberMultiply e dollars (of_int DIRECT_AMOUNT_SCALE))"
  defines "limit \<equiv>
    Math_round (numberMultiply e (cfg_dailyDirectLimit (fst (getLotteryConfig s))) (of_int DIRECT_AMOUNT_SCALE))"
  defines "s0 \<equiv> snd (getLotteryConfig s)"
  defines "script \<equiv> reserveLua day cents limit (secondsUntilMidnight e + 3600) s0"
  defines "old \<equiv> directCents s day"
  defines "r \<equiv> fst (reserveDailyDirectQuota e dollars today s)"
  defines "s' \<equiv> snd (reserveDailyDirectQuota e dollars today s)"
  shows "(0 < cents \<longrightarrow> s' = snd script \<and> rr_success r = (fst (fst script) = 1)) \<and>
         (0 < cents \<and> old + cents > limit \<longrightarrow>
            \<not> rr_success r \<and> rr_newTotal r = of_int old / 100 \<and> directCents s' day = old) \<and>
         (0 < cents \<and> old + cents \<le> limit \<longrightarrow>
            rr_success r \<and> rr_newTotal r = of_int (old + cents) / 100 \<and> directCents s' day = old + cents) \<and>
         (cents \<le> 0 \<longrightarrow>
            \<not> rr_success r \<and> rr_newTotal r = of_int (directCents s (todayDateString e)) / 100 \<and> s' = s0) \<and>
         (rr_success r \<longrightarrow> directCents s' day \<le> limit) \<and>
         s' = s0\<lparr>kv_dailyDirect := (kv_dailyDirect s)(day := kv_dailyDirect s' day)\<rparr> \<and>
         s0 = (if kv_config s = None then s\<lparr>kv_config := Some (toPartial cloneDefaultLotteryConfig)\<rparr> else s)"
proof -
  have scale: "of_int DIRECT_AMOUNT_SCALE = (100 :: real)" by (simp add: DIRECT_AMOUNT_SCALE_def)
  have c0: "s' = snd script \<and> rr_success r = (fst (fst script) = 1)" if a: "0 < cents"
  proof -
    from a have pos: "0 < Math_round (numberMultiply e dollars 100)" by (simp add: cents_def scale)
    show ?thesis
      by (simp add: r_def s'_def reserve_unfold_pos [OF pos] Let_def script_def day_def cents_def limit_def
          s0_def scale)
  qed
  have c1: "\<not> rr_success r \<and> rr_newTotal r = of_int old / 100 \<and> directCents s' day = old"
    if a: "0 < cents \<and> old + cents > limit"
  proof -
    from a have pos: "0 < Math_round (numberMultiply e dollars 100)" by (simp add: cents_def scale)
    have over: "directCents (snd (getLotteryConfig s)) day + cents > limit"
      using a by (simp add: directCents_getLotteryConfig old_def)
    show ?thesis
      using reserveLua_over [OF over, of "secondsUntilMidnight e + 3600"]
      by (simp add: r_def s'_def reserve_unfold_pos [OF pos] Let_def directCents_getLotteryConfig
          day_def [symmetric] cents_def [unfolded scale, symmetric] limit_def [unfolded scale, symmetric] old_def)
  qed
  have c2: "rr_success r \<and> rr_newTotal r = of_int (old + cents) / 100 \<and> directCents s' day = old + cents"
    if a: "0 < cents \<and> old + cents \<le> limit"
  proof -
    from a have pos: "0 < Math_round (numberMultiply e dollars 100)" by (simp add: cents_def scale)
    have within: "directCents (snd (getLotteryConfig s)) day + cents \<le> limit"
      using a by (simp add: directCents_getLotteryConfig old_def)
    show ?thesis
      using reserveLua_within [OF within, of "secondsUntilMidnight e + 3600"] a
      by (simp add: r_def s'_def reserve_unfold_pos [OF pos] Let_def directCents_getLotteryConfig
          day_def [symmetric] cents_def [unfolded scale, symmetric] limit_def [unfolded scale, symmetric] old_def)
  qed
  have c3: "\<not> rr_success r \<and> rr_newTotal r = of_int (directCents s (todayDateString e)) / 100 \<and> s' = s0"
    if a: "cents \<le> 0"
  proof -
    from a have np: "Math_round (numberMultiply e dollars 100) \<le> 0" by (simp add: cents_def scale)
    show ?thesis
      by (simp add: r_def s'_def s0_def reserve_unfold_nonpos [OF np] getTodayDirectTotal_def
          directCents_getLotteryConfig scale)
  qed
  have c4: "directCents s' day \<le> limit" if g: "rr_success r"
  proof -
    from g c3 have "0 < cents" by (cases "cents \<le> 0") auto
    moreover from g c1 this have "old + cents \<le> limit" by (cases "old + cents > limit") auto
    ultimately show ?thesis using c2 by simp
  qed
  have c5: "s' = s0\<lparr>kv_dailyDirect := (kv_dailyDirect s)(day := kv_dailyDirect s' day)\<rparr>"
    unfolding s'_def s0_def day_def by (rule reserve_store)
  have c6: "s0 = (if kv_config s = None then s\<lparr>kv_config := Some (toPartial cloneDefaultLotteryConfig)\<rparr> else s)"
    by (auto simp: s0_def getLotteryConfig_def Let_def split: option.splits)
  from c0 c1 c2 c3 c4 c5 c6 show ?thesis by blast
qed

text \<open>
  Witness for C1: 3 dollars against an accumulator of 1999 dollars are refused and the
  1999 are returned; 3 dollars against an empty accumulator are granted; 0 dollars are
  refused without a script.
\<close>

theorem reserve_guarded_witness:
  "(0 < Math_round (numberMultiply sampleEnv 3 (of_int DIRECT_AMOUNT_SCALE)) \<and>
    directCents nearCapStore day1 + Math_round (numberMultiply sampleEnv 3 (of_int DIRECT_AMOUNT_SCALE)) >
      Math_round (numberMultiply sampleEnv (cfg_dailyDirectLimit (fst (getLotteryConfig nearCapStore)))
        (of_int DIRECT_AMOUNT_SCALE)) \<and>
    \<not> rr_success (fst (reserveDailyDirectQuota sampleEnv 3 (Some day1) nearCapStore)) \<and>
    rr_newTotal (fst (reserveDailyDirectQuota sampleEnv 3 (Some day1) nearCapStore)) = 1999 \<and>
    directCents (snd (reserveDailyDirectQuota sampleEnv 3 (Some day1) nearCapStore)) day1 = 199900) \<and>
   (directCents emptyStore day1 + Math_round (numberMultiply sampleEnv 3 (of_int DIRECT_AMOUNT_SCALE)) \<le>
      Math_round (numberMultiply sampleEnv (cfg_dailyDirectLimit (fst (getLotteryConfig emptyStore)))
        (of_int DIRECT_AMOUNT_SCALE)) \<and>
    rr_success (fst (reserveDailyDirectQuota sampleEnv 3 (Some day1) emptyStore)) \<and>
    rr_newTotal (fst (reserveDailyDirectQuota sampleEnv 3 (Some day1) emptyStore)) = 3 \<and>
    directCents (snd (reserveDailyDirectQuota sampleEnv 3 (Some day1) emptyStore)) day1 = 300) \<and>
   (Math_round (numberMultiply sampleEnv 0 (of_int DIRECT_AMOUNT_SCALE)) \<le> 0 \<and>
    \<not> rr_success (fst (reserveDailyDirectQuota sampleEnv 0 (Some day1) emptyStore)) \<and>
    snd (reserveDailyDirectQuota sampleEnv 0 (Some day1) emptyStore) = snd (getLotteryConfig emptyStore))"
proof -
  have m: "numberMultiply sampleEnv a b = a * b" for a b by (simp add: sampleEnv_def)
  have scale: "of_int DIRECT_AMOUNT_SCALE = (100 :: real)" by (simp add: DIRECT_AMOUNT_SCALE_def)
  have r: "Math_round 300 = 300" "Math_round 0 = 0" by (simp_all add: Math_round_def)
  have l: "Math_round (cfg_dailyDirectLimit (fst (getLotteryConfig nearCapStore)) * 100) = 200000"
    "Math_round (cfg_dailyDirectLimit (fst (getLotteryConfig emptyStore)) * 100) = 200000"
    by (simp_all add: getLotteryConfig_def nearCapStore_def claimedStore_def emptyStore_def default_limit
        Math_round_def Let_def)
  have d: "directCents nearCapStore day1 = 199900" "directCents emptyStore day1 = 0"
    by (simp_all add: directCents_def nearCapStore_def claimedStore_def emptyStore_def)
  note over = reserve_guarded_increment_and_check [where e = sampleEnv and dollars = 3 and today = "Some day1"
      and s = nearCapStore, THEN conjunct2, THEN conjunct1]
  note within = reserve_guarded_increment_and_check [where e = sampleEnv and dollars = 3 and today = "Some day1"
      and s = emptyStore, THEN conjunct2, THEN conjunct2, THEN conjunct1]
  note guard = reserve_guarded_increment_and_check [where e = sampleEnv and dollars = 0 and today = "Some day1"
      and s = emptyStore, THEN conjunct2, THEN conjunct2, THEN conjunct2, THEN conjunct1]
  from over within guard show ?thesis by (simp add: m scale r l d)
qed

subsection \<open>C2: an uncertain credit call\<close>

text \<open>
  Claim C2 at a concrete attempt: user 42, external account 7, no reservation yet, the
  default configuration. The draw selects the tier of 3 dollars; the credit call reads
  the quota 1000 and sends the update to 1501000, which times out, and the verifying
  read times out too. The attempt is uncertain, as the claim says, but the pending
  entry it stores carries the floor 0, not the 1501000 the update asked for: every
  uncertain result of \<open>creditQuotaToUser\<close> leaves \<open>newQuota\<close> out (lemma
  \<open>creditQuotaToUser_uncertain\<close>), so \<open>creditResult.newQuota ?? 0\<close> is 0 (lemma
  \<open>uncertain_attempt_floor_zero\<close>). A later reconciliation that observes the quota
  still at 1000, the credit never having landed, counts the entry as confirmed and
  rolls nothing back.
\<close>

theorem uncertain_attempt_stores_floor_zero:
  "sr_uncertain (fst (spinLotteryDirect sampleEnv 42 ''alice'' 7 emptyStore timeoutAfterDispatch)) \<and>
   requests (snd (snd (spinLotteryDirect sampleEnv 42 ''alice'' 7 emptyStore timeoutAfterDispatch))) =
     [GetSession False, GetUser 7, PutUser 7 1501000, GetSession True, GetUser 7] \<and>
   kv_pending (fst (snd (spinLotteryDirect sampleEnv 42 ''alice'' 7 emptyStore timeoutAfterDispatch))) =
     [Some \<lparr>sp_record = Some (makePendingRecord sampleEnv 42 ''alice'' sampleTier),
            sp_newApiUserId = Some 7, sp_expectedQuota = 0, sp_reservationDay = day1,
            sp_storedAt = nowMs sampleEnv\<rparr>] \<and>
   confirmed (fst (reconcilePendingRecords sampleEnv
       (fst (snd (spinLotteryDirect sampleEnv 42 ''alice'' 7 emptyStore timeoutAfterDispatch)))
       (quotaReplies 1000))) = 1 \<and>
   failed (fst (reconcilePendingRecords sampleEnv
       (fst (snd (spinLotteryDirect sampleEnv 42 ''alice'' 7 emptyStore timeoutAfterDispatch)))
       (quotaReplies 1000))) = 0"
proof -
  have u: "cr_uncertain uncertainResult" "cr_newQuota uncertainResult = None"
    by (simp_all add: uncertainResult_def)
  note d = uncertain_credit_is_deferred [OF u(1), of sampleEnv 42 "''alice''" 7 day1 sampleTier reservedStore]
  have e: "kv_pending reservedStore = []" by (simp add: reservedStore_def emptyStore_def)
  from d have unc: "sr_uncertain (fst (spinAfterCredit sampleEnv 42 ''alice'' 7 day1 sampleTier
      (Inr uncertainResult) reservedStore))" by simp
  from d have p: "kv_pending (fst (snd (spinLotteryDirect sampleEnv 42 ''alice'' 7 emptyStore timeoutAfterDispatch))) =
     [Some \<lparr>sp_record = Some (makePendingRecord sampleEnv 42 ''alice'' sampleTier),
            sp_newApiUserId = Some 7, sp_expectedQuota = 0, sp_reservationDay = day1,
            sp_storedAt = nowMs sampleEnv\<rparr>]"
    by (simp add: ex_spin u e)
  have r: "reconcileEntry sampleEnv
       (Some \<lparr>sp_record = Some (makePendingRecord sampleEnv 42 ''alice'' sampleTier),
            sp_newApiUserId = Some 7, sp_expectedQuota = 0, sp_reservationDay = day1,
            sp_storedAt = nowMs sampleEnv\<rparr>)
       \<lparr>rs_confirmed = 0, rs_failed = 0, rs_expired = 0, rs_remaining = [], rs_store = s, rs_ext = quotaReplies 1000\<rparr> =
       \<lparr>rs_confirmed = 1, rs_failed = 0, rs_expired = 0, rs_remaining = [], rs_store = s,
        rs_ext = \<lparr>sessionReplies = [], fetchReplies = [], requests = [GetSession False, GetUser 7]\<rparr>\<rparr>" for s
    by (simp add: reconcileEntry_def ex_check reconcileAnswer_def PENDING_RECORDS_MAX_AGE_MS_def Let_def)
  have req: "requests (snd (snd (spinLotteryDirect sampleEnv 42 ''alice'' 7 emptyStore timeoutAfterDispatch))) =
     [GetSession False, GetUser 7, PutUser 7 1501000, GetSession True, GetUser 7]"
    by (simp add: ex_spin afterCreditExt_def)
  have unc': "sr_uncertain (fst (spinLotteryDirect sampleEnv 42 ''alice'' 7 emptyStore timeoutAfterDispatch))"
    using unc by (simp add: ex_spin)
  have rec: "confirmed (fst (reconcilePendingRecords sampleEnv
       (fst (snd (spinLotteryDirect sampleEnv 42 ''alice'' 7 emptyStore timeoutAfterDispatch)))
       (quotaReplies 1000))) = 1 \<and>
   failed (fst (reconcilePendingRecords sampleEnv
       (fst (snd (spinLotteryDirect sampleEnv 42 ''alice'' 7 emptyStore timeoutAfterDispatch)))
       (quotaReplies 1000))) = 0"
    by (simp add: reconcilePendingRecords_def p lrange_all r Let_def reconcileStart_def)
  from unc' req p rec show ?thesis by simp
qed

subsection \<open>C3: the classification of a pending entry\<close>

text \<open>
  Claim C3. A run of \<open>reconcilePendingRecords\<close> reads the pending list, gives every
  entry one turn of its loop, in the order of the list, returns the counts of the loop
  and leaves the store of the loop, with the entries kept as the pending list, in
  reverse order (they are pushed back one by one); every entry is counted once, so the
  four counts add up to the number of entries. In the turn of an entry with a record
  and an account id, from any state \<open>st\<close> of the loop, with \<open>answer\<close> what
  \<open>checkUserQuota\<close> returns for the entry's account: an entry older than
  \<open>PENDING_RECORDS_MAX_AGE_MS\<close> (24 hours) is counted expired and nothing else
  changes, so it is neither kept nor compensated; otherwise, when the query fails, or
  throws, the entry is appended to the entries kept and nothing else changes; when the
  quota observed is at or above the stored floor the entry is counted confirmed and
  nothing else changes; when it is below, the entry is counted failed and is not kept,
  the accumulator of the stored reservation day goes down by the cents of the record's
  value, \<open>Math.round(tierValue * 100)\<close> when positive, the daily claim of the number
  \<open>Number(record.linuxdoId)\<close> for that day is deleted, and nothing else in the store
  changes. A successful query always carries a quota. An entry that is null, or has no
  record or no account id, is counted expired whatever its age.
\<close>

theorem reconcile_classifies_entry:
  fixes e :: env and st :: reconcile_state and p malformed :: StoredPending and rcd :: LotteryRecord
    and userId :: int and q :: real and err :: exception and s :: store and x :: ext
    and before after :: "StoredPending option list"
  defines "age \<equiv> nowMs e - sp_storedAt p"
  defines "answer \<equiv> fst (checkUserQuota e userId (rs_ext st))"
  defines "x1 \<equiv> snd (checkUserQuota e userId (rs_ext st))"
  defines "st' \<equiv> reconcileEntry e (Some p) st"
  defines "day \<equiv> sp_reservationDay p"
  defines "cents \<equiv> Math_round (numberMultiply e (r_tierValue rcd) (of_int DIRECT_AMOUNT_SCALE))"
  defines "user \<equiv> stringToNumber e (r_linuxdoId rcd)"
  defines "loop \<equiv> reconcileLoop e (kv_pending s) (reconcileStart s x)"
  assumes wf: "sp_record p = Some rcd" "sp_newApiUserId p = Some userId"
  shows "(age > PENDING_RECORDS_MAX_AGE_MS \<longrightarrow> st' = st\<lparr>rs_expired := rs_expired st + 1\<rparr>) \<and>
         (age \<le> PENDING_RECORDS_MAX_AGE_MS \<and> \<not> qr_success answer \<longrightarrow>
            st' = st\<lparr>rs_remaining := rs_remaining st @ [Some p], rs_ext := x1\<rparr>) \<and>
         reconcileAnswer e p rcd (Inl err) st = st\<lparr>rs_remaining := rs_remaining st @ [Some p]\<rparr> \<and>
         (age \<le> PENDING_RECORDS_MAX_AGE_MS \<and> qr_success answer \<and> qr_quota answer = Some q \<and>
          q \<ge> sp_expectedQuota p \<longrightarrow>
            st' = st\<lparr>rs_confirmed := rs_confirmed st + 1, rs_ext := x1\<rparr>) \<and>
         (age \<le> PENDING_RECORDS_MAX_AGE_MS \<and> qr_success answer \<and> qr_quota answer = Some q \<and>
          q < sp_expectedQuota p \<longrightarrow>
            rs_failed st' = rs_failed st + 1 \<and> rs_confirmed st' = rs_confirmed st \<and>
            rs_expired st' = rs_expired st \<and> rs_remaining st' = rs_remaining st \<and> rs_ext st' = x1 \<and>
            (rs_store st')\<lparr>kv_dailyDirect := kv_dailyDirect (rs_store st), kv_daily := kv_daily (rs_store st)\<rparr> =
              rs_store st \<and>
            kv_daily (rs_store st') = (kv_daily (rs_store st))((user, day) := None) \<and>
            kv_dailyDirect (rs_store st') =
              (kv_dailyDirect (rs_store st))(day := kv_dailyDirect (rs_store st') day) \<and>
            directCents (rs_store st') day = directCents (rs_store st) day - max 0 cents) \<and>
         (qr_success answer \<longrightarrow> qr_quota answer \<noteq> None) \<and>
         reconcileEntry e None st = st\<lparr>rs_expired := rs_expired st + 1\<rparr> \<and>
         (sp_record malformed = None \<or> sp_newApiUserId malformed = None \<longrightarrow>
            reconcileEntry e (Some malformed) st = st\<lparr>rs_expired := rs_expired st + 1\<rparr>) \<and>
         reconcilePendingRecords e s x =
           (\<lparr>processed = length (kv_pending s), confirmed = rs_confirmed loop, failed = rs_failed loop,
             expired = rs_expired loop, stillPending = length (rs_remaining loop)\<rparr>,
            (rs_store loop)\<lparr>kv_pending := rev (rs_remaining loop)\<rparr>, rs_ext loop) \<and>
         (kv_pending s = before @ Some p # after \<longrightarrow>
            loop = reconcileLoop e after (reconcileEntry e (Some p) (reconcileLoop e before (reconcileStart s x)))) \<and>
         rs_confirmed loop + rs_failed loop + rs_expired loop + length (rs_remaining loop) = length (kv_pending s)"
proof -
  note unf = reconcileEntry_wellformed [OF wf, of e st]
  have scale: "of_int DIRECT_AMOUNT_SCALE = (100 :: real)" by (simp add: DIRECT_AMOUNT_SCALE_def)
  have c1: "age > PENDING_RECORDS_MAX_AGE_MS \<longrightarrow> st' = st\<lparr>rs_expired := rs_expired st + 1\<rparr>"
    by (simp add: st'_def unf age_def)
  have c2: "age \<le> PENDING_RECORDS_MAX_AGE_MS \<and> \<not> qr_success answer \<longrightarrow>
            st' = st\<lparr>rs_remaining := rs_remaining st @ [Some p], rs_ext := x1\<rparr>"
    by (simp add: st'_def unf age_def answer_def x1_def reconcileAnswer_def)
  have c3: "reconcileAnswer e p rcd (Inl err) st = st\<lparr>rs_remaining := rs_remaining st @ [Some p]\<rparr>"
    by (simp add: reconcileAnswer_def)
  have c4: "age \<le> PENDING_RECORDS_MAX_AGE_MS \<and> qr_success answer \<and> qr_quota answer = Some q \<and>
          q \<ge> sp_expectedQuota p \<longrightarrow>
            st' = st\<lparr>rs_confirmed := rs_confirmed st + 1, rs_ext := x1\<rparr>"
    by (simp add: st'_def unf age_def answer_def x1_def reconcileAnswer_def)
  have c5: "rs_failed st' = rs_failed st + 1 \<and> rs_confirmed st' = rs_confirmed st \<and>
            rs_expired st' = rs_expired st \<and> rs_remaining st' = rs_remaining st \<and> rs_ext st' = x1 \<and>
            (rs_store st')\<lparr>kv_dailyDirect := kv_dailyDirect (rs_store st), kv_daily := kv_daily (rs_store st)\<rparr> =
              rs_store st \<and>
            kv_daily (rs_store st') = (kv_daily (rs_store st))((user, day) := None) \<and>
            kv_dailyDirect (rs_store st') =
              (kv_dailyDirect (rs_store st))(day := kv_dailyDirect (rs_store st') day) \<and>
            directCents (rs_store st') day = directCents (rs_store st) day - max 0 cents"
    if a: "age \<le> PENDING_RECORDS_MAX_AGE_MS \<and> qr_success answer \<and> qr_quota answer = Some q \<and>
          q < sp_expectedQuota p"
  proof -
    have eq: "st' = st\<lparr>rs_failed := rs_failed st + 1,
        rs_store := releaseDailyFree e user (Some day) (rollbackDailyDirectQuota e (r_tierValue rcd) (Some day) (rs_store st)),
        rs_ext := x1\<rparr>"
      using a by (simp add: st'_def unf age_def answer_def x1_def reconcileAnswer_def day_def user_def)
    note cs = compensate_store [where e = e and u = user and day = day and dollars = "r_tierValue rcd"
        and s = "rs_store st"]
    show ?thesis
      unfolding eq using cs by (simp add: cents_def scale)
  qed
  have c6: "qr_success answer \<longrightarrow> qr_quota answer \<noteq> None"
    using checkUserQuota_success [of e userId "rs_ext st"] by (simp add: answer_def)
  have c7: "reconcileEntry e None st = st\<lparr>rs_expired := rs_expired st + 1\<rparr>"
    by (simp add: reconcileEntry_def)
  have c8: "sp_record malformed = None \<or> sp_newApiUserId malformed = None \<longrightarrow>
            reconcileEntry e (Some malformed) st = st\<lparr>rs_expired := rs_expired st + 1\<rparr>"
    by (auto simp: reconcileEntry_def split: option.splits)
  note c9 = reconcile_run [of e s x, folded loop_def]
  have c10: "kv_pending s = before @ Some p # after \<longrightarrow>
            loop = reconcileLoop e after (reconcileEntry e (Some p) (reconcileLoop e before (reconcileStart s x)))"
    by (simp add: loop_def reconcileLoop_append)
  have c11: "rs_confirmed loop + rs_failed loop + rs_expired loop + length (rs_remaining loop) = length (kv_pending s)"
    using reconcileLoop_counts [of e "kv_pending s" "reconcileStart s x"]
    by (simp add: loop_def reconcileStart_def)
  from c1 c2 c3 c4 c5 c6 c7 c8 c9 c10 c11 show ?thesis by blast
qed

text \<open>
  Witness for C3, one entry for each case: stored 25 hours ago (expired); stored 10
  seconds ago with no session for the query (kept); with an observed quota of 1501000
  against the floor 1501000 (confirmed, the store untouched); with an observed quota of
  1000 (failed: the accumulator goes from 300 cents to 0 and the claim of user 42 is
  released); an entry without a record (expired). The run over the store that holds
  the entry alone, with the observed quota 1000, returns one entry processed and
  failed, and leaves the accumulator at 0, the claim released and the pending list
  empty.
\<close>

theorem reconcile_classifies_entry_witness:
  "(sp_record oldPending = Some samplePendingRecord \<and> sp_newApiUserId oldPending = Some 7 \<and>
    nowMs sampleEnv - sp_storedAt oldPending > PENDING_RECORDS_MAX_AGE_MS \<and>
    reconcileEntry sampleEnv (Some oldPending) (reconcileStart pendingStore (quotaReplies 1000)) =
      (reconcileStart pendingStore (quotaReplies 1000))\<lparr>rs_expired := 1\<rparr>) \<and>
   (sp_record samplePending = Some samplePendingRecord \<and> sp_newApiUserId samplePending = Some 7 \<and>
    nowMs sampleEnv - sp_storedAt samplePending \<le> PENDING_RECORDS_MAX_AGE_MS \<and>
    \<not> qr_success (fst (checkUserQuota sampleEnv 7 noReplies)) \<and>
    rs_remaining (reconcileEntry sampleEnv (Some samplePending) (reconcileStart pendingStore noReplies)) =
      [Some samplePending]) \<and>
   (qr_success (fst (checkUserQuota sampleEnv 7 (quotaReplies 1501000))) \<and>
    qr_quota (fst (checkUserQuota sampleEnv 7 (quotaReplies 1501000))) = Some 1501000 \<and>
    1501000 \<ge> sp_expectedQuota samplePending \<and>
    rs_confirmed (reconcileEntry sampleEnv (Some samplePending) (reconcileStart pendingStore (quotaReplies 1501000))) = 1 \<and>
    rs_store (reconcileEntry sampleEnv (Some samplePending) (reconcileStart pendingStore (quotaReplies 1501000))) =
      pendingStore) \<and>
   (qr_success (fst (checkUserQuota sampleEnv 7 (quotaReplies 1000))) \<and>
    qr_quota (fst (checkUserQuota sampleEnv 7 (quotaReplies 1000))) = Some 1000 \<and>
    1000 < sp_expectedQuota samplePending \<and>
    rs_failed (reconcileEntry sampleEnv (Some samplePending) (reconcileStart pendingStore (quotaReplies 1000))) = 1 \<and>
    directCents pendingStore day1 = 300 \<and>
    directCents (rs_store (reconcileEntry sampleEnv (Some samplePending)
       (reconcileStart pendingStore (quotaReplies 1000)))) day1 = 0 \<and>
    kv_daily pendingStore (Finite 42, day1) = Some ''1'' \<and>
    kv_daily (rs_store (reconcileEntry sampleEnv (Some samplePending)
       (reconcileStart pendingStore (quotaReplies 1000)))) (Finite 42, day1) = None) \<and>
   (sp_record (samplePending\<lparr>sp_record := None\<rparr>) = None \<and>
    reconcileEntry sampleEnv (Some (samplePending\<lparr>sp_record := None\<rparr>)) (reconcileStart pendingStore noReplies) =
      (reconcileStart pendingStore noReplies)\<lparr>rs_expired := 1\<rparr>) \<and>
   (kv_pending pendingStore = [] @ Some samplePending # [] \<and>
    fst (reconcilePendingRecords sampleEnv pendingStore (quotaReplies 1000)) =
      \<lparr>processed = 1, confirmed = 0, failed = 1, expired = 0, stillPending = 0\<rparr> \<and>
    directCents (fst (snd (reconcilePendingRecords sampleEnv pendingStore (quotaReplies 1000)))) day1 = 0 \<and>
    kv_daily (fst (snd (reconcilePendingRecords sampleEnv pendingStore (quotaReplies 1000)))) (Finite 42, day1) = None \<and>
    kv_pending (fst (snd (reconcilePendingRecords sampleEnv pendingStore (quotaReplies 1000)))) = [])"
proof -
  have wo: "sp_record oldPending = Some samplePendingRecord" "sp_newApiUserId oldPending = Some 7"
    by (simp_all add: oldPending_def samplePending_def)
  have wp: "sp_record samplePending = Some samplePendingRecord" "sp_newApiUserId samplePending = Some 7"
    by (simp_all add: samplePending_def)
  have age: "nowMs sampleEnv - sp_storedAt oldPending > PENDING_RECORDS_MAX_AGE_MS"
    "nowMs sampleEnv - sp_storedAt samplePending \<le> PENDING_RECORDS_MAX_AGE_MS"
    by (simp_all add: sampleEnv_def oldPending_def samplePending_def PENDING_RECORDS_MAX_AGE_MS_def)
  have fl: "sp_expectedQuota samplePending = 1501000" "sp_reservationDay samplePending = day1"
    by (simp_all add: samplePending_def)
  have rc: "r_tierValue samplePendingRecord = 3"
    "stringToNumber sampleEnv (r_linuxdoId samplePendingRecord) = Finite 42"
    by (simp_all add: samplePendingRecord_def ex_number sampleEnv_def)
  have st: "directCents pendingStore day1 = 300" "kv_daily pendingStore (Finite 42, day1) = Some ''1''"
    "kv_pending pendingStore = [Some samplePending]"
    by (simp_all add: pendingStore_def reservedStore_def directCents_def)
  have m: "Math_round (numberMultiply sampleEnv 3 (of_int DIRECT_AMOUNT_SCALE)) = 300"
    by (simp add: Math_round_def sampleEnv_def DIRECT_AMOUNT_SCALE_def)
  have s0: "rs_ext (reconcileStart s x) = x" "rs_store (reconcileStart s x) = s"
    "rs_remaining (reconcileStart s x) = []" "rs_confirmed (reconcileStart s x) = 0"
    "rs_failed (reconcileStart s x) = 0" "rs_expired (reconcileStart s x) = 0" for s x
    by (simp_all add: reconcileStart_def)
  note t1 = reconcile_classifies_entry [OF wo, where e = sampleEnv and st = "reconcileStart pendingStore (quotaReplies 1000)"]
  note t2 = reconcile_classifies_entry [OF wp, where e = sampleEnv and st = "reconcileStart pendingStore noReplies"
      and malformed = "samplePending\<lparr>sp_record := None\<rparr>"]
  note t3 = reconcile_classifies_entry [OF wp, where e = sampleEnv and q = 1501000
      and st = "reconcileStart pendingStore (quotaReplies 1501000)"]
  note t4 = reconcile_classifies_entry [OF wp, where e = sampleEnv and q = 1000
      and st = "reconcileStart pendingStore (quotaReplies 1000)" and s = pendingStore
      and x = "quotaReplies 1000" and before = "[]" and after = "[]"]
  have c1: "reconcileEntry sampleEnv (Some oldPending) (reconcileStart pendingStore (quotaReplies 1000)) =
      (reconcileStart pendingStore (quotaReplies 1000))\<lparr>rs_expired := 1\<rparr>"
    using t1 age(1) by (simp add: s0)
  have c2: "rs_remaining (reconcileEntry sampleEnv (Some samplePending) (reconcileStart pendingStore noReplies)) =
      [Some samplePending]"
    using t2 age(2) by (simp add: s0 ex_check_none)
  have c3: "rs_confirmed (reconcileEntry sampleEnv (Some samplePending) (reconcileStart pendingStore (quotaReplies 1501000))) = 1 \<and>
    rs_store (reconcileEntry sampleEnv (Some samplePending) (reconcileStart pendingStore (quotaReplies 1501000))) =
      pendingStore"
    using t3 age(2) by (simp add: s0 ex_check fl)
  let ?st' = "reconcileEntry sampleEnv (Some samplePending) (reconcileStart pendingStore (quotaReplies 1000))"
  have c4: "rs_failed ?st' = 1 \<and> rs_confirmed ?st' = 0 \<and> rs_expired ?st' = 0 \<and> rs_remaining ?st' = [] \<and>
    directCents (rs_store ?st') day1 = 0 \<and> kv_daily (rs_store ?st') (Finite 42, day1) = None"
    using t4 age(2) by (simp add: s0 ex_check fl rc st m)
  have c5: "reconcileEntry sampleEnv (Some (samplePending\<lparr>sp_record := None\<rparr>)) (reconcileStart pendingStore noReplies) =
      (reconcileStart pendingStore noReplies)\<lparr>rs_expired := 1\<rparr>"
    using t2 by (simp add: s0)
  have loop: "reconcileLoop sampleEnv (kv_pending pendingStore) (reconcileStart pendingStore (quotaReplies 1000)) = ?st'"
    using t4 by (simp add: st)
  have run: "reconcilePendingRecords sampleEnv pendingStore (quotaReplies 1000) =
      (\<lparr>processed = 1, confirmed = 0, failed = 1, expired = 0, stillPending = 0\<rparr>,
       (rs_store ?st')\<lparr>kv_pending := []\<rparr>, rs_ext ?st')"
    using t4 c4 unfolding loop by (simp add: st)
  have c6: "fst (reconcilePendingRecords sampleEnv pendingStore (quotaReplies 1000)) =
      \<lparr>processed = 1, confirmed = 0, failed = 1, expired = 0, stillPending = 0\<rparr> \<and>
    directCents (fst (snd (reconcilePendingRecords sampleEnv pendingStore (quotaReplies 1000)))) day1 = 0 \<and>
    kv_daily (fst (snd (reconcilePendingRecords sampleEnv pendingStore (quotaReplies 1000)))) (Finite 42, day1) = None \<and>
    kv_pending (fst (snd (reconcilePendingRecords sampleEnv pendingStore (quotaReplies 1000)))) = []"
    using c4 by (simp add: run directCents_def)
  show ?thesis
    using wo wp age c1 c2 c3 c4 c5 c6 st by (simp add: ex_check ex_check_none fl)
qed

subsection \<open>C4: a user who has claimed the day\<close>

text \<open>
  Claim C4. When the user's daily claim key for the clock's day is in the store,
  \<open>spinLotteryDirect\<close> returns the denial with the no-attempts-left message, and
  the store and the external service are exactly as before: no accumulator, no claim
  and no record is touched and no request is sent.
\<close>

theorem claimed_user_is_denied:
  assumes "kv_daily s (Finite (of_int linuxdoId), todayDateString e) \<noteq> None"
  shows "spinLotteryDirect e linuxdoId username newApiUserId s x = (denied MsgNoAttemptsLeft, s, x)"
  using assms by (auto simp: spinLotteryDirect_def tryClaimDailyFree_def Let_def)

text \<open>
  Witness for C4: user 42 has claimed the day.
\<close>

theorem claimed_user_is_denied_witness:
  "kv_daily claimedStore (Finite (of_int 42), todayDateString sampleEnv) \<noteq> None \<and>
   spinLotteryDirect sampleEnv 42 ''alice'' 7 claimedStore noReplies = (denied MsgNoAttemptsLeft, claimedStore, noReplies)"
proof -
  have h: "kv_daily claimedStore (Finite (of_int 42), todayDateString sampleEnv) \<noteq> None"
    by (simp add: claimedStore_def sampleEnv_def day1_def)
  from claimed_user_is_denied [OF h] h show ?thesis by simp
qed

subsection \<open>C5: a refused reservation\<close>



subsection \<open>C6: written records and reconciliation\<close>

text \<open>
  Claim C6 as stated fails: a store holds an unconfirmed record of user 42 and its
  pending entry; the reconciler observes the quota 1501000, at the floor, counts the
  entry confirmed and empties the pending list, and the record read back for the user
  is the record as it was written, its tier name still starting with the pending
  marker.
\<close>

theorem confirmed_record_keeps_pending_mark:
  "confirmed (fst (reconcilePendingRecords sampleEnv pendingStore (quotaReplies 1501000))) = 1 \<and>
   kv_pending (fst (snd (reconcilePendingRecords sampleEnv pendingStore (quotaReplies 1501000)))) = [] \<and>
   getUserLotteryRecords 42 1 pendingStore = [samplePendingRecord] \<and>
   getUserLotteryRecords 42 1 (fst (snd (reconcilePendingRecords sampleEnv pendingStore (quotaReplies 1501000)))) =
     [samplePendingRecord] \<and>
   startsWith (r_tierName samplePendingRecord) pendingPrefix"
proof -
  have wp: "sp_record samplePending = Some samplePendingRecord" "sp_newApiUserId samplePending = Some 7"
    by (simp_all add: samplePending_def)
  have age: "nowMs sampleEnv - sp_storedAt oldPending > PENDING_RECORDS_MAX_AGE_MS"
    "nowMs sampleEnv - sp_storedAt samplePending \<le> PENDING_RECORDS_MAX_AGE_MS"
    by (simp_all add: sampleEnv_def oldPending_def samplePending_def PENDING_RECORDS_MAX_AGE_MS_def)
  have fl: "sp_expectedQuota samplePending = 1501000" "sp_reservationDay samplePending = day1"
    by (simp_all add: samplePending_def)
  have r: "reconcileEntry sampleEnv (Some samplePending)
       \<lparr>rs_confirmed = 0, rs_failed = 0, rs_expired = 0, rs_remaining = [], rs_store = pendingStore,
        rs_ext = quotaReplies 1501000\<rparr> =
       \<lparr>rs_confirmed = 1, rs_failed = 0, rs_expired = 0, rs_remaining = [], rs_store = pendingStore,
        rs_ext = \<lparr>sessionReplies = [], fetchReplies = [], requests = [GetSession False, GetUser 7]\<rparr>\<rparr>"
    using age(2)
    by (simp add: reconcileEntry_def ex_check reconcileAnswer_def Let_def wp fl)
  have p: "kv_pending pendingStore = [Some samplePending]" by (simp add: pendingStore_def)
  have run: "reconcilePendingRecords sampleEnv pendingStore (quotaReplies 1501000) =
      (\<lparr>processed = 1, confirmed = 1, failed = 0, expired = 0, stillPending = 0\<rparr>,
       pendingStore\<lparr>kv_pending := []\<rparr>,
       \<lparr>sessionReplies = [], fetchReplies = [], requests = [GetSession False, GetUser 7]\<rparr>)"
    by (simp add: reconcilePendingRecords_def p lrange_all r Let_def reconcileStart_def)
  have w: "wellFormedRecord samplePendingRecord"
    by (simp add: wellFormedRecord_def samplePendingRecord_def trim_unspaced leadingSpace_def whiteSpace_def)
  have n: "normalizeLotteryRecord (toStored samplePendingRecord) = Some samplePendingRecord"
    using w by (simp add: normalize_toStored_iff)
  have g: "getUserLotteryRecords 42 1 pendingStore = [samplePendingRecord]"
    "getUserLotteryRecords 42 1 (pendingStore\<lparr>kv_pending := []\<rparr>) = [samplePendingRecord]"
    by (simp_all add: getUserLotteryRecords_def pendingStore_def lrange_head n)
  have s: "startsWith (r_tierName samplePendingRecord) pendingPrefix"
    by (simp add: samplePendingRecord_def pendingPrefix_def)
  show ?thesis using g s by (simp add: run)
qed

text \<open>
  Claim C6, amended. A run of \<open>reconcilePendingRecords\<close>, whatever it confirms,
  changes no record list and not the counter of records: a record whose disbursement
  is confirmed keeps the marking, the value and the id it was written with. No
  operation of the program rewrites or removes a record in a list. The lists have two
  writers. \<open>appendLotteryRecord\<close> puts the new record in front of the recent list, of
  the list of the clock's day and of the list of the user, cuts the recent list and
  the user's list at their capacity of 5000 and 200 records, and leaves every other
  day's list, every other user's list and the legacy list as they were.
  \<open>migrateLegacyTodayRecords\<close> puts the records it is given in front of the list of
  the day it is given, in their order, and changes nothing else in the store. The other
  operations change the records only through these two: \<open>getTodayLotteryRecords\<close>
  leaves the store as it was or as one migration to the clock's day leaves it, with
  the day marked as checked; \<open>spinLotteryDirect\<close> leaves the records as they were
  before the call, or as the other callers left them before the reservation, or as
  \<open>appendLotteryRecord\<close> of one record leaves those; the configuration, the two
  ledgers, the quota lock and the credit call leave the records as they were.
\<close>

theorem reconcile_changes_no_record:
  fixes e :: env and s :: store and x :: ext and r :: LotteryRecord and u linuxdoId newApiUserId userId :: int
    and username :: string and records :: "LotteryRecord list" and userNum :: jsnum
    and includePending :: "bool option" and maxScan :: "int option"
  defines "mid \<equiv> othersBeforeReserve e (snd (getLotteryConfig
      (snd (tryClaimDailyFree e (Finite (of_int linuxdoId)) (Some (todayDateString e)) s))))"
  defines "spun \<equiv> fst (snd (spinLotteryDirect e linuxdoId username newApiUserId s x))"
  defines "listed \<equiv> snd (getTodayLotteryRecords e includePending maxScan s)"
  shows "recordsOf (fst (snd (reconcilePendingRecords e s x))) = recordsOf s \<and>
   kv_recordsRecent (appendLotteryRecord e r u s) = toStored r # take 4999 (kv_recordsRecent s) \<and>
   kv_recordsDay (appendLotteryRecord e r u s) =
     (kv_recordsDay s)(todayDateString e := toStored r # kv_recordsDay s (todayDateString e)) \<and>
   kv_userRecords (appendLotteryRecord e r u s) =
     (kv_userRecords s)(u := toStored r # take 199 (kv_userRecords s u)) \<and>
   kv_recordsLegacy (appendLotteryRecord e r u s) = kv_recordsLegacy s \<and>
   migrateLegacyTodayRecords dayKey records s =
     s\<lparr>kv_recordsDay := (kv_recordsDay s)(dayKey := map toStored records @ kv_recordsDay s dayKey)\<rparr> \<and>
   (listed = s \<or>
    (\<exists>migrated. listed = (migrateLegacyTodayRecords (todayDateString e) migrated s)
       \<lparr>kv_legacyChecked := (kv_legacyChecked s)(todayDateString e \<mapsto> ''1'')\<rparr>)) \<and>
   (recordsOf spun = recordsOf s \<or> recordsOf spun = recordsOf mid \<or>
    (\<exists>rcd. recordsOf spun = recordsOf (appendLotteryRecord e rcd linuxdoId mid))) \<and>
   recordsOf (snd (getLotteryConfig s)) = recordsOf s \<and>
   (case updateLotteryConfig lockToken' config s of Inl err \<Rightarrow> recordsOf s | Inr s' \<Rightarrow> recordsOf s') = recordsOf s \<and>
   recordsOf (snd (tryClaimDailyFree e userNum today s)) = recordsOf s \<and>
   recordsOf (releaseDailyFree e userNum today s) = recordsOf s \<and>
   recordsOf (snd (reserveDailyDirectQuota e dollars today s)) = recordsOf s \<and>
   recordsOf (rollbackDailyDirectQuota e dollars today s) = recordsOf s \<and>
   recordsOf (fst (snd (acquireUserQuotaLock e userId s))) = recordsOf s \<and>
   recordsOf (releaseUserQuotaLock lock s) = recordsOf s \<and>
   recordsOf (fst (snd (creditQuotaToUser e userId dollars s x))) = recordsOf s \<and>
   recordsOf (storePendingRecord pending s) = recordsOf s"
proof -
  have a: "recordsOf (fst (snd (reconcilePendingRecords e s x))) = recordsOf s"
    using reconcileLoop_records [of e "kv_pending s" "reconcileStart s x"]
    by (simp add: reconcile_run) (simp add: recordsOf_def reconcileStart_def)
  note b = append_recent_head [of e r u s] append_day [of e r u s] append_user [of e r u s]
    append_legacy [of e r u s]
  note c = migrate_store [of dayKey records s]
  note d = getTodayLotteryRecords_store [of e includePending maxScan s, folded listed_def]
  note f = spinLotteryDirect_records [of e linuxdoId username newApiUserId s x, folded mid_def spun_def]
  note g = recordsOf_ledgers(1) [where s = s] recordsOf_update [where tok = lockToken' and config = config and s = s]
    recordsOf_ledgers(2) [where e = e and u = userNum and today = today and s = s]
    recordsOf_ledgers(3) [where e = e and u = userNum and today = today and s = s]
    recordsOf_reserve [where e = e and dollars = dollars and today = today and s = s]
    recordsOf_ledgers(5) [where e = e and dollars = dollars and today = today and s = s]
    recordsOf_acquire [where e = e and u = userId and s = s] recordsOf_releaseLock [where lock = lock and s = s]
    recordsOf_credit [where e = e and userId = userId and dollars = dollars and s = s and x = x]
    recordsOf_storePending [where p = pending and s = s]
  from a b c d f g show ?thesis by blast
qed

subsection \<open>C7: append and read back\<close>

text \<open>
  Claim C7. For every well-formed record,
  \<open>getUserLotteryRecords(userId, 1)\<close> after
  \<open>appendLotteryRecord(record, userId)\<close> is the list of that record alone, equal
  in every field. (Lemma \<open>normalize_toStored_iff\<close>: the records that come back
  unchanged from normalization are exactly the well-formed ones; a record whose id
  has white space of any kind at either end, such as U+3000, is not one of them.)
\<close>

theorem append_then_read_back:
  assumes "wellFormedRecord record"
  shows "getUserLotteryRecords linuxdoId 1 (appendLotteryRecord e record linuxdoId s) = [record]"
proof -
  have "kv_userRecords (appendLotteryRecord e record linuxdoId s) linuxdoId =
        toStored record # take 199 (kv_userRecords s linuxdoId)"
    by (simp add: appendLotteryRecord_def Let_def kv_userRecords_increment ltrim0_Cons
        USER_RECORDS_MAX_LENGTH_def)
  then show ?thesis
    using assms by (simp add: getUserLotteryRecords_def lrange_head normalize_toStored_iff [THEN iffD2])
qed

text \<open>
  Witness for C7: a confirmed record of user 42.
\<close>

theorem append_then_read_back_witness:
  "wellFormedRecord sampleRecord \<and>
   getUserLotteryRecords 42 1 (appendLotteryRecord sampleEnv sampleRecord 42 emptyStore) = [sampleRecord]"
proof -
  have h: "wellFormedRecord sampleRecord"
    by (simp add: wellFormedRecord_def sampleRecord_def trim_unspaced leadingSpace_def whiteSpace_def)
  from append_then_read_back [OF h] h show ?thesis by simp
qed

subsection \<open>C8: the release of a lock\<close>

text \<open>
  Claim C8. \<open>releaseUserQuotaLock\<close> deletes the lock key when the value stored
  there is the holder's token and changes nothing otherwise; so does the release in
  the \<open>finally\<close> block of \<open>updateLotteryConfig\<close>. Consequently, when a
  caller A has acquired a free lock, the key has expired, and a caller B with another
  token has acquired it, the release of A leaves the key with the token of B.
\<close>

theorem lock_release_compares_token:
  fixes s :: store and lock :: UserQuotaLock and lockToken' :: string and eA eB :: env and userId :: int
  defines "lockA \<equiv> \<lparr>lock_key = userId, lock_token = lockToken eA\<rparr>"
  defines "lockB \<equiv> \<lparr>lock_key = userId, lock_token = lockToken eB\<rparr>"
  defines "s1 \<equiv> fst (snd (acquireUserQuotaLock eA userId s))"
  defines "s2 \<equiv> fst (snd (acquireUserQuotaLock eB userId (expireQuotaLock userId s1)))"
  shows "releaseUserQuotaLock lock s =
           (if kv_quotaLock s (lock_key lock) = Some (lock_token lock)
            then expireQuotaLock (lock_key lock) s else s) \<and>
         releaseConfigLock lockToken' s =
           (if kv_configLock s = Some lockToken' then s\<lparr>kv_configLock := None\<rparr> else s) \<and>
         (kv_quotaLock s userId = None \<and> lockToken eA \<noteq> lockToken eB \<longrightarrow>
            fst (acquireUserQuotaLock eA userId s) = Some lockA \<and>
            fst (acquireUserQuotaLock eB userId (expireQuotaLock userId s1)) = Some lockB \<and>
            kv_quotaLock (releaseUserQuotaLock lockA s2) userId = Some (lock_token lockB))"
proof -
  have c: "fst (acquireUserQuotaLock eA userId s) = Some lockA \<and>
            fst (acquireUserQuotaLock eB userId (expireQuotaLock userId s1)) = Some lockB \<and>
            kv_quotaLock (releaseUserQuotaLock lockA s2) userId = Some (lock_token lockB)"
    if free: "kv_quotaLock s userId = None" and ne: "lockToken eA \<noteq> lockToken eB"
  proof -
    have a1: "fst (acquireUserQuotaLock eA userId s) = Some lockA"
      by (simp add: acquire_free [OF free] lockA_def)
    have free': "kv_quotaLock (expireQuotaLock userId s1) userId = None"
      by (simp add: expireQuotaLock_def)
    have a2: "fst (acquireUserQuotaLock eB userId (expireQuotaLock userId s1)) = Some lockB"
      by (simp add: acquire_free [OF free'] lockB_def)
    have "kv_quotaLock s2 userId = Some (lockToken eB)"
      by (simp add: s2_def acquire_free [OF free'])
    with ne have "kv_quotaLock (releaseUserQuotaLock lockA s2) userId = Some (lock_token lockB)"
      by (simp add: release_user lockA_def lockB_def)
    with a1 a2 show ?thesis by simp
  qed
  show ?thesis using c by (simp add: release_user release_cfg)
qed

text \<open>
  Witness for C8: two callers at the same instant with different random suffixes.
\<close>

theorem lock_release_compares_token_witness:
  "kv_quotaLock emptyStore 7 = None \<and> lockToken sampleEnv \<noteq> lockToken laterEnv \<and>
   kv_quotaLock
     (releaseUserQuotaLock \<lparr>lock_key = 7, lock_token = lockToken sampleEnv\<rparr>
        (fst (snd (acquireUserQuotaLock laterEnv 7
           (expireQuotaLock 7 (fst (snd (acquireUserQuotaLock sampleEnv 7 emptyStore)))))))) 7 =
   Some (lockToken laterEnv)"
proof -
  have h: "kv_quotaLock emptyStore 7 = None \<and> lockToken sampleEnv \<noteq> lockToken laterEnv"
    by (simp add: emptyStore_def lockToken_def laterEnv_def sampleEnv_def)
  from lock_release_compares_token [where s = emptyStore and userId = 7 and eA = sampleEnv and eB = laterEnv] h
  show ?thesis by simp
qed

subsection \<open>C9: the acquisition of the quota lock\<close>

text \<open>
  Claim C9. \<open>acquireUserQuotaLock\<close> always returns: its loop sends at most 25
  \<open>SET NX\<close> commands (a sleep of 120 ms follows each refused one), whatever the
  other holders do, and when it returns null it has sent exactly 25. Then
  \<open>creditQuotaToUser\<close> returns the busy failure, not uncertain, and has sent no
  request to the external service and asked for no session.
\<close>

theorem lock_acquisition_is_bounded:
  "USER_QUOTA_LOCK_MAX_RETRIES = 25 \<and> USER_QUOTA_LOCK_RETRY_MS = 120 \<and>
   snd (snd (acquireUserQuotaLock e userId s)) \<le> 25 \<and>
   (fst (acquireUserQuotaLock e userId s) = None \<longrightarrow> snd (snd (acquireUserQuotaLock e userId s)) = 25) \<and>
   (newApiUrlSet e \<and> fst (acquireUserQuotaLock e userId s) = None \<longrightarrow>
      fst (creditQuotaToUser e userId dollars s x) = Inr (creditFailure MsgLockBusy) \<and>
      snd (snd (creditQuotaToUser e userId dollars s x)) = x)"
proof -
  obtain lock s' n where a: "acquireLoop e userId (lockToken e) 0 s = (lock, s', n)"
    by (cases "acquireLoop e userId (lockToken e) 0 s")
  from acquireLoop_bound [OF _ a]
  have "n \<le> USER_QUOTA_LOCK_MAX_RETRIES \<and> (lock = None \<longrightarrow> n = USER_QUOTA_LOCK_MAX_RETRIES)" by simp
  then have b: "snd (snd (acquireUserQuotaLock e userId s)) \<le> 25 \<and>
     (fst (acquireUserQuotaLock e userId s) = None \<longrightarrow> snd (snd (acquireUserQuotaLock e userId s)) = 25)"
    by (simp add: acquireUserQuotaLock_def a USER_QUOTA_LOCK_MAX_RETRIES_def)
  show ?thesis
    using b credit_busy [of e userId s dollars x]
    by (simp add: USER_QUOTA_LOCK_MAX_RETRIES_def USER_QUOTA_LOCK_RETRY_MS_def)
qed

text \<open>
  Witness for C9: the lock of account 7 stays with another holder.
\<close>

theorem lock_acquisition_is_bounded_witness:
  "newApiUrlSet sampleEnv \<and> fst (acquireUserQuotaLock sampleEnv 7 heldStore) = None \<and>
   snd (snd (acquireUserQuotaLock sampleEnv 7 heldStore)) = 25 \<and>
   fst (creditQuotaToUser sampleEnv 7 3 heldStore timeoutAfterDispatch) = Inr (creditFailure MsgLockBusy) \<and>
   snd (snd (creditQuotaToUser sampleEnv 7 3 heldStore timeoutAfterDispatch)) = timeoutAfterDispatch"
proof -
  have k: "\<forall>k h. lockAfterSleep sampleEnv k (Some h) \<noteq> None" by (simp add: sampleEnv_def)
  have "kv_quotaLock heldStore 7 \<noteq> None" by (simp add: heldStore_def)
  from acquireLoop_held [OF k this]
  have h: "newApiUrlSet sampleEnv \<and> fst (acquireUserQuotaLock sampleEnv 7 heldStore) = None"
    by (simp add: acquireUserQuotaLock_def sampleEnv_def)
  from lock_acquisition_is_bounded [of sampleEnv 7 heldStore 3 timeoutAfterDispatch] h
  show ?thesis by simp
qed

subsection \<open>C10: the weighted selection\<close>

text \<open>
  Claim C10. For every non-empty list of tiers of positive weight and every draw,
  \<open>weightedRandomSelect\<close> returns an element of the list; the affordable filter
  of \<open>spinLotteryDirect\<close> produces tiers of positive weight only; hence
  \<open>spinLotteryDirect\<close> never returns the configuration-error message.
\<close>

theorem weighted_select_never_null:
  "(tiers \<noteq> [] \<and> list_all (\<lambda>tier. probability tier > 0) tiers \<longrightarrow>
      (\<exists>tier \<in> set tiers. weightedRandomSelect draw tiers = Some tier)) \<and>
   list_all (\<lambda>tier. probability tier > 0)
     (filter (\<lambda>tier. probability tier > 0 \<and> tier_value tier \<le> remainingQuota) configTiers) \<and>
   sr_message (fst (spinLotteryDirect e linuxdoId username newApiUserId s x)) \<noteq> MsgConfigError"
  using weightedRandomSelect_mem [of tiers draw]
  by (simp add: list_all_iff spinLotteryDirect_message)

text \<open>
  Witness for C10: the default tiers and the draw 1/2.
\<close>

theorem weighted_select_never_null_witness:
  "DEFAULT_TIERS \<noteq> [] \<and> list_all (\<lambda>tier. probability tier > 0) DEFAULT_TIERS \<and>
   (\<exists>tier \<in> set DEFAULT_TIERS. weightedRandomSelect (1 / 2) DEFAULT_TIERS = Some tier)"
proof -
  have h: "DEFAULT_TIERS \<noteq> [] \<and> list_all (\<lambda>tier. probability tier > 0) DEFAULT_TIERS"
    by (simp add: DEFAULT_TIERS_def)
  from weighted_select_never_null [of DEFAULT_TIERS "1 / 2"] h show ?thesis by blast
qed

end
